theory Spec2Isabelle
  imports Complex_Main "HOL-Library.AList"
begin

section \<open>Common Python conventions\<close>

text \<open>
  Python floats are modelled by \<^typ>\<open>real\<close>: the comparisons of the source are exact
  on finite floats, and no property below depends on rounding.  Dictionaries are
  association lists, updated with \<^const>\<open>AList.update\<close> (a present key keeps its
  position, a new key goes last, as in a Python dict) and read with \<^const>\<open>map_of\<close>.
  An exception is a value of type \<open>error\<close>; every \<open>try/except\<close> of the source is a
  case distinction on it.
\<close>

datatype error = KeyError string | ValueError string | IndexError string | IOError string

type_synonym ('v) dict = "(string \<times> 'v) list"

definition getitem :: "'v dict \<Rightarrow> string \<Rightarrow> error + 'v" where
  "getitem d k = (case map_of d k of None \<Rightarrow> Inl (KeyError k) | Some v \<Rightarrow> Inr v)"

text \<open>The slice \<open>xs[:h]\<close>; a negative \<open>h\<close> counts from the end.\<close>

definition slice_to :: "'a list \<Rightarrow> int \<Rightarrow> 'a list" where
  "slice_to xs h = (if 0 \<le> h then take (nat h) xs else take (length xs - nat (- h)) xs)"

section \<open>Predictive scaling: \<open>models/predictive_scaling.py\<close>\<close>

subsection \<open>\<open>_generate_scaling_recommendations\<close>\<close>

record recommendation =
  rec_target :: string
  rec_hour :: nat
  rec_predicted_value :: real
  rec_threshold :: "real option"
  rec_action :: "string option"
  rec_priority :: string
  rec_reasoning :: "string list"

text \<open>
  The default \<open>scaling_thresholds\<close> of the constructor.  A caller's config replaces this
  dictionary as a whole (the merge \<open>{**default, **config}\<close> is shallow), so a key may be
  missing from the dictionary the method reads.
\<close>

definition default_scaling_thresholds :: "real dict" where
  "default_scaling_thresholds =
     [(''cpu_high'', 80), (''cpu_low'', 20),
      (''memory_high'', 85), (''memory_low'', 25),
      (''response_time_high'', 1000), (''response_time_low'', 100),
      (''throughput_low'', 100)]"

text \<open>
  One iteration of the loop body up to (not including) the final \<open>if recommendation['action']\<close>.
  \<open>fmt\<close> renders a float inside an f-string.  \<open>Inl\<close> is the \<open>KeyError\<close> of a threshold
  lookup.
\<close>

definition recommend ::
  "(real \<Rightarrow> string) \<Rightarrow> real dict \<Rightarrow> string \<Rightarrow> nat \<Rightarrow> real \<Rightarrow> error + recommendation" where
  "recommend fmt thresholds target i pred_value =
    (let recommendation = \<lparr> rec_target = target, rec_hour = i + 1,
           rec_predicted_value = pred_value, rec_threshold = None, rec_action = None,
           rec_priority = ''low'', rec_reasoning = [] \<rparr>
     in
     if target = ''cpu_usage'' then
       (case getitem thresholds ''cpu_high'' of Inl e \<Rightarrow> Inl e | Inr hi \<Rightarrow>
        if pred_value > hi then
          Inr (recommendation\<lparr> rec_action := Some ''scale_up'', rec_priority := ''high'',
                 rec_threshold := Some hi,
                 rec_reasoning := [''CPU usage predicted to exceed '' @ fmt hi @ ''%''] \<rparr>)
        else
          (case getitem thresholds ''cpu_low'' of Inl e \<Rightarrow> Inl e | Inr lo \<Rightarrow>
           if pred_value < lo then
             Inr (recommendation\<lparr> rec_action := Some ''scale_down'', rec_priority := ''medium'',
                    rec_threshold := Some lo,
                    rec_reasoning := [''CPU usage predicted to be below '' @ fmt lo @ ''%''] \<rparr>)
           else Inr recommendation))
     else if target = ''memory_usage'' then
       (case getitem thresholds ''memory_high'' of Inl e \<Rightarrow> Inl e | Inr hi \<Rightarrow>
        if pred_value > hi then
          Inr (recommendation\<lparr> rec_action := Some ''scale_up'', rec_priority := ''high'',
                 rec_threshold := Some hi,
                 rec_reasoning := [''Memory usage predicted to exceed '' @ fmt hi @ ''%''] \<rparr>)
        else
          (case getitem thresholds ''memory_low'' of Inl e \<Rightarrow> Inl e | Inr lo \<Rightarrow>
           if pred_value < lo then
             Inr (recommendation\<lparr> rec_action := Some ''scale_down'', rec_priority := ''medium'',
                    rec_threshold := Some lo,
                    rec_reasoning := [''Memory usage predicted to be below '' @ fmt lo @ ''%''] \<rparr>)
           else Inr recommendation))
     else if target = ''response_time'' then
       (case getitem thresholds ''response_time_high'' of Inl e \<Rightarrow> Inl e | Inr hi \<Rightarrow>
        if pred_value > hi then
          Inr (recommendation\<lparr> rec_action := Some ''scale_up'', rec_priority := ''high'',
                 rec_threshold := Some hi,
                 rec_reasoning := [''Response time predicted to exceed '' @ fmt hi @ ''ms''] \<rparr>)
        else
          (case getitem thresholds ''response_time_low'' of Inl e \<Rightarrow> Inl e | Inr lo \<Rightarrow>
           if pred_value < lo then
             Inr (recommendation\<lparr> rec_action := Some ''scale_down'', rec_priority := ''low'',
                    rec_threshold := Some lo,
                    rec_reasoning := [''Response time predicted to be below '' @ fmt lo @ ''ms''] \<rparr>)
           else Inr recommendation))
     else if target = ''throughput'' then
       (case getitem thresholds ''throughput_low'' of Inl e \<Rightarrow> Inl e | Inr lo \<Rightarrow>
        if pred_value < lo then
          Inr (recommendation\<lparr> rec_action := Some ''scale_up'', rec_priority := ''medium'',
                 rec_threshold := Some lo,
                 rec_reasoning := [''Throughput predicted to be below '' @ fmt lo @ '' req/sec''] \<rparr>)
        else Inr recommendation)
     else Inr recommendation)"

text \<open>
  The \<open>for i, pred_value in enumerate(predictions[:horizon])\<close> loop: \<open>i\<close> is the running
  index, \<open>recommendations\<close> the list built so far.  An exception leaves the loop and the
  handler returns what was collected before it.
\<close>

fun recommendations_loop ::
  "(real \<Rightarrow> string) \<Rightarrow> real dict \<Rightarrow> string \<Rightarrow> nat \<Rightarrow> real list \<Rightarrow> recommendation list
     \<Rightarrow> recommendation list" where
  "recommendations_loop fmt thresholds target i [] recommendations = recommendations"
| "recommendations_loop fmt thresholds target i (pred_value # rest) recommendations =
     (case recommend fmt thresholds target i pred_value of
        Inl e \<Rightarrow> recommendations
      | Inr recommendation \<Rightarrow>
          recommendations_loop fmt thresholds target (i + 1) rest
            (if rec_action recommendation \<noteq> None then recommendations @ [recommendation]
             else recommendations))"

definition generate_scaling_recommendations ::
  "(real \<Rightarrow> string) \<Rightarrow> real dict \<Rightarrow> string \<Rightarrow> real list \<Rightarrow> int \<Rightarrow> recommendation list" where
  "generate_scaling_recommendations fmt thresholds target predictions horizon =
     recommendations_loop fmt thresholds target 0 (slice_to predictions horizon) []"

text \<open>
  The configured band of a target: its high and low threshold keys.  \<open>throughput\<close> has
  a low threshold only.
\<close>

definition band_configured :: "real dict \<Rightarrow> string \<Rightarrow> string \<Rightarrow> real \<Rightarrow> real \<Rightarrow> bool" where
  "band_configured thresholds hk lk hi lo \<longleftrightarrow>
     map_of thresholds hk = Some hi \<and> map_of thresholds lk = Some lo \<and> lo \<le> hi"

definition band_keys :: "string \<Rightarrow> (string \<times> string) option" where
  "band_keys target =
     (if target = ''cpu_usage'' then Some (''cpu_high'', ''cpu_low'')
      else if target = ''memory_usage'' then Some (''memory_high'', ''memory_low'')
      else if target = ''response_time'' then Some (''response_time_high'', ''response_time_low'')
      else None)"

definition emitted :: "recommendation list \<Rightarrow> nat \<Rightarrow> string option \<Rightarrow> bool" where
  "emitted recs i act \<longleftrightarrow>
     (case act of
        None \<Rightarrow> \<not> (\<exists>r \<in> set recs. rec_hour r = i + 1)
      | Some a \<Rightarrow> (\<exists>r \<in> set recs. rec_hour r = i + 1 \<and> rec_action r = Some a)
                 \<and> (\<forall>r \<in> set recs. rec_hour r = i + 1 \<longrightarrow> rec_action r = Some a))"


section \<open>Anomaly detection: \<open>models/anomaly_detection.py\<close>\<close>

subsection \<open>Data\<close>

text \<open>
  A float that may be \<open>nan\<close>.  The values of an input frame are finite; \<open>nan\<close> arises from
  the z-score of a constant column (\<open>0/0\<close>) and from statistics of an empty sample.  Every
  comparison with \<open>nan\<close> is false, as in numpy.
\<close>

datatype npfloat = NaN | Fin real

fun fl_less :: "npfloat \<Rightarrow> npfloat \<Rightarrow> bool" where
  "fl_less (Fin a) (Fin b) = (a < b)"
| "fl_less _ _ = False"

fun fl_le :: "npfloat \<Rightarrow> npfloat \<Rightarrow> bool" where
  "fl_le (Fin a) (Fin b) = (a \<le> b)"
| "fl_le _ _ = False"

fun fl_add :: "npfloat \<Rightarrow> npfloat \<Rightarrow> npfloat" where
  "fl_add (Fin a) (Fin b) = Fin (a + b)"
| "fl_add _ _ = NaN"

fun fl_sub :: "npfloat \<Rightarrow> npfloat \<Rightarrow> npfloat" where
  "fl_sub (Fin a) (Fin b) = Fin (a - b)"
| "fl_sub _ _ = NaN"

fun fl_mul :: "npfloat \<Rightarrow> npfloat \<Rightarrow> npfloat" where
  "fl_mul (Fin a) (Fin b) = Fin (a * b)"
| "fl_mul _ _ = NaN"

text \<open>
  A \<open>DataFrame\<close>, reduced to its numeric columns (the only ones
  \<open>select_dtypes(include=[np.number])\<close> keeps): the column names and the rows, each row
  holding one value per column.  \<open>len(data)\<close> is the number of rows.
\<close>

record frame =
  columns :: "string list"
  rows :: "real list list"

definition len :: "frame \<Rightarrow> nat" where
  "len data = length (rows data)"

definition column_values :: "frame \<Rightarrow> nat \<Rightarrow> real list" where
  "column_values data j = map (\<lambda>r. r ! j) (rows data)"

text \<open>\<open>np.where(xs == v)[0]\<close> and \<open>np.where(P(xs))[0]\<close>: the positions that satisfy the test.\<close>

definition np_where :: "('a \<Rightarrow> bool) \<Rightarrow> 'a list \<Rightarrow> nat list" where
  "np_where P xs = filter (\<lambda>i. P (xs ! i)) [0 ..< length xs]"

text \<open>The detector's \<open>config\<close> after the merge with \<open>default_config\<close>.\<close>

record ad_config =
  contamination :: real
  random_state :: int
  n_estimators :: nat
  eps :: real
  min_samples :: nat
  z_score_threshold :: real
  iqr_multiplier :: real
  window_size :: nat
  min_anomalies :: nat
  confidence_threshold :: real

definition ad_default_config :: ad_config where
  "ad_default_config =
     \<lparr> contamination = 0.1, random_state = 42, n_estimators = 100,
       eps = 0.5, min_samples = 5,
       z_score_threshold = 3.0, iqr_multiplier = 1.5,
       window_size = 24, min_anomalies = 3, confidence_threshold = 0.7 \<rparr>"

text \<open>
  The library calls of the module (pandas, numpy, scipy, scikit-learn), taken as
  parameters.  \<open>'m\<close> is a fitted estimator, \<open>'s\<close> a fitted \<open>StandardScaler\<close>.  A call that
  can raise returns \<open>Inl\<close>.
  \<^item> \<open>quantile\<close>: \<open>Series.quantile(q)\<close>;
  \<^item> \<open>fit_transform\<close>: \<open>StandardScaler().fit_transform(X)\<close>, the fitted scaler and the
    scaled matrix;
  \<^item> \<open>iforest_fit\<close>, \<open>dbscan_fit\<close>: the constructor with the config's parameters, then
    \<open>fit(X)\<close>;
  \<^item> \<open>iforest_predict\<close>: \<open>model.predict(X)\<close>;
  \<^item> \<open>dbscan_fit_predict\<close>: \<open>model.fit_predict(X)\<close>, which refits the stored estimator:
    the estimator after the call and the labels;
  \<^item> \<open>zscore\<close>: \<open>np.abs(stats.zscore(values))\<close>;
  \<^item> \<open>percentile\<close>: \<open>np.percentile(values, q)\<close>.
\<close>

record ('m, 's) lib =
  quantile :: "real list \<Rightarrow> real \<Rightarrow> npfloat"
  fit_transform :: "real list list \<Rightarrow> error + ('s \<times> real list list)"
  iforest_fit :: "ad_config \<Rightarrow> real list list \<Rightarrow> error + 'm"
  iforest_predict :: "'m \<Rightarrow> real list list \<Rightarrow> error + int list"
  dbscan_fit :: "ad_config \<Rightarrow> real list list \<Rightarrow> error + 'm"
  dbscan_fit_predict :: "'m \<Rightarrow> real list list \<Rightarrow> error + ('m \<times> int list)"
  zscore :: "real list \<Rightarrow> npfloat list"
  percentile :: "npfloat list \<Rightarrow> real \<Rightarrow> error + npfloat"

text \<open>
  The attributes of an \<open>AnomalyDetectionModel\<close>.  \<open>last_training\<close> is a \<open>datetime\<close>,
  here a clock reading.
\<close>

record ('m, 's) detector =
  ad_config :: ad_config
  ad_models :: "'m dict"
  ad_scalers :: "'s dict"
  ad_thresholds :: "npfloat dict"
  ad_is_trained :: bool
  ad_last_training :: "nat option"

text \<open>\<open>__init__\<close> with no config argument.\<close>

definition ad_init :: "('m, 's) detector" where
  "ad_init = \<lparr> ad_config = ad_default_config, ad_models = [], ad_scalers = [],
               ad_thresholds = [], ad_is_trained = False, ad_last_training = None \<rparr>"

subsection \<open>\<open>preprocess_data\<close>\<close>

text \<open>
  \<open>fillna\<close> is the identity on finite values.  The loop removes, column after column,
  the rows outside the IQR fence of the rows that are left.
\<close>

fun iqr_filter :: "('m, 's) lib \<Rightarrow> real \<Rightarrow> nat list \<Rightarrow> frame \<Rightarrow> frame" where
  "iqr_filter L k [] data = data"
| "iqr_filter L k (j # js) data =
     (let Q1 = quantile L (column_values data j) 0.25;
          Q3 = quantile L (column_values data j) 0.75;
          IQR = fl_sub Q3 Q1;
          lower_bound = fl_sub Q1 (fl_mul (Fin k) IQR);
          upper_bound = fl_add Q3 (fl_mul (Fin k) IQR)
      in iqr_filter L k js
           (data\<lparr> rows := filter (\<lambda>r. fl_le lower_bound (Fin (r ! j)) \<and> fl_le (Fin (r ! j)) upper_bound)
                              (rows data) \<rparr>))"

text \<open>
  The scaler is stored in \<open>self.scalers['standard']\<close> whenever the frame has a numeric
  column and \<open>fit_transform\<close> does not raise; the handler returns the frame as filtered so
  far and stores nothing.
\<close>

definition preprocess_data ::
  "('m, 's) lib \<Rightarrow> ('m, 's) detector \<Rightarrow> frame \<Rightarrow> ('m, 's) detector \<times> frame" where
  "preprocess_data L self data0 =
     (let data = iqr_filter L (iqr_multiplier (ad_config self)) [0 ..< length (columns data0)] data0
      in if length (columns data) > 0 then
           (case fit_transform L (rows data) of
              Inl e \<Rightarrow> (self, data)
            | Inr (scaler, X) \<Rightarrow>
                (self\<lparr> ad_scalers := AList.update ''standard'' scaler (ad_scalers self) \<rparr>,
                 data\<lparr> rows := X \<rparr>))
         else (self, data))"

text \<open>
  The one property of the library that the results on training need: scaling a matrix
  keeps its number of rows.
\<close>

definition rows_kept :: "('m, 's) lib \<Rightarrow> bool" where
  "rows_kept L \<longleftrightarrow> (\<forall>X s X'. fit_transform L X = Inr (s, X') \<longrightarrow> length X' = length X)"

subsection \<open>Training\<close>

definition train_isolation_forest ::
  "('m, 's) lib \<Rightarrow> ('m, 's) detector \<Rightarrow> frame \<Rightarrow> string \<Rightarrow> ('m, 's) detector" where
  "train_isolation_forest L self data metric_name =
     (if len data < 10 then self
      else case iforest_fit L (ad_config self) (rows data) of
             Inl e \<Rightarrow> self
           | Inr model \<Rightarrow>
               self\<lparr> ad_models :=
                 AList.update (''isolation_forest_'' @ metric_name) model (ad_models self) \<rparr>)"

definition train_dbscan ::
  "('m, 's) lib \<Rightarrow> ('m, 's) detector \<Rightarrow> frame \<Rightarrow> string \<Rightarrow> ('m, 's) detector" where
  "train_dbscan L self data metric_name =
     (if len data < 10 then self
      else case dbscan_fit L (ad_config self) (rows data) of
             Inl e \<Rightarrow> self
           | Inr model \<Rightarrow>
               self\<lparr> ad_models :=
                 AList.update (''dbscan_'' @ metric_name) model (ad_models self) \<rparr>)"

text \<open>
  \<open>_calculate_statistical_thresholds\<close>: the loop over the numeric columns.  There is no
  minimum length here.  An exception ends the loop and keeps the thresholds of the
  columns before it.
\<close>

fun calculate_statistical_thresholds_loop ::
  "('m, 's) lib \<Rightarrow> ('m, 's) detector \<Rightarrow> frame \<Rightarrow> string \<Rightarrow> nat list \<Rightarrow> ('m, 's) detector" where
  "calculate_statistical_thresholds_loop L self data metric_name [] = self"
| "calculate_statistical_thresholds_loop L self data metric_name (j # js) =
     (let column = columns data ! j;
          values = column_values data j;
          z_scores = zscore L values
      in case percentile L z_scores 95 of Inl e \<Rightarrow> self | Inr z_threshold \<Rightarrow>
         (case percentile L (map Fin values) 25 of Inl e \<Rightarrow> self | Inr Q1 \<Rightarrow>
         (case percentile L (map Fin values) 75 of Inl e \<Rightarrow> self | Inr Q3 \<Rightarrow>
            (let IQR = fl_sub Q3 Q1;
                 iqr_threshold = fl_add Q3 (fl_mul (Fin (iqr_multiplier (ad_config self))) IQR)
             in calculate_statistical_thresholds_loop L
                  (self\<lparr> ad_thresholds :=
                     AList.update (metric_name @ ''_'' @ column @ ''_iqr'') iqr_threshold
                       (AList.update (metric_name @ ''_'' @ column @ ''_z_score'') z_threshold
                          (ad_thresholds self)) \<rparr>)
                  data metric_name js))))"

definition calculate_statistical_thresholds ::
  "('m, 's) lib \<Rightarrow> ('m, 's) detector \<Rightarrow> frame \<Rightarrow> string \<Rightarrow> ('m, 's) detector" where
  "calculate_statistical_thresholds L self data metric_name =
     calculate_statistical_thresholds_loop L self data metric_name [0 ..< length (columns data)]"

text \<open>
  \<open>train_models\<close>: \<open>training_data.items()\<close> in insertion order.  Every callee catches its
  own exceptions, so the outer handler (which would clear \<open>is_trained\<close>) has no path to it.
\<close>

fun train_models_loop ::
  "('m, 's) lib \<Rightarrow> ('m, 's) detector \<Rightarrow> (string \<times> frame) list \<Rightarrow> ('m, 's) detector" where
  "train_models_loop L self [] = self"
| "train_models_loop L self ((metric_name, data) # rest) =
     (if len data > 0 then
        (let (self1, processed_data) = preprocess_data L self data;
             self2 = train_isolation_forest L self1 processed_data metric_name;
             self3 = train_dbscan L self2 processed_data metric_name;
             self4 = calculate_statistical_thresholds L self3 processed_data metric_name
         in train_models_loop L self4 rest)
      else train_models_loop L self rest)"

definition ad_train_models ::
  "('m, 's) lib \<Rightarrow> nat \<Rightarrow> ('m, 's) detector \<Rightarrow> (string \<times> frame) list \<Rightarrow> ('m, 's) detector" where
  "ad_train_models L now self training_data =
     (train_models_loop L self training_data)\<lparr> ad_is_trained := True, ad_last_training := Some now \<rparr>"

subsection \<open>Detection\<close>

text \<open>
  An entry of the \<open>anomalies\<close> list.  The \<open>timestamp\<close> and \<open>metric_values\<close> entries, copies
  of the input row, are left out.
\<close>

record anomaly =
  a_index :: nat
  a_method :: string
  a_confidence :: real
  a_column :: "string option"
  a_value :: "real option"
  a_z_score :: "npfloat option"
  a_threshold :: "npfloat option"

definition flagged :: "anomaly list \<Rightarrow> nat \<Rightarrow> bool" where
  "flagged anomalies idx = list_ex (\<lambda>a. a_index a = idx) anomalies"

text \<open>
  \<open>min(0.9, z_scores[idx] / z_threshold)\<close> for a flagged index: a zero threshold gives
  \<open>inf\<close>, which the \<open>min\<close> caps; \<open>min(0.9, nan)\<close> is \<open>0.9\<close>.
\<close>

fun z_confidence :: "npfloat \<Rightarrow> npfloat \<Rightarrow> real" where
  "z_confidence (Fin z) (Fin t) = (if t = 0 then 0.9 else min 0.9 (z / t))"
| "z_confidence _ _ = 0.9"

fun iqr_append :: "string \<Rightarrow> real list \<Rightarrow> npfloat \<Rightarrow> anomaly list \<Rightarrow> nat list \<Rightarrow> anomaly list" where
  "iqr_append column values iqr_threshold anomalies [] = anomalies"
| "iqr_append column values iqr_threshold anomalies (idx # rest) =
     iqr_append column values iqr_threshold
       (if \<not> flagged anomalies idx then
          anomalies @ [\<lparr> a_index = idx, a_method = ''iqr'', a_confidence = 0.75,
                         a_column = Some column, a_value = Some (values ! idx),
                         a_z_score = None, a_threshold = Some iqr_threshold \<rparr>]
        else anomalies)
       rest"

text \<open>
  \<open>_detect_statistical_anomalies\<close>, on the raw batch.  The z-score threshold is the one
  stored at training under the metric and column, \<open>3.0\<close> when there is none; the IQR fence
  is always recomputed from the batch.
\<close>

fun detect_statistical_anomalies_loop ::
  "('m, 's) lib \<Rightarrow> ('m, 's) detector \<Rightarrow> frame \<Rightarrow> string \<Rightarrow> anomaly list \<Rightarrow> nat list
     \<Rightarrow> anomaly list" where
  "detect_statistical_anomalies_loop L self data metric_name anomalies [] = anomalies"
| "detect_statistical_anomalies_loop L self data metric_name anomalies (j # js) =
     (let column = columns data ! j in
      if column = ''timestamp'' then
        detect_statistical_anomalies_loop L self data metric_name anomalies js
      else
        (let values = column_values data j;
             z_scores = zscore L values;
             z_threshold =
               (case map_of (ad_thresholds self) (metric_name @ ''_'' @ column @ ''_z_score'') of
                  Some t \<Rightarrow> t | None \<Rightarrow> Fin 3.0);
             z_anomalies = np_where (\<lambda>z. fl_less z_threshold z) z_scores;
             anomalies1 = anomalies @
               map (\<lambda>idx. \<lparr> a_index = idx, a_method = ''z_score'',
                            a_confidence = z_confidence (z_scores ! idx) z_threshold,
                            a_column = Some column, a_value = Some (values ! idx),
                            a_z_score = Some (z_scores ! idx), a_threshold = Some z_threshold \<rparr>)
                   z_anomalies
         in case percentile L (map Fin values) 25 of Inl e \<Rightarrow> anomalies1 | Inr Q1 \<Rightarrow>
            (case percentile L (map Fin values) 75 of Inl e \<Rightarrow> anomalies1 | Inr Q3 \<Rightarrow>
               (let IQR = fl_sub Q3 Q1;
                    iqr_threshold = fl_add Q3 (fl_mul (Fin (iqr_multiplier (ad_config self))) IQR);
                    iqr_anomalies = np_where (\<lambda>v. fl_less iqr_threshold (Fin v)) values
                in detect_statistical_anomalies_loop L self data metric_name
                     (iqr_append column values iqr_threshold anomalies1 iqr_anomalies) js))))"

definition detect_statistical_anomalies ::
  "('m, 's) lib \<Rightarrow> ('m, 's) detector \<Rightarrow> frame \<Rightarrow> string \<Rightarrow> anomaly list" where
  "detect_statistical_anomalies L self data metric_name =
     detect_statistical_anomalies_loop L self data metric_name [] [0 ..< length (columns data)]"

text \<open>The dictionary \<open>detect_anomalies\<close> returns; the last three keys are not always present.\<close>

record detection =
  d_anomalies :: "anomaly list"
  d_confidence :: real
  d_method :: string
  d_error :: "string option"
  d_total_detected :: "nat option"
  d_filtered_count :: "nat option"

fun str :: "error \<Rightarrow> string" where
  "str (KeyError m) = m"
| "str (ValueError m) = m"
| "str (IndexError m) = m"
| "str (IOError m) = m"

definition np_mean :: "real list \<Rightarrow> real" where
  "np_mean xs = sum_list xs / real (length xs)"

text \<open>The two loops that merge the DBSCAN noise points and the statistical findings.\<close>

fun dbscan_append :: "anomaly list \<times> real list \<Rightarrow> nat list \<Rightarrow> anomaly list \<times> real list" where
  "dbscan_append (anomalies, confidence_scores) [] = (anomalies, confidence_scores)"
| "dbscan_append (anomalies, confidence_scores) (idx # rest) =
     dbscan_append
       (if \<not> flagged anomalies idx then
          (anomalies @ [\<lparr> a_index = idx, a_method = ''dbscan'', a_confidence = 0.7,
                          a_column = None, a_value = None, a_z_score = None, a_threshold = None \<rparr>],
           confidence_scores @ [0.7])
        else (anomalies, confidence_scores))
       rest"

fun statistical_append ::
  "anomaly list \<times> real list \<Rightarrow> anomaly list \<Rightarrow> anomaly list \<times> real list" where
  "statistical_append (anomalies, confidence_scores) [] = (anomalies, confidence_scores)"
| "statistical_append (anomalies, confidence_scores) (anomaly # rest) =
     statistical_append
       (if \<not> flagged anomalies (a_index anomaly) then
          (anomalies @ [anomaly], confidence_scores @ [a_confidence anomaly])
        else (anomalies, confidence_scores))
       rest"

definition not_trained_result :: detection where
  "not_trained_result =
     \<lparr> d_anomalies = [], d_confidence = 0.0, d_method = ''none'',
       d_error = Some ''Models not trained'', d_total_detected = None, d_filtered_count = None \<rparr>"

definition error_result :: "error \<Rightarrow> detection" where
  "error_result e =
     \<lparr> d_anomalies = [], d_confidence = 0.0, d_method = ''error'',
       d_error = Some (str e), d_total_detected = None, d_filtered_count = None \<rparr>"

text \<open>
  \<open>detect_anomalies\<close> returns the detector too: \<open>preprocess_data\<close> stores a scaler and
  \<open>fit_predict\<close> refits the stored DBSCAN estimator.  The only test before the work is the
  global flag \<open>is_trained\<close>.
\<close>

definition detect_anomalies ::
  "('m, 's) lib \<Rightarrow> ('m, 's) detector \<Rightarrow> frame \<Rightarrow> string \<Rightarrow> ('m, 's) detector \<times> detection" where
  "detect_anomalies L self data metric_name =
     (if \<not> ad_is_trained self then (self, not_trained_result)
      else
        (let (self1, processed_data) = preprocess_data L self data;
             X = rows processed_data
         in case (case map_of (ad_models self1) (''isolation_forest_'' @ metric_name) of
                    None \<Rightarrow> Inr ([], [])
                  | Some model \<Rightarrow>
                      (case iforest_predict L model X of
                         Inl e \<Rightarrow> Inl e
                       | Inr predictions \<Rightarrow>
                           (let anomaly_indices = np_where (\<lambda>p. p = - 1) predictions
                            in Inr (map (\<lambda>idx. \<lparr> a_index = idx, a_method = ''isolation_forest'',
                                             a_confidence = 0.8, a_column = None, a_value = None,
                                             a_z_score = None, a_threshold = None \<rparr>) anomaly_indices,
                                    map (\<lambda>idx. 0.8) anomaly_indices)))) of
              Inl e \<Rightarrow> (self1, error_result e)
            | Inr found1 \<Rightarrow>
           (case (case map_of (ad_models self1) (''dbscan_'' @ metric_name) of
                    None \<Rightarrow> Inr (self1, found1)
                  | Some model \<Rightarrow>
                      (case dbscan_fit_predict L model X of
                         Inl e \<Rightarrow> Inl e
                       | Inr (model', labels) \<Rightarrow>
                           Inr (self1\<lparr> ad_models :=
                                  AList.update (''dbscan_'' @ metric_name) model' (ad_models self1) \<rparr>,
                                dbscan_append found1 (np_where (\<lambda>l. l = - 1) labels)))) of
              Inl e \<Rightarrow> (self1, error_result e)
            | Inr (self2, found2) \<Rightarrow>
               (let statistical_anomalies = detect_statistical_anomalies L self2 data metric_name;
                    (anomalies, confidence_scores) = statistical_append found2 statistical_anomalies;
                    overall_confidence =
                      (if confidence_scores \<noteq> [] then np_mean confidence_scores else 0.0);
                    filtered_anomalies =
                      filter (\<lambda>a. a_confidence a \<ge> confidence_threshold (ad_config self2)) anomalies
                in (self2,
                    \<lparr> d_anomalies = filtered_anomalies, d_confidence = overall_confidence,
                      d_method = ''ensemble'', d_error = None,
                      d_total_detected = Some (length anomalies),
                      d_filtered_count = Some (length filtered_anomalies) \<rparr>)))))"

subsection \<open>Status and persistence\<close>

text \<open>\<open>get_model_status\<close>; \<open>isoformat()\<close> of the timestamp is the timestamp itself here.\<close>

record ad_status =
  s_is_trained :: bool
  s_last_training :: "nat option"
  s_models_count :: nat
  s_scalers_count :: nat
  s_thresholds_count :: nat
  s_config :: ad_config

definition ad_get_model_status :: "('m, 's) detector \<Rightarrow> ad_status" where
  "ad_get_model_status self =
     \<lparr> s_is_trained = ad_is_trained self,
       s_last_training = ad_last_training self,
       s_models_count = length (ad_models self),
       s_scalers_count = length (ad_scalers self),
       s_thresholds_count = length (ad_thresholds self),
       s_config = ad_config self \<rparr>"

text \<open>
  The object a bundle file deserialises to: a dictionary in which any of the keys may be
  absent (a file written by another component, or by another version).  The disk maps a
  path to the object stored there; \<open>joblib.dump\<close> raises on a path that is not writable,
  \<open>joblib.load\<close> on a path with no file.
\<close>

record ('m, 's) ad_bundle =
  b_models :: "'m dict option"
  b_scalers :: "'s dict option"
  b_thresholds :: "npfloat dict option"
  b_config :: "ad_config option"
  b_is_trained :: "bool option"
  b_last_training :: "nat option option"

record 'b disk =
  files :: "string \<Rightarrow> 'b option"
  writable :: "string \<Rightarrow> bool"

definition ad_save_models ::
  "('m, 's) ad_bundle disk \<Rightarrow> ('m, 's) detector \<Rightarrow> string \<Rightarrow> ('m, 's) ad_bundle disk" where
  "ad_save_models fs self filepath =
     (let model_data = \<lparr> b_models = Some (ad_models self), b_scalers = Some (ad_scalers self),
                         b_thresholds = Some (ad_thresholds self), b_config = Some (ad_config self),
                         b_is_trained = Some (ad_is_trained self),
                         b_last_training = Some (ad_last_training self) \<rparr>
      in if writable fs filepath then fs\<lparr> files := (files fs)(filepath := Some model_data) \<rparr>
         else fs)"

text \<open>
  \<open>load_models\<close> assigns the attributes one after the other inside the \<open>try\<close>; the handler
  only clears \<open>is_trained\<close>, so the attributes assigned before the exception keep the
  loaded values.
\<close>

definition ad_load_models ::
  "('m, 's) ad_bundle disk \<Rightarrow> ('m, 's) detector \<Rightarrow> string \<Rightarrow> ('m, 's) detector" where
  "ad_load_models fs self filepath =
     (case files fs filepath of
        None \<Rightarrow> self\<lparr> ad_is_trained := False \<rparr>
      | Some model_data \<Rightarrow>
     (case b_models model_data of
        None \<Rightarrow> self\<lparr> ad_is_trained := False \<rparr>
      | Some v1 \<Rightarrow> let self = self\<lparr> ad_models := v1 \<rparr> in
     (case b_scalers model_data of
        None \<Rightarrow> self\<lparr> ad_is_trained := False \<rparr>
      | Some v2 \<Rightarrow> let self = self\<lparr> ad_scalers := v2 \<rparr> in
     (case b_thresholds model_data of
        None \<Rightarrow> self\<lparr> ad_is_trained := False \<rparr>
      | Some v3 \<Rightarrow> let self = self\<lparr> ad_thresholds := v3 \<rparr> in
     (case b_config model_data of
        None \<Rightarrow> self\<lparr> ad_is_trained := False \<rparr>
      | Some v4 \<Rightarrow> let self = self\<lparr> ad_config := v4 \<rparr> in
     (case b_is_trained model_data of
        None \<Rightarrow> self\<lparr> ad_is_trained := False \<rparr>
      | Some v5 \<Rightarrow> let self = self\<lparr> ad_is_trained := v5 \<rparr> in
     (case b_last_training model_data of
        None \<Rightarrow> self\<lparr> ad_is_trained := False \<rparr>
      | Some v6 \<Rightarrow> self\<lparr> ad_last_training := v6 \<rparr>)))))))"


subsection \<open>The statistics of the library, for concrete runs\<close>

text \<open>
  The textbook definitions behind the numpy, pandas and scipy calls, on finite samples:
  linear interpolation between the order statistics at position \<open>(n - 1) q\<close>, the
  population variance, standardisation with a zero spread replaced by one.
\<close>

definition interpolate :: "real list \<Rightarrow> real \<Rightarrow> real" where
  "interpolate xs q =
     (let s = sort xs; h = real (length xs - 1) * q; lo = nat \<lfloor>h\<rfloor>
      in if lo + 1 < length xs then s ! lo + (h - real lo) * (s ! (lo + 1) - s ! lo)
         else s ! lo)"

definition pd_quantile :: "real list \<Rightarrow> real \<Rightarrow> npfloat" where
  "pd_quantile xs q = (if xs = [] then NaN else Fin (interpolate xs q))"

fun finite_values :: "npfloat list \<Rightarrow> real list option" where
  "finite_values [] = Some []"
| "finite_values (NaN # xs) = None"
| "finite_values (Fin x # xs) = map_option ((#) x) (finite_values xs)"

definition np_percentile :: "npfloat list \<Rightarrow> real \<Rightarrow> error + npfloat" where
  "np_percentile xs q =
     (if xs = [] then Inl (ValueError ''empty sample'')
      else case finite_values xs of
             None \<Rightarrow> Inr NaN
           | Some vs \<Rightarrow> Inr (Fin (interpolate vs (q / 100))))"

definition pvariance :: "real list \<Rightarrow> real" where
  "pvariance xs = np_mean (map (\<lambda>x. (x - np_mean xs)\<^sup>2) xs)"

definition scipy_zscore :: "real list \<Rightarrow> npfloat list" where
  "scipy_zscore xs =
     (if pvariance xs = 0 then map (\<lambda>x. NaN) xs
      else map (\<lambda>x. Fin (\<bar>x - np_mean xs\<bar> / sqrt (pvariance xs))) xs)"

text \<open>
  A fitted \<open>StandardScaler\<close> is its \<open>mean_\<close> and \<open>var_\<close>; a fitted estimator is the
  matrix it was fitted on.  The estimators refuse a matrix with no row or no column.
\<close>

definition matrix_column :: "real list list \<Rightarrow> nat \<Rightarrow> real list" where
  "matrix_column X j = map (\<lambda>r. r ! j) X"

definition scale_of :: "real \<Rightarrow> real" where
  "scale_of var = (if var = 0 then 1 else sqrt var)"

definition standard_fit_transform ::
  "real list list \<Rightarrow> error + ((real list \<times> real list) \<times> real list list)" where
  "standard_fit_transform X =
     (if X = [] then Inl (ValueError ''Found array with 0 sample(s)'')
      else
        (let n = length (hd X);
             means = map (\<lambda>j. np_mean (matrix_column X j)) [0 ..< n];
             vars = map (\<lambda>j. pvariance (matrix_column X j)) [0 ..< n]
         in Inr ((means, vars),
                 map (\<lambda>r. map (\<lambda>j. (r ! j - means ! j) / scale_of (vars ! j)) [0 ..< n]) X)))"

definition estimator_fit :: "real list list \<Rightarrow> error + real list list" where
  "estimator_fit X =
     (if X = [] then Inl (ValueError ''Found array with 0 sample(s)'')
      else if hd X = [] then Inl (ValueError ''Found array with 0 feature(s)'')
      else Inr X)"

text \<open>
  The library with these statistics.  The predictions of the two estimators are the
  arguments: the forest's \<open>predict\<close> and the labels of DBSCAN.
\<close>

definition stats_lib ::
  "(real list list \<Rightarrow> real list list \<Rightarrow> error + int list) \<Rightarrow>
   (real list list \<Rightarrow> error + int list) \<Rightarrow>
   (real list list, real list \<times> real list) lib" where
  "stats_lib forest_predict dbscan_labels =
     \<lparr> quantile = pd_quantile,
       fit_transform = standard_fit_transform,
       iforest_fit = (\<lambda>cfg X. estimator_fit X),
       iforest_predict = forest_predict,
       dbscan_fit = (\<lambda>cfg X. estimator_fit X),
       dbscan_fit_predict =
         (\<lambda>model X. case dbscan_labels X of Inl e \<Rightarrow> Inl e | Inr labels \<Rightarrow> Inr (X, labels)),
       zscore = scipy_zscore,
       percentile = np_percentile \<rparr>"

text \<open>
  Stand-ins for the two predictions in runs that never reach an estimator: reaching one
  would make \<open>detect_anomalies\<close> return its \<open>error\<close> result.
\<close>

definition no_forest :: "real list list \<Rightarrow> real list list \<Rightarrow> error + int list" where
  "no_forest model X = Inl (ValueError ''no estimator in this run'')"

definition no_dbscan :: "real list list \<Rightarrow> error + int list" where
  "no_dbscan X = Inl (ValueError ''no estimator in this run'')"


text \<open>Sample runs: a two-row training series and a five-row batch with one spike.\<close>

definition example_lib :: "(real list list, real list \<times> real list) lib" where
  "example_lib = stats_lib no_forest no_dbscan"

definition short_series :: frame where
  "short_series = \<lparr> columns = [''v''], rows = [[0], [2]] \<rparr>"

definition spike_batch :: frame where
  "spike_batch = \<lparr> columns = [''v''], rows = [[0], [0], [0], [0], [5]] \<rparr>"

definition short_trained :: "(real list list, real list \<times> real list) detector" where
  "short_trained = ad_train_models example_lib 7 ad_init [(''m'', short_series)]"

text \<open>Ten equal rows; and ten rows of which the IQR fence removes one.\<close>

definition steady_series :: frame where
  "steady_series = \<lparr> columns = [''v''], rows = replicate 10 [3] \<rparr>"

definition outlier_series :: frame where
  "outlier_series = \<lparr> columns = [''v''], rows = replicate 9 [0] @ [[100]] \<rparr>"


section \<open>Predictive scaling: state and persistence\<close>

text \<open>
  The scaler's \<open>config\<close> after the merge with \<open>default_config\<close>.  The hyperparameters
  under \<open>config['models']\<close> only reach the estimators' constructors and belong to the
  library calls.
\<close>

record ps_config =
  prediction_horizon :: int
  feature_window :: nat
  min_training_samples :: nat
  test_size :: real
  split_random_state :: int
  scaling_thresholds :: "real dict"

definition ps_default_config :: ps_config where
  "ps_default_config =
     \<lparr> prediction_horizon = 24, feature_window = 168, min_training_samples = 100,
       test_size = 0.2, split_random_state = 42,
       scaling_thresholds = default_scaling_thresholds \<rparr>"

text \<open>
  The attributes of a \<open>PredictiveScalingModel\<close>.  \<open>feature_importance\<close> and
  \<open>performance_metrics\<close> are dictionaries target, model name, key to float.
\<close>

record ('m, 's) scaling_model =
  ps_config :: ps_config
  ps_models :: "'m dict"
  ps_scalers :: "'s dict"
  ps_feature_importance :: "real dict dict dict"
  ps_is_trained :: bool
  ps_last_training :: "nat option"
  ps_performance_metrics :: "real dict dict dict"

definition ps_init :: "('m, 's) scaling_model" where
  "ps_init = \<lparr> ps_config = ps_default_config, ps_models = [], ps_scalers = [],
               ps_feature_importance = [], ps_is_trained = False, ps_last_training = None,
               ps_performance_metrics = [] \<rparr>"

record ps_status =
  pss_is_trained :: bool
  pss_last_training :: "nat option"
  pss_models_count :: nat
  pss_scalers_count :: nat
  pss_performance_metrics :: "real dict dict dict"
  pss_feature_importance :: "real dict dict dict"
  pss_config :: ps_config

definition ps_get_model_status :: "('m, 's) scaling_model \<Rightarrow> ps_status" where
  "ps_get_model_status self =
     \<lparr> pss_is_trained = ps_is_trained self,
       pss_last_training = ps_last_training self,
       pss_models_count = length (ps_models self),
       pss_scalers_count = length (ps_scalers self),
       pss_performance_metrics = ps_performance_metrics self,
       pss_feature_importance = ps_feature_importance self,
       pss_config = ps_config self \<rparr>"

record ('m, 's) ps_bundle =
  pb_models :: "'m dict option"
  pb_scalers :: "'s dict option"
  pb_feature_importance :: "real dict dict dict option"
  pb_performance_metrics :: "real dict dict dict option"
  pb_config :: "ps_config option"
  pb_is_trained :: "bool option"
  pb_last_training :: "nat option option"

definition ps_save_models ::
  "('m, 's) ps_bundle disk \<Rightarrow> ('m, 's) scaling_model \<Rightarrow> string \<Rightarrow> ('m, 's) ps_bundle disk" where
  "ps_save_models fs self filepath =
     (let model_data = \<lparr> pb_models = Some (ps_models self), pb_scalers = Some (ps_scalers self),
                         pb_feature_importance = Some (ps_feature_importance self),
                         pb_performance_metrics = Some (ps_performance_metrics self),
                         pb_config = Some (ps_config self),
                         pb_is_trained = Some (ps_is_trained self),
                         pb_last_training = Some (ps_last_training self) \<rparr>
      in if writable fs filepath then fs\<lparr> files := (files fs)(filepath := Some model_data) \<rparr>
         else fs)"

definition ps_load_models ::
  "('m, 's) ps_bundle disk \<Rightarrow> ('m, 's) scaling_model \<Rightarrow> string \<Rightarrow> ('m, 's) scaling_model" where
  "ps_load_models fs self filepath =
     (case files fs filepath of
        None \<Rightarrow> self\<lparr> ps_is_trained := False \<rparr>
      | Some model_data \<Rightarrow>
     (case pb_models model_data of
        None \<Rightarrow> self\<lparr> ps_is_trained := False \<rparr>
      | Some v1 \<Rightarrow> let self = self\<lparr> ps_models := v1 \<rparr> in
     (case pb_scalers model_data of
        None \<Rightarrow> self\<lparr> ps_is_trained := False \<rparr>
      | Some v2 \<Rightarrow> let self = self\<lparr> ps_scalers := v2 \<rparr> in
     (case pb_feature_importance model_data of
        None \<Rightarrow> self\<lparr> ps_is_trained := False \<rparr>
      | Some v3 \<Rightarrow> let self = self\<lparr> ps_feature_importance := v3 \<rparr> in
     (case pb_performance_metrics model_data of
        None \<Rightarrow> self\<lparr> ps_is_trained := False \<rparr>
      | Some v4 \<Rightarrow> let self = self\<lparr> ps_performance_metrics := v4 \<rparr> in
     (case pb_config model_data of
        None \<Rightarrow> self\<lparr> ps_is_trained := False \<rparr>
      | Some v5 \<Rightarrow> let self = self\<lparr> ps_config := v5 \<rparr> in
     (case pb_is_trained model_data of
        None \<Rightarrow> self\<lparr> ps_is_trained := False \<rparr>
      | Some v6 \<Rightarrow> let self = self\<lparr> ps_is_trained := v6 \<rparr> in
     (case pb_last_training model_data of
        None \<Rightarrow> self\<lparr> ps_is_trained := False \<rparr>
      | Some v7 \<Rightarrow> self\<lparr> ps_last_training := v7 \<rparr>))))))))"


section \<open>Predictive scaling: training and prediction\<close>

text \<open>
  A row of the feature table that \<open>prepare_features\<close> returns.  \<open>X\<close> and \<open>y\<close> are the two
  column groups of the same rows; \<open>s_index\<close> is the row's label in the index of the frame
  (both groups carry it), \<open>s_time\<close> is the row's timestamp (the \<open>timestamp\<close> column itself
  is not among the features), \<open>s_y\<close> holds the four targets in the order of
  \<open>lag_features\<close>.
\<close>

record sample =
  s_index :: nat
  s_time :: nat
  s_x :: "real list"
  s_y :: "npfloat list"

definition lag_features :: "string list" where
  "lag_features = [''cpu_usage'', ''memory_usage'', ''response_time'', ''throughput'']"

text \<open>
  The library calls (pandas, numpy, scikit-learn) and the pandas-only method
  \<open>prepare_features\<close>, taken as parameters; \<open>'d\<close> is a raw \<open>DataFrame\<close>.
  \<^item> \<open>prepare_features\<close>: the rows sorted by timestamp with their lag, rolling and
    calendar features, the rows with an incomplete window dropped; it raises without a
    \<open>timestamp\<close> column;
  \<^item> \<open>permutation seed n\<close>: the shuffle of \<open>train_test_split\<close>, that is
    \<open>RandomState(seed).permutation(n)\<close>;
  \<^item> \<open>ceil_product test_size n\<close>: \<open>ceil(test_size * n)\<close> as \<open>train_test_split\<close> computes
    it, on the double product (which can exceed the exact product: \<open>0.55 * 100\<close> gives
    56);
  \<^item> \<open>scaler_fit_transform\<close>, \<open>scaler_transform\<close>: \<open>StandardScaler\<close>;
  \<^item> \<open>rf_fit\<close>, \<open>gb_fit\<close>, \<open>lr_fit\<close>: constructor and \<open>fit\<close> of the three regressors;
  \<^item> \<open>evaluate_models\<close>: what \<open>_evaluate_models\<close> leaves in
    \<open>performance_metrics[target]\<close> (it catches its own exceptions);
  \<^item> \<open>importances\<close>: \<open>dict(zip(X.columns, model.feature_importances_))\<close>;
  \<^item> \<open>model_predict\<close>: \<open>model.predict(X)\<close>.
\<close>

record ('d, 'm, 's) ps_lib =
  frame_len :: "'d \<Rightarrow> nat"
  frame_columns :: "'d \<Rightarrow> string list"
  prepare_features :: "'d \<Rightarrow> error + sample list"
  permutation :: "int \<Rightarrow> nat \<Rightarrow> nat list"
  ceil_product :: "real \<Rightarrow> nat \<Rightarrow> nat"
  scaler_fit_transform :: "real list list \<Rightarrow> error + ('s \<times> real list list)"
  scaler_transform :: "'s \<Rightarrow> real list list \<Rightarrow> error + real list list"
  rf_fit :: "real list list \<Rightarrow> npfloat list \<Rightarrow> error + 'm"
  gb_fit :: "real list list \<Rightarrow> npfloat list \<Rightarrow> error + 'm"
  lr_fit :: "real list list \<Rightarrow> npfloat list \<Rightarrow> error + 'm"
  evaluate_models :: "'m \<Rightarrow> 'm \<Rightarrow> 'm \<Rightarrow> real list list \<Rightarrow> npfloat list \<Rightarrow> real dict dict"
  importances :: "'m \<Rightarrow> real dict"
  model_predict :: "'m \<Rightarrow> real list list \<Rightarrow> error + real list"

subsection \<open>\<open>train_test_split\<close> as it is called\<close>

text \<open>
  \<open>train_test_split(X, y, test_size=..., random_state=...)\<close>: no \<open>shuffle\<close> argument, so
  the rows are shuffled.  scikit-learn takes \<open>n_test = ceil(test_size * n)\<close> (the
  argument \<open>ceil_mul\<close>) and \<open>n_train = n - n_test\<close>, refuses a \<open>test_size\<close> outside \<open>(0, 1)\<close>
  and an empty training part, and returns the rows at \<open>permutation[n_test:]\<close> as the
  training part and those at \<open>permutation[:n_test]\<close> as the test part, in the order of the
  permutation.
\<close>

definition train_test_split ::
  "(int \<Rightarrow> nat \<Rightarrow> nat list) \<Rightarrow> (real \<Rightarrow> nat \<Rightarrow> nat) \<Rightarrow> 'a list \<Rightarrow> real \<Rightarrow> int
     \<Rightarrow> error + ('a list \<times> 'a list)" where
  "train_test_split perm ceil_mul prepared ts seed =
     (let n = length prepared; n_test = ceil_mul ts n; n_train = n - n_test
      in if \<not> (0 < ts \<and> ts < 1) then Inl (ValueError ''test_size'')
         else if n_train = 0 then Inl (ValueError ''the resulting train set will be empty'')
         else Inr (map (\<lambda>i. prepared ! i) (drop n_test (perm seed n)),
                   map (\<lambda>i. prepared ! i) (take n_test (perm seed n))))"

text \<open>A split is time-ordered when no training row is later than a test row.\<close>

definition time_ordered :: "sample list \<Rightarrow> sample list \<Rightarrow> bool" where
  "time_ordered train test \<longleftrightarrow> (\<forall>a \<in> set train. \<forall>b \<in> set test. s_time a \<le> s_time b)"

text \<open>The library shuffles: every \<open>permutation seed n\<close> lists \<open>0, ..., n - 1\<close> once each.\<close>

definition shuffles :: "(int \<Rightarrow> nat \<Rightarrow> nat list) \<Rightarrow> bool" where
  "shuffles perm \<longleftrightarrow> (\<forall>seed n. distinct (perm seed n) \<and> set (perm seed n) = {..<n})"

subsection \<open>The mask of the rows without a missing target\<close>

text \<open>
  A pandas \<open>Series\<close> is the list of its labelled values.  \<open>a.isna() | b.isna()\<close> aligns
  the two on the union of their indexes (for unique indexes, the sorted union) and takes
  a label that one side misses as \<open>False\<close> there; \<open>~\<close> negates each entry.
\<close>

fun isna :: "npfloat \<Rightarrow> bool" where
  "isna NaN = True"
| "isna (Fin x) = False"

definition isna_at :: "(nat \<times> npfloat) list \<Rightarrow> nat \<Rightarrow> bool" where
  "isna_at series l = (case map_of series l of Some v \<Rightarrow> isna v | None \<Rightarrow> False)"

definition valid_mask :: "(nat \<times> npfloat) list \<Rightarrow> (nat \<times> npfloat) list \<Rightarrow> (nat \<times> bool) list" where
  "valid_mask y_train_target y_test_target =
     map (\<lambda>l. (l, \<not> (isna_at y_train_target l \<or> isna_at y_test_target l)))
       (sort (remdups (map fst y_train_target @ map fst y_test_target)))"

text \<open>
  \<open>X[mask]\<close> on a numpy matrix takes the values of the mask by position and raises when
  the mask is not as long as the matrix.  \<open>y[mask]\<close> on a \<open>Series\<close> looks the mask up by
  label; the mask above has every label of \<open>y\<close>.
\<close>

definition bool_index :: "'a list \<Rightarrow> bool list \<Rightarrow> error + 'a list" where
  "bool_index X flags =
     (if length flags \<noteq> length X
      then Inl (IndexError ''boolean index did not match indexed array along axis 0'')
      else Inr (map fst (filter snd (zip X flags))))"

definition series_where :: "(nat \<times> npfloat) list \<Rightarrow> (nat \<times> bool) list \<Rightarrow> npfloat list" where
  "series_where series flags =
     map snd (filter (\<lambda>entry. map_of flags (fst entry) = Some True) series)"

subsection \<open>\<open>train_models\<close>\<close>

text \<open>
  The loop over \<open>y.columns\<close>; \<open>k\<close> is the position of the target in \<open>lag_features\<close>.  The
  mask is built from the target's values in both parts, so its index is the union of
  the two parts' indexes, and it is applied to the scaled matrices of each part.  An
  exception leaves the loop with the models stored so far.
\<close>

fun train_targets ::
  "('d, 'm, 's) ps_lib \<Rightarrow> ('m, 's) scaling_model \<Rightarrow> sample list \<Rightarrow> sample list
     \<Rightarrow> real list list \<Rightarrow> real list list \<Rightarrow> nat list
     \<Rightarrow> ('m, 's) scaling_model \<times> error option" where
  "train_targets P self train test X_train_scaled X_test_scaled [] = (self, None)"
| "train_targets P self train test X_train_scaled X_test_scaled (k # ks) =
     (let target = lag_features ! k;
          y_train_target = map (\<lambda>s. (s_index s, s_y s ! k)) train;
          y_test_target = map (\<lambda>s. (s_index s, s_y s ! k)) test;
          valid_indices = valid_mask y_train_target y_test_target
      in case bool_index X_train_scaled (map snd valid_indices) of
           Inl e \<Rightarrow> (self, Some e)
         | Inr X_train_valid \<Rightarrow>
      (let y_train_valid = series_where y_train_target valid_indices
       in case bool_index X_test_scaled (map snd valid_indices) of
            Inl e \<Rightarrow> (self, Some e)
          | Inr X_test_valid \<Rightarrow>
      (let y_test_valid = series_where y_test_target valid_indices
       in if length X_train_valid = 0 then
               train_targets P self train test X_train_scaled X_test_scaled ks
             else
               (case rf_fit P X_train_valid y_train_valid of
                  Inl e \<Rightarrow> (self, Some e)
                | Inr rf_model \<Rightarrow>
               (let self1 = self\<lparr> ps_models :=
                      AList.update (''random_forest_'' @ target) rf_model (ps_models self) \<rparr>
                in case gb_fit P X_train_valid y_train_valid of
                     Inl e \<Rightarrow> (self1, Some e)
                   | Inr gb_model \<Rightarrow>
               (let self2 = self1\<lparr> ps_models :=
                      AList.update (''gradient_boosting_'' @ target) gb_model (ps_models self1) \<rparr>
                in case lr_fit P X_train_valid y_train_valid of
                     Inl e \<Rightarrow> (self2, Some e)
                   | Inr lr_model \<Rightarrow>
               (let self3 = self2\<lparr> ps_models :=
                      AList.update (''linear_regression_'' @ target) lr_model (ps_models self2) \<rparr>;
                    self4 = self3\<lparr> ps_performance_metrics :=
                      AList.update target
                        (evaluate_models P rf_model gb_model lr_model X_test_valid y_test_valid)
                        (ps_performance_metrics self3) \<rparr>;
                    self5 = self4\<lparr> ps_feature_importance :=
                      AList.update target
                        [(''random_forest'', importances P rf_model),
                         (''gradient_boosting'', importances P gb_model)]
                        (ps_feature_importance self4) \<rparr>
                in train_targets P self5 train test X_train_scaled X_test_scaled ks)))))))"

text \<open>
  \<open>train_models\<close> returns the model and the exception it re-raises, if any; the handler
  clears \<open>is_trained\<close> first.  The scaler is fitted on the training part only and stored
  before the loop over the targets.
\<close>

definition ps_train_models ::
  "('d, 'm, 's) ps_lib \<Rightarrow> nat \<Rightarrow> ('m, 's) scaling_model \<Rightarrow> 'd
     \<Rightarrow> ('m, 's) scaling_model \<times> error option" where
  "ps_train_models P now self training_data =
     (if frame_len P training_data < min_training_samples (ps_config self) then
        (self\<lparr> ps_is_trained := False \<rparr>, Some (ValueError ''Insufficient training data''))
      else
        (case prepare_features P training_data of
           Inl e \<Rightarrow> (self\<lparr> ps_is_trained := False \<rparr>, Some e)
         | Inr prepared \<Rightarrow>
        (case train_test_split (permutation P) (ceil_product P) prepared (test_size (ps_config self))
                (split_random_state (ps_config self)) of
           Inl e \<Rightarrow> (self\<lparr> ps_is_trained := False \<rparr>, Some e)
         | Inr (train, test) \<Rightarrow>
        (case scaler_fit_transform P (map s_x train) of
           Inl e \<Rightarrow> (self\<lparr> ps_is_trained := False \<rparr>, Some e)
         | Inr (scaler, X_train_scaled) \<Rightarrow>
        (case scaler_transform P scaler (map s_x test) of
           Inl e \<Rightarrow> (self\<lparr> ps_is_trained := False \<rparr>, Some e)
         | Inr X_test_scaled \<Rightarrow>
        (let self1 = self\<lparr> ps_scalers :=
                       AList.update ''feature_scaler'' scaler (ps_scalers self) \<rparr>
         in case train_targets P self1 train test X_train_scaled X_test_scaled
                   [0 ..< length lag_features] of
              (self2, Some e) \<Rightarrow> (self2\<lparr> ps_is_trained := False \<rparr>, Some e)
            | (self2, None) \<Rightarrow>
                (self2\<lparr> ps_is_trained := True, ps_last_training := Some now \<rparr>, None)))))))"

subsection \<open>\<open>predict_scaling_needs\<close>\<close>

record prediction =
  p_predictions :: "real list dict"
  p_scaling_recommendations :: "recommendation list"
  p_confidence :: real
  p_error :: "string option"
  p_prediction_horizon :: "int option"
  p_timestamp :: "nat option"

text \<open>\<open>col.split('_')[0]\<close>.\<close>

definition first_segment :: "string \<Rightarrow> string" where
  "first_segment col = takeWhile (\<lambda>c. c \<noteq> CHR ''_'') col"

text \<open>The predictions of the stored models of one target, in the order of the model names.\<close>

fun target_predictions ::
  "('d, 'm, 's) ps_lib \<Rightarrow> 'm dict \<Rightarrow> string \<Rightarrow> real list list \<Rightarrow> string list
     \<Rightarrow> error + real list list" where
  "target_predictions P models target X [] = Inr []"
| "target_predictions P models target X (model_name # rest) =
     (case map_of models (model_name @ ''_'' @ target) of
        None \<Rightarrow> target_predictions P models target X rest
      | Some model \<Rightarrow>
          (case model_predict P model X of
             Inl e \<Rightarrow> Inl e
           | Inr pred \<Rightarrow>
               (case target_predictions P models target X rest of
                  Inl e \<Rightarrow> Inl e
                | Inr preds \<Rightarrow> Inr (pred # preds))))"

text \<open>\<open>np.mean(target_predictions, axis=0)\<close>: the mean at each position.\<close>

definition ensemble_mean :: "real list list \<Rightarrow> real list" where
  "ensemble_mean preds =
     map (\<lambda>i. np_mean (map (\<lambda>p. p ! i) preds)) [0 ..< length (hd preds)]"

fun predict_targets ::
  "('d, 'm, 's) ps_lib \<Rightarrow> (real \<Rightarrow> string) \<Rightarrow> ('m, 's) scaling_model \<Rightarrow> 'd \<Rightarrow> real list list
     \<Rightarrow> int \<Rightarrow> string list \<Rightarrow> real list dict \<times> recommendation list
     \<Rightarrow> error + real list dict \<times> recommendation list" where
  "predict_targets P fmt self current_data X horizon [] acc = Inr acc"
| "predict_targets P fmt self current_data X horizon (target # rest) (predictions, recs) =
     (if target \<notin> set (map first_segment (frame_columns P current_data)) then
        predict_targets P fmt self current_data X horizon rest (predictions, recs)
      else
        (case target_predictions P (ps_models self) target X
                [''random_forest'', ''gradient_boosting'', ''linear_regression''] of
           Inl e \<Rightarrow> Inl e
         | Inr preds \<Rightarrow>
             if preds \<noteq> [] then
               (let ensemble_pred = ensemble_mean preds
                in predict_targets P fmt self current_data X horizon rest
                     (AList.update target ensemble_pred predictions,
                      recs @ generate_scaling_recommendations fmt
                               (scaling_thresholds (ps_config self)) target ensemble_pred horizon))
             else predict_targets P fmt self current_data X horizon rest (predictions, recs)))"

text \<open>
  \<open>_calculate_prediction_confidence\<close>: the best \<open>r2\<close> of a target with recorded metrics,
  and the consistency score of a forecast of more than one point.  A metrics entry
  without \<open>r2\<close>, or an empty one, raises inside; the handler returns \<open>0.0\<close>.
\<close>

fun confidence_scores :: "real dict dict dict \<Rightarrow> real list dict \<Rightarrow> real list option" where
  "confidence_scores metrics [] = Some []"
| "confidence_scores metrics ((target, pred_values) # rest) =
     (case (case map_of metrics target of
              None \<Rightarrow> Some []
            | Some per_model \<Rightarrow>
                if per_model = [] \<or> list_ex (\<lambda>m. map_of (snd m) ''r2'' = None) per_model then None
                else Some [Max (set (map (\<lambda>m. the (map_of (snd m) ''r2'')) per_model))]) of
        None \<Rightarrow> None
      | Some best \<Rightarrow>
          (case confidence_scores metrics rest of
             None \<Rightarrow> None
           | Some others \<Rightarrow>
               Some (best
                     @ (if length pred_values > 1
                        then [max 0 (1 - pvariance pred_values / 100)] else [])
                     @ others)))"

definition calculate_prediction_confidence ::
  "('m, 's) scaling_model \<Rightarrow> real list dict \<Rightarrow> real" where
  "calculate_prediction_confidence self predictions =
     (if predictions = [] then 0.0
      else case confidence_scores (ps_performance_metrics self) predictions of
             None \<Rightarrow> 0.0
           | Some scores \<Rightarrow> if scores \<noteq> [] then np_mean scores else 0.0)"

definition ps_error_result :: "string \<Rightarrow> prediction" where
  "ps_error_result msg =
     \<lparr> p_predictions = [], p_scaling_recommendations = [], p_confidence = 0.0,
       p_error = Some msg, p_prediction_horizon = None, p_timestamp = None \<rparr>"

text \<open>
  \<open>predict_scaling_needs\<close> returns the model too.  The features of the window are scaled
  with the scaler stored under \<open>feature_scaler\<close>, if there is one.
\<close>

definition predict_scaling_needs ::
  "('d, 'm, 's) ps_lib \<Rightarrow> (real \<Rightarrow> string) \<Rightarrow> nat \<Rightarrow> ('m, 's) scaling_model \<Rightarrow> 'd \<Rightarrow> int option
     \<Rightarrow> ('m, 's) scaling_model \<times> prediction" where
  "predict_scaling_needs P fmt now self current_data prediction_horizon_arg =
     (if \<not> ps_is_trained self then (self, ps_error_result ''Models not trained'')
      else
        (let horizon = (case prediction_horizon_arg of
                          None \<Rightarrow> prediction_horizon (ps_config self) | Some h \<Rightarrow> h)
         in case prepare_features P current_data of
              Inl e \<Rightarrow> (self, ps_error_result (str e))
            | Inr prepared \<Rightarrow>
           (case (case map_of (ps_scalers self) ''feature_scaler'' of
                    None \<Rightarrow> Inr (map s_x prepared)
                  | Some scaler \<Rightarrow> scaler_transform P scaler (map s_x prepared)) of
              Inl e \<Rightarrow> (self, ps_error_result (str e))
            | Inr X_pred_scaled \<Rightarrow>
           (case predict_targets P fmt self current_data X_pred_scaled horizon lag_features
                   ([], []) of
              Inl e \<Rightarrow> (self, ps_error_result (str e))
            | Inr (predictions, scaling_recommendations) \<Rightarrow>
                (self,
                 \<lparr> p_predictions = predictions,
                   p_scaling_recommendations = scaling_recommendations,
                   p_confidence = calculate_prediction_confidence self predictions,
                   p_error = None, p_prediction_horizon = Some horizon,
                   p_timestamp = Some now \<rparr>)))))"


section \<open>Root-cause analysis: \<open>models/root_cause_analysis.py\<close>\<close>

record rca_config =
  correlation_threshold :: real
  min_cluster_size :: nat
  max_clusters :: nat
  anomaly_contamination :: real
  feature_importance_threshold :: real
  temporal_window :: nat
  rca_confidence_threshold :: real
  max_root_causes :: int
  analysis_depth :: nat

definition rca_default_config :: rca_config where
  "rca_default_config =
     \<lparr> correlation_threshold = 0.7, min_cluster_size = 3, max_clusters = 10,
       anomaly_contamination = 0.1, feature_importance_threshold = 0.05,
       temporal_window = 24, rca_confidence_threshold = 0.6, max_root_causes = 5,
       analysis_depth = 3 \<rparr>"

subsection \<open>Hypotheses\<close>

text \<open>
  A root-cause hypothesis; \<open>weighted_score\<close> is absent until the ranking adds it.
\<close>

record hypothesis =
  h_type :: string
  h_metric :: string
  h_confidence :: real
  h_evidence :: string
  h_severity :: string
  h_weighted_score :: "real option"

text \<open>
  What \<open>_perform_multi_level_analysis\<close> hands to the fusion step, reduced to the entries
  the fusion step reads.  A level that failed is an empty dictionary: every entry is
  optional.  \<open>level_1\<close> maps a metric to its statistics.
\<close>

record trend =
  slope :: real
  r_squared :: real
  p_value :: real

record metric_stats =
  outliers_count :: "nat option"
  trend :: "trend option"

record analysis_results =
  level_1 :: "metric_stats dict"
  anomaly_count :: "nat option"
  silhouette_score :: "real option"
  by_degree :: "(string \<times> real) list option"
  analysis_path :: "string list"

text \<open>The two number formats of the evidence strings: \<open>{n}\<close> and \<open>{x:.3f}\<close>.\<close>

record formats =
  fmt_count :: "nat \<Rightarrow> string"
  fmt_3f :: "real \<Rightarrow> string"

definition level_1_hypotheses :: "formats \<Rightarrow> string \<times> metric_stats \<Rightarrow> hypothesis list" where
  "level_1_hypotheses F item =
     (let metric = fst item; stats = snd item;
          n = (case outliers_count stats of None \<Rightarrow> 0 | Some c \<Rightarrow> c)
      in (if n > 0 then
            [\<lparr> h_type = ''statistical_outlier'', h_metric = metric,
               h_confidence = min 0.8 (real n / 10),
               h_evidence = ''Found '' @ fmt_count F n @ '' outliers in '' @ metric,
               h_severity = ''medium'', h_weighted_score = None \<rparr>]
          else [])
         @ (case trend stats of
              None \<Rightarrow> []
            | Some t \<Rightarrow>
                if p_value t < 0.05 then
                  [\<lparr> h_type = ''trend_anomaly'', h_metric = metric,
                     h_confidence = min 0.7 \<bar>slope t\<bar>,
                     h_evidence = ''Significant trend detected in '' @ metric,
                     h_severity = ''low'', h_weighted_score = None \<rparr>]
                else []))"

definition level_2_hypotheses :: "formats \<Rightarrow> analysis_results \<Rightarrow> hypothesis list" where
  "level_2_hypotheses F analysis =
     (case anomaly_count analysis of
        None \<Rightarrow> []
      | Some n \<Rightarrow>
          if n > 0 then
            [\<lparr> h_type = ''ai_anomaly'', h_metric = ''multiple'',
               h_confidence = min 0.9 (real n / 20),
               h_evidence = ''AI detected '' @ fmt_count F n @ '' anomalies'',
               h_severity = ''high'', h_weighted_score = None \<rparr>]
          else [])
     @ (case silhouette_score analysis of
          None \<Rightarrow> []
        | Some s \<Rightarrow>
            if s < 0.3 then
              [\<lparr> h_type = ''pattern_instability'', h_metric = ''clustering'',
                 h_confidence = 0.6,
                 h_evidence = ''Low clustering stability detected'',
                 h_severity = ''medium'', h_weighted_score = None \<rparr>]
            else [])"

text \<open>
  The dependency level reads the first three entries of \<open>by_degree\<close> only, and caps the
  confidence at \<open>0.8\<close>.
\<close>

definition level_3_hypotheses :: "formats \<Rightarrow> analysis_results \<Rightarrow> hypothesis list" where
  "level_3_hypotheses F analysis =
     (case by_degree analysis of
        None \<Rightarrow> []
      | Some degrees \<Rightarrow>
          concat (map (\<lambda>(metric, centrality).
                    if centrality > 0.8 then
                      [\<lparr> h_type = ''dependency_bottleneck'', h_metric = metric,
                         h_confidence = min 0.8 centrality,
                         h_evidence = ''High dependency on '' @ metric @ '' (centrality: ''
                                         @ fmt_3f F centrality @ '')'',
                         h_severity = ''high'', h_weighted_score = None \<rparr>]
                    else [])
                  (take 3 degrees)))"

definition generate_root_cause_hypotheses :: "formats \<Rightarrow> analysis_results \<Rightarrow> hypothesis list" where
  "generate_root_cause_hypotheses F analysis =
     concat (map (level_1_hypotheses F) (level_1 analysis))
     @ level_2_hypotheses F analysis
     @ level_3_hypotheses F analysis"

subsection \<open>Ranking\<close>

text \<open>\<open>severity_weights.get(cause.get('severity', 'medium'), 2.0)\<close>.\<close>

definition severity_weight :: "string \<Rightarrow> real" where
  "severity_weight s =
     (if s = ''high'' then 3.0 else if s = ''medium'' then 2.0
      else if s = ''low'' then 1.0 else 2.0)"

definition score :: "hypothesis \<Rightarrow> real" where
  "score cause = (case h_weighted_score cause of Some w \<Rightarrow> w | None \<Rightarrow> 0)"

text \<open>
  The loop adds \<open>weighted_score\<close> to every cause (\<open>with_score\<close>); then
  \<open>sorted(root_causes, key=lambda x: x['weighted_score'], reverse=True)\<close>: a stable sort
  in descending order, here the stable ascending insertion sort on the negated key.
\<close>

definition with_score :: "hypothesis \<Rightarrow> hypothesis" where
  "with_score cause =
     cause\<lparr> h_weighted_score := Some (h_confidence cause * severity_weight (h_severity cause)) \<rparr>"

definition rank_root_causes :: "hypothesis list \<Rightarrow> hypothesis list" where
  "rank_root_causes root_causes = sort_key (\<lambda>x. - score x) (map with_score root_causes)"

subsection \<open>\<open>analyze_root_cause\<close>\<close>

record analysis_record =
  ar_timestamp :: nat
  ar_incident_metrics :: "string list dict"
  ar_root_causes :: "hypothesis list"
  ar_analysis_path :: "string list"

record ('m, 's, 'e, 'g) analyzer =
  rca_config :: rca_config
  rca_models :: "'m dict"
  rca_scalers :: "'s dict"
  rca_encoders :: "'e dict"
  rca_correlation_graph :: "'g option"
  rca_is_trained :: bool
  rca_last_training :: "nat option"
  rca_analysis_history :: "analysis_record list"

definition rca_init :: "('m, 's, 'e, 'g) analyzer" where
  "rca_init = \<lparr> rca_config = rca_default_config, rca_models = [], rca_scalers = [],
                rca_encoders = [], rca_correlation_graph = None, rca_is_trained = False,
                rca_last_training = None, rca_analysis_history = [] \<rparr>"

record rca_result =
  r_root_causes :: "hypothesis list"
  r_confidence :: npfloat
  r_analysis_path :: "string list"
  r_error :: "string option"

text \<open>\<open>np.mean\<close> of a list that may be empty: the mean of nothing is \<open>nan\<close>.\<close>

definition np_mean_or_nan :: "real list \<Rightarrow> npfloat" where
  "np_mean_or_nan xs = (if xs = [] then NaN else Fin (np_mean xs))"

text \<open>
  \<open>analyze_root_cause\<close>.  The preprocessing of the incident frame and the three analysis
  levels (pandas, scikit-learn, networkx) are the parameter \<open>perform\<close>: the analyzer
  after preprocessing and the analysis results, or the exception that the outer handler
  turns into the \<open>error\<close> result.
\<close>

definition analyze_root_cause ::
  "formats \<Rightarrow>
   (('m, 's, 'e, 'g) analyzer \<Rightarrow> 'd \<Rightarrow> string list dict \<Rightarrow> error + ('m, 's, 'e, 'g) analyzer \<times> analysis_results)
   \<Rightarrow> nat \<Rightarrow> ('m, 's, 'e, 'g) analyzer \<Rightarrow> 'd \<Rightarrow> string list dict
   \<Rightarrow> ('m, 's, 'e, 'g) analyzer \<times> rca_result" where
  "analyze_root_cause F perform now self incident_data incident_metrics =
     (if \<not> rca_is_trained self then
        (self, \<lparr> r_root_causes = [], r_confidence = Fin 0.0, r_analysis_path = [],
                 r_error = Some ''Models not trained'' \<rparr>)
      else
        (case perform self incident_data incident_metrics of
           Inl e \<Rightarrow>
             (self, \<lparr> r_root_causes = [], r_confidence = Fin 0.0, r_analysis_path = [],
                      r_error = Some (str e) \<rparr>)
         | Inr (self1, analysis) \<Rightarrow>
             (let root_causes = generate_root_cause_hypotheses F analysis;
                  ranked_causes = rank_root_causes root_causes;
                  analysis_record = \<lparr> ar_timestamp = now, ar_incident_metrics = incident_metrics,
                                       ar_root_causes = ranked_causes,
                                       ar_analysis_path = analysis_path analysis \<rparr>
              in (self1\<lparr> rca_analysis_history := rca_analysis_history self1 @ [analysis_record] \<rparr>,
                  \<lparr> r_root_causes = slice_to ranked_causes (max_root_causes (rca_config self1)),
                    r_confidence = np_mean_or_nan (map h_confidence ranked_causes),
                    r_analysis_path = analysis_path analysis,
                    r_error = None \<rparr>))))"

subsection \<open>Status and persistence\<close>

record rca_status =
  rs_is_trained :: bool
  rs_last_training :: "nat option"
  rs_models_count :: nat
  rs_scalers_count :: nat
  rs_encoders_count :: nat
  rs_correlation_graph_nodes :: nat
  rs_analysis_history_count :: nat
  rs_config :: rca_config

text \<open>\<open>number_of_nodes\<close> is the graph library's.\<close>

definition rca_get_model_status ::
  "('g \<Rightarrow> nat) \<Rightarrow> ('m, 's, 'e, 'g) analyzer \<Rightarrow> rca_status" where
  "rca_get_model_status number_of_nodes self =
     \<lparr> rs_is_trained = rca_is_trained self,
       rs_last_training = rca_last_training self,
       rs_models_count = length (rca_models self),
       rs_scalers_count = length (rca_scalers self),
       rs_encoders_count = length (rca_encoders self),
       rs_correlation_graph_nodes =
         (case rca_correlation_graph self of None \<Rightarrow> 0 | Some G \<Rightarrow> number_of_nodes G),
       rs_analysis_history_count = length (rca_analysis_history self),
       rs_config = rca_config self \<rparr>"

record ('m, 's, 'e, 'g) rca_bundle =
  rb_models :: "'m dict option"
  rb_scalers :: "'s dict option"
  rb_encoders :: "'e dict option"
  rb_correlation_graph :: "'g option option"
  rb_config :: "rca_config option"
  rb_is_trained :: "bool option"
  rb_last_training :: "nat option option"
  rb_analysis_history :: "analysis_record list option"

definition rca_save_models ::
  "('m, 's, 'e, 'g) rca_bundle disk \<Rightarrow> ('m, 's, 'e, 'g) analyzer \<Rightarrow> string
     \<Rightarrow> ('m, 's, 'e, 'g) rca_bundle disk" where
  "rca_save_models fs self filepath =
     (let model_data = \<lparr> rb_models = Some (rca_models self), rb_scalers = Some (rca_scalers self),
                         rb_encoders = Some (rca_encoders self),
                         rb_correlation_graph = Some (rca_correlation_graph self),
                         rb_config = Some (rca_config self),
                         rb_is_trained = Some (rca_is_trained self),
                         rb_last_training = Some (rca_last_training self),
                         rb_analysis_history = Some (rca_analysis_history self) \<rparr>
      in if writable fs filepath then fs\<lparr> files := (files fs)(filepath := Some model_data) \<rparr>
         else fs)"

text \<open>The last key is read with \<open>model_data.get('analysis_history', [])\<close>.\<close>

definition rca_load_models ::
  "('m, 's, 'e, 'g) rca_bundle disk \<Rightarrow> ('m, 's, 'e, 'g) analyzer \<Rightarrow> string
     \<Rightarrow> ('m, 's, 'e, 'g) analyzer" where
  "rca_load_models fs self filepath =
     (case files fs filepath of
        None \<Rightarrow> self\<lparr> rca_is_trained := False \<rparr>
      | Some model_data \<Rightarrow>
     (case rb_models model_data of
        None \<Rightarrow> self\<lparr> rca_is_trained := False \<rparr>
      | Some v1 \<Rightarrow> let self = self\<lparr> rca_models := v1 \<rparr> in
     (case rb_scalers model_data of
        None \<Rightarrow> self\<lparr> rca_is_trained := False \<rparr>
      | Some v2 \<Rightarrow> let self = self\<lparr> rca_scalers := v2 \<rparr> in
     (case rb_encoders model_data of
        None \<Rightarrow> self\<lparr> rca_is_trained := False \<rparr>
      | Some v3 \<Rightarrow> let self = self\<lparr> rca_encoders := v3 \<rparr> in
     (case rb_correlation_graph model_data of
        None \<Rightarrow> self\<lparr> rca_is_trained := False \<rparr>
      | Some v4 \<Rightarrow> let self = self\<lparr> rca_correlation_graph := v4 \<rparr> in
     (case rb_config model_data of
        None \<Rightarrow> self\<lparr> rca_is_trained := False \<rparr>
      | Some v5 \<Rightarrow> let self = self\<lparr> rca_config := v5 \<rparr> in
     (case rb_is_trained model_data of
        None \<Rightarrow> self\<lparr> rca_is_trained := False \<rparr>
      | Some v6 \<Rightarrow> let self = self\<lparr> rca_is_trained := v6 \<rparr> in
     (case rb_last_training model_data of
        None \<Rightarrow> self\<lparr> rca_is_trained := False \<rparr>
      | Some v7 \<Rightarrow>
          self\<lparr> rca_last_training := v7,
                rca_analysis_history :=
                  (case rb_analysis_history model_data of None \<Rightarrow> [] | Some h \<Rightarrow> h) \<rparr>))))))))"


section \<open>Persistence: when a load fails\<close>

text \<open>
  The condition under which the \<open>try\<close> block of \<open>load_models\<close> raises and its handler
  runs: no readable file, or a loaded dictionary without one of the keys that are read
  with \<open>model_data[key]\<close>.
\<close>

definition ad_load_fails :: "('m, 's) ad_bundle disk \<Rightarrow> string \<Rightarrow> bool" where
  "ad_load_fails fs filepath =
     (case files fs filepath of
        None \<Rightarrow> True
      | Some b \<Rightarrow> b_models b = None \<or> b_scalers b = None \<or> b_thresholds b = None
                 \<or> b_config b = None \<or> b_is_trained b = None \<or> b_last_training b = None)"

definition ps_load_fails :: "('m, 's) ps_bundle disk \<Rightarrow> string \<Rightarrow> bool" where
  "ps_load_fails fs filepath =
     (case files fs filepath of
        None \<Rightarrow> True
      | Some b \<Rightarrow> pb_models b = None \<or> pb_scalers b = None \<or> pb_feature_importance b = None
                 \<or> pb_performance_metrics b = None \<or> pb_config b = None
                 \<or> pb_is_trained b = None \<or> pb_last_training b = None)"

definition rca_load_fails :: "('m, 's, 'e, 'g) rca_bundle disk \<Rightarrow> string \<Rightarrow> bool" where
  "rca_load_fails fs filepath =
     (case files fs filepath of
        None \<Rightarrow> True
      | Some b \<Rightarrow> rb_models b = None \<or> rb_scalers b = None \<or> rb_encoders b = None
                 \<or> rb_correlation_graph b = None \<or> rb_config b = None
                 \<or> rb_is_trained b = None \<or> rb_last_training b = None)"

text \<open>
  Sample disks: an empty one, and one holding at \<open>scaling.pkl\<close> a bundle written by the
  predictive scaler, as the anomaly detector reads it: \<open>models\<close> and \<open>scalers\<close> are there,
  \<open>thresholds\<close> is not (the keys after it are never reached).
\<close>

definition empty_disk :: "'b disk" where
  "empty_disk = \<lparr> files = (\<lambda>p. None), writable = (\<lambda>p. True) \<rparr>"

definition foreign_bundle :: "(nat, nat) ad_bundle" where
  "foreign_bundle =
     \<lparr> b_models = Some [(''random_forest_cpu_usage'', 1)],
       b_scalers = Some [(''feature_scaler'', 2)],
       b_thresholds = None, b_config = None,
       b_is_trained = Some True, b_last_training = Some (Some 3) \<rparr>"

definition foreign_disk :: "(nat, nat) ad_bundle disk" where
  "foreign_disk =
     \<lparr> files = (\<lambda>p. if p = ''scaling.pkl'' then Some foreign_bundle else None),
       writable = (\<lambda>p. True) \<rparr>"


section \<open>Sample analyses\<close>

text \<open>
  Number formats whose output plays no role, and two analysis results: four metrics of
  degree centrality 1 (a complete correlation graph on four nodes); and three metrics
  with outliers and significant trends, with seven hypotheses in all.
\<close>

definition plain_formats :: formats where
  "plain_formats = \<lparr> fmt_count = (\<lambda>n. ''n''), fmt_3f = (\<lambda>x. ''x'') \<rparr>"

definition complete_graph_analysis :: analysis_results where
  "complete_graph_analysis =
     \<lparr> level_1 = [], anomaly_count = None, silhouette_score = None,
       by_degree = Some [(''a'', 1), (''b'', 1), (''c'', 1), (''d'', 1)],
       analysis_path = [''statistical_analysis'', ''pattern_recognition'', ''dependency_analysis''] \<rparr>"

definition busy_analysis :: analysis_results where
  "busy_analysis =
     \<lparr> level_1 =
         [(''cpu'', \<lparr> outliers_count = Some 2,
                      trend = Some \<lparr> slope = 0.5, r_squared = 0.9, p_value = 0.01 \<rparr> \<rparr>),
          (''mem'', \<lparr> outliers_count = Some 4,
                      trend = Some \<lparr> slope = 0.3, r_squared = 0.9, p_value = 0.01 \<rparr> \<rparr>),
          (''io'', \<lparr> outliers_count = Some 1,
                     trend = Some \<lparr> slope = 0.2, r_squared = 0.9, p_value = 0.01 \<rparr> \<rparr>)],
       anomaly_count = Some 4, silhouette_score = None, by_degree = None,
       analysis_path = [''statistical_analysis'', ''pattern_recognition'', ''dependency_analysis''] \<rparr>"

definition trained_analyzer :: "(nat, nat, nat, nat) analyzer" where
  "trained_analyzer = rca_init\<lparr> rca_is_trained := True, rca_last_training := Some 11 \<rparr>"


section \<open>A sample training run of the predictive scaler\<close>

text \<open>
  A raw frame is its list of rows in time order, labelled by the default index.
  \<open>prepare_features\<close> drops the first 96 rows (the \<open>shift(96)\<close> and \<open>rolling(window=96)\<close>
  columns are undefined there).  The shuffle of five rows under the seed 42 is numpy's
  \<open>[1, 4, 2, 0, 3]\<close>, and the double product \<open>0.2 * 5\<close> is \<open>1.0\<close>; on other arguments, which
  the sample runs do not reach, the two functions are stand-ins.  The estimators are
  numbered stand-ins too.
\<close>

definition standard_transform :: "real list \<times> real list \<Rightarrow> real list list \<Rightarrow> error + real list list" where
  "standard_transform scaler X =
     Inr (map (\<lambda>r. map (\<lambda>j. (r ! j - fst scaler ! j) / scale_of (snd scaler ! j))
                     [0 ..< length (fst scaler)]) X)"

definition sample_ps_lib :: "(sample list, nat, real list \<times> real list) ps_lib" where
  "sample_ps_lib =
     \<lparr> frame_len = length,
       frame_columns = (\<lambda>d. ''timestamp'' # lag_features),
       prepare_features = (\<lambda>d. Inr (drop 96 d)),
       permutation = (\<lambda>seed n. if seed = 42 \<and> n = 5 then [1, 4, 2, 0, 3] else [0 ..< n]),
       ceil_product = (\<lambda>ts n. if ts = 1 / 5 \<and> n = 5 then 1 else nat \<lceil>ts * real n\<rceil>),
       scaler_fit_transform = standard_fit_transform,
       scaler_transform = standard_transform,
       rf_fit = (\<lambda>X y. Inr 1),
       gb_fit = (\<lambda>X y. Inr 2),
       lr_fit = (\<lambda>X y. Inr 3),
       evaluate_models = (\<lambda>rf gb lr X y. []),
       importances = (\<lambda>m. []),
       model_predict = (\<lambda>m X. Inr (map (\<lambda>r. 50) X)) \<rparr>"

text \<open>101 rows, one per time step, with the time as the only feature.\<close>

definition sample_row :: "nat \<Rightarrow> sample" where
  "sample_row t =
     \<lparr> s_index = t, s_time = t, s_x = [real t], s_y = [Fin 50, Fin 50, Fin 200, Fin 300] \<rparr>"

definition sample_rows :: "sample list" where
  "sample_rows = map sample_row [0 ..< 101]"

text \<open>
  A model as \<open>load_models\<close> leaves it after reading a bundle that holds a fitted scaler
  and one estimator of the throughput.
\<close>

definition shipped_bundle :: "(nat, real list \<times> real list) ps_bundle" where
  "shipped_bundle =
     \<lparr> pb_models = Some [(''linear_regression_throughput'', 3)],
       pb_scalers = Some [(''feature_scaler'', ([393 / 4], [35 / 16]))],
       pb_feature_importance = Some [], pb_performance_metrics = Some [],
       pb_config = Some ps_default_config,
       pb_is_trained = Some True, pb_last_training = Some (Some 5) \<rparr>"

definition shipped_disk :: "(nat, real list \<times> real list) ps_bundle disk" where
  "shipped_disk =
     \<lparr> files = (\<lambda>p. if p = ''scaling.pkl'' then Some shipped_bundle else None),
       writable = (\<lambda>p. True) \<rparr>"

definition shipped_model :: "(nat, real list \<times> real list) scaling_model" where
  "shipped_model = ps_load_models shipped_disk ps_init ''scaling.pkl''"


section \<open>Anomaly detection: the thresholds read by the z-score test\<close>

text \<open>
  Notions for stating what training stores and what detection reads.  The threshold of
  a column's z-score test is the entry of \<open>thresholds\<close> under the metric and the column,
  \<open>3.0\<close> when there is no entry; \<open>z_score_entry\<close> is the finding that the test appends for
  a row; the percentile calls on a column \<open>return\<close> when none of them raises.
\<close>

definition z_threshold_for :: "('m, 's) detector \<Rightarrow> string \<Rightarrow> string \<Rightarrow> npfloat" where
  "z_threshold_for self metric_name column =
     (case map_of (ad_thresholds self) (metric_name @ ''_'' @ column @ ''_z_score'') of
        Some t \<Rightarrow> t
      | None \<Rightarrow> Fin 3.0)"

definition z_score_entry :: "('m, 's) lib \<Rightarrow> frame \<Rightarrow> nat \<Rightarrow> npfloat \<Rightarrow> nat \<Rightarrow> anomaly" where
  "z_score_entry L data j z_threshold idx =
     \<lparr> a_index = idx, a_method = ''z_score'',
       a_confidence = z_confidence (zscore L (column_values data j) ! idx) z_threshold,
       a_column = Some (columns data ! j), a_value = Some (column_values data j ! idx),
       a_z_score = Some (zscore L (column_values data j) ! idx),
       a_threshold = Some z_threshold \<rparr>"

definition fences_return :: "('m, 's) lib \<Rightarrow> frame \<Rightarrow> nat \<Rightarrow> bool" where
  "fences_return L data j \<longleftrightarrow>
     \<not> isl (percentile L (map Fin (column_values data j)) 25)
   \<and> \<not> isl (percentile L (map Fin (column_values data j)) 75)"

definition thresholds_return :: "('m, 's) lib \<Rightarrow> frame \<Rightarrow> nat \<Rightarrow> bool" where
  "thresholds_return L data j \<longleftrightarrow>
     \<not> isl (percentile L (zscore L (column_values data j)) 95) \<and> fences_return L data j"

section \<open>Properties of the scaling recommendations\<close>

lemma recommendations_loop_ok:
  assumes "\<And>j v. \<exists>r. recommend fmt th tgt j v = Inr r"
  shows "recommendations_loop fmt th tgt i vs acc =
     acc @ filter (\<lambda>r. rec_action r \<noteq> None)
            (map (\<lambda>(j, v). projr (recommend fmt th tgt j v)) (zip [i ..< i + length vs] vs))"
proof (induction vs arbitrary: i acc)
  case Nil
  then show ?case by simp
next
  case (Cons v vs)
  obtain r where r: "recommend fmt th tgt i v = Inr r" using assms by blast
  have up: "[i ..< i + length (v # vs)] = i # [Suc i ..< Suc i + length vs]"
    by (simp add: upt_rec)
  show ?case
    unfolding up using r Cons.IH [of "Suc i"] by simp
qed

lemma recommendations_members:
  assumes "\<And>j v. \<exists>r. recommend fmt th tgt j v = Inr r"
  shows "set (recommendations_loop fmt th tgt 0 vs []) =
     {projr (recommend fmt th tgt k (vs ! k)) | k. k < length vs \<and>
        rec_action (projr (recommend fmt th tgt k (vs ! k))) \<noteq> None}"
proof -
  have z: "zip [0 ..< length vs] vs = map (\<lambda>k. (k, vs ! k)) [0 ..< length vs]"
    by (rule nth_equalityI) auto
  show ?thesis
    unfolding recommendations_loop_ok [OF assms] using z
    by (auto simp: image_iff)
qed

lemma recommend_band:
  assumes "band_keys tgt = Some (hk, lk)" "band_configured th hk lk hi lo"
  shows "\<exists>r. recommend fmt th tgt j v = Inr r \<and> rec_hour r = j + 1 \<and>
     rec_action r = (if v > hi then Some ''scale_up'' else if v < lo then Some ''scale_down'' else None)"
  using assms
  by (auto simp: band_keys_def band_configured_def recommend_def getitem_def Let_def split: if_splits)

lemma recommend_throughput:
  assumes "map_of th ''throughput_low'' = Some lo"
  shows "\<exists>r. recommend fmt th ''throughput'' j v = Inr r \<and> rec_hour r = j + 1 \<and>
     rec_action r = (if v < lo then Some ''scale_up'' else None)"
  using assms
  by (auto simp: recommend_def getitem_def Let_def)

lemma emitted_at:
  assumes ok: "\<And>j v. \<exists>r. recommend fmt th tgt j v = Inr r \<and> rec_hour r = j + 1 \<and> rec_action r = act v"
    and i: "i < length vs"
  shows "emitted (recommendations_loop fmt th tgt 0 vs []) i (act (vs ! i))"
proof -
  have ex: "\<And>j v. \<exists>r. recommend fmt th tgt j v = Inr r" using ok by blast
  have pr: "rec_hour (projr (recommend fmt th tgt j v)) = j + 1
      \<and> rec_action (projr (recommend fmt th tgt j v)) = act v" for j v
    using ok [of j v] by auto
  show ?thesis
  proof (cases "act (vs ! i)")
    case None
    then show ?thesis
      unfolding emitted_def recommendations_members [OF ex]
      using i pr by auto
  next
    case (Some a)
    have "\<exists>r. (\<exists>k. r = projr (recommend fmt th tgt k (vs ! k)) \<and> k < length vs
              \<and> rec_action (projr (recommend fmt th tgt k (vs ! k))) \<noteq> None)
            \<and> rec_hour r = i + 1 \<and> rec_action r = Some a"
      using i pr Some by (intro exI [of _ "projr (recommend fmt th tgt i (vs ! i))"]) auto
    then show ?thesis
      unfolding emitted_def recommendations_members [OF ex]
      using i pr Some by auto
  qed
qed

text \<open>
  C4: for every forecast point of the horizon, a recommendation for that hour is emitted
  exactly when a strict band comparison fires.  For CPU, memory and response time with a
  configured band \<open>lo \<le> hi\<close>: a value strictly above \<open>hi\<close> gives exactly a \<open>scale_up\<close>, a
  value equal to \<open>hi\<close> gives nothing, a value strictly below \<open>lo\<close> gives exactly a
  \<open>scale_down\<close>, a value within the band gives nothing.  For throughput a value strictly
  below its low threshold gives a \<open>scale_up\<close>, any other value nothing, and no
  \<open>scale_down\<close> is ever emitted.
\<close>

theorem scaling_band_logic:
  assumes i: "i < length (slice_to predictions horizon)"
    and v: "v = slice_to predictions horizon ! i"
    and recs: "recs = generate_scaling_recommendations fmt thresholds target predictions horizon"
  shows "(band_keys target = Some (hk, lk) \<and> band_configured thresholds hk lk hi lo \<longrightarrow>
            (hi < v \<longrightarrow> emitted recs i (Some ''scale_up'')) \<and>
            (v = hi \<longrightarrow> emitted recs i None) \<and>
            (v < lo \<longrightarrow> emitted recs i (Some ''scale_down'')) \<and>
            (lo \<le> v \<and> v \<le> hi \<longrightarrow> emitted recs i None)) \<and>
         (target = ''throughput'' \<and> map_of thresholds ''throughput_low'' = Some tlow \<longrightarrow>
            (v < tlow \<longrightarrow> emitted recs i (Some ''scale_up'')) \<and>
            (tlow \<le> v \<longrightarrow> emitted recs i None) \<and>
            (\<forall>r \<in> set recs. rec_action r \<noteq> Some ''scale_down''))"
proof -
  let ?pts = "slice_to predictions horizon"
  have R: "recs = recommendations_loop fmt thresholds target 0 ?pts []"
    by (simp add: recs generate_scaling_recommendations_def)
  have A: "(hi < v \<longrightarrow> emitted recs i (Some ''scale_up'')) \<and>
            (v = hi \<longrightarrow> emitted recs i None) \<and>
            (v < lo \<longrightarrow> emitted recs i (Some ''scale_down'')) \<and>
            (lo \<le> v \<and> v \<le> hi \<longrightarrow> emitted recs i None)"
    if bk: "band_keys target = Some (hk, lk)" and bc: "band_configured thresholds hk lk hi lo"
  proof -
    have E: "emitted recs i
       (if ?pts ! i > hi then Some ''scale_up''
        else if ?pts ! i < lo then Some ''scale_down'' else None)"
      unfolding R by (rule emitted_at [OF recommend_band [OF bk bc] i])
    have "lo \<le> hi" using bc by (simp add: band_configured_def)
    then show ?thesis using E v by (auto split: if_splits)
  qed
  have B: "(v < tlow \<longrightarrow> emitted recs i (Some ''scale_up'')) \<and>
            (tlow \<le> v \<longrightarrow> emitted recs i None) \<and>
            (\<forall>r \<in> set recs. rec_action r \<noteq> Some ''scale_down'')"
    if t: "target = ''throughput''" and m: "map_of thresholds ''throughput_low'' = Some tlow"
  proof -
    have E: "emitted recs i (if ?pts ! i < tlow then Some ''scale_up'' else None)"
      unfolding R t by (rule emitted_at [OF recommend_throughput [OF m] i])
    have ex: "\<exists>r. recommend fmt thresholds ''throughput'' j w = Inr r" for j w
      using recommend_throughput [OF m] by blast
    have na: "rec_action (projr (recommend fmt thresholds ''throughput'' j w)) \<noteq> Some ''scale_down''" for j w
      using recommend_throughput [OF m, of fmt j w] by (auto split: if_splits)
    have "\<forall>r \<in> set recs. rec_action r \<noteq> Some ''scale_down''"
      unfolding R t recommendations_members [OF ex] using na by blast
    then show ?thesis using E v by (auto split: if_splits)
  qed
  show ?thesis using A B by blast
qed

theorem scaling_band_logic_witness:
  "emitted (generate_scaling_recommendations (\<lambda>x. ''t'') default_scaling_thresholds
              ''cpu_usage'' [80, 81, 50, 19] 24) 0 None
   \<and> emitted (generate_scaling_recommendations (\<lambda>x. ''t'') default_scaling_thresholds
              ''cpu_usage'' [80, 81, 50, 19] 24) 1 (Some ''scale_up'')"
proof -
  have i0: "0 < length (slice_to [80, 81, 50, 19 :: real] 24)"
    and i1: "1 < length (slice_to [80, 81, 50, 19 :: real] 24)"
    by (simp_all add: slice_to_def)
  have v0: "(80::real) = slice_to [80, 81, 50, 19] 24 ! 0"
    and v1: "(81::real) = slice_to [80, 81, 50, 19] 24 ! 1"
    by (simp_all add: slice_to_def)
  have bk: "band_keys ''cpu_usage'' = Some (''cpu_high'', ''cpu_low'')"
    by (simp add: band_keys_def)
  have bc: "band_configured default_scaling_thresholds ''cpu_high'' ''cpu_low'' 80 20"
    by (simp add: band_configured_def default_scaling_thresholds_def)
  show ?thesis
    using scaling_band_logic [OF i0 v0 refl, where fmt = "\<lambda>x. ''t''"
            and thresholds = default_scaling_thresholds and target = "''cpu_usage''"
            and hk = "''cpu_high''" and lk = "''cpu_low''" and hi = 80 and lo = 20]
          scaling_band_logic [OF i1 v1 refl, where fmt = "\<lambda>x. ''t''"
            and thresholds = default_scaling_thresholds and target = "''cpu_usage''"
            and hk = "''cpu_high''" and lk = "''cpu_low''" and hi = 80 and lo = 20]
          bk bc
    by simp
qed


section \<open>Properties of the anomaly detector\<close>

subsection \<open>What each step leaves unchanged\<close>

lemma iqr_filter_columns [simp]: "columns (iqr_filter L k js d) = columns d"
  by (induction js arbitrary: d) (simp_all add: Let_def)

lemma iqr_filter_len: "length (rows (iqr_filter L k js d)) \<le> length (rows d)"
proof (induction js arbitrary: d)
  case Nil
  then show ?case by simp
next
  case (Cons j js)
  show ?case
    by (simp add: Let_def) (rule order_trans [OF Cons.IH], simp)
qed

lemma preprocess_data_frame:
  "ad_config (fst (preprocess_data L s d)) = ad_config s"
  "ad_models (fst (preprocess_data L s d)) = ad_models s"
  "ad_thresholds (fst (preprocess_data L s d)) = ad_thresholds s"
  "ad_is_trained (fst (preprocess_data L s d)) = ad_is_trained s"
  "ad_last_training (fst (preprocess_data L s d)) = ad_last_training s"
  by (simp_all add: preprocess_data_def Let_def split: sum.splits prod.splits)

lemma preprocess_data_scalers:
  "k \<noteq> ''standard'' \<Longrightarrow> map_of (ad_scalers (fst (preprocess_data L s d))) k = map_of (ad_scalers s) k"
  by (simp add: preprocess_data_def Let_def update_conv' split: sum.splits prod.splits)

lemma preprocess_data_config_only:
  "ad_config s = ad_config s' \<Longrightarrow> snd (preprocess_data L s d) = snd (preprocess_data L s' d)"
  by (simp add: preprocess_data_def Let_def split: sum.splits prod.splits)

lemma preprocess_data_len:
  "rows_kept L \<Longrightarrow> len (snd (preprocess_data L s d)) \<le> len d"
  using iqr_filter_len [of L "iqr_multiplier (ad_config s)" "[0 ..< length (columns d)]" d]
  by (auto simp: preprocess_data_def Let_def len_def rows_kept_def split: sum.splits prod.splits)

lemma train_isolation_forest_frame:
  "ad_config (train_isolation_forest L s d m) = ad_config s"
  "ad_scalers (train_isolation_forest L s d m) = ad_scalers s"
  "ad_thresholds (train_isolation_forest L s d m) = ad_thresholds s"
  "ad_is_trained (train_isolation_forest L s d m) = ad_is_trained s"
  "ad_last_training (train_isolation_forest L s d m) = ad_last_training s"
  by (simp_all add: train_isolation_forest_def split: sum.splits)

lemma train_dbscan_frame:
  "ad_config (train_dbscan L s d m) = ad_config s"
  "ad_scalers (train_dbscan L s d m) = ad_scalers s"
  "ad_thresholds (train_dbscan L s d m) = ad_thresholds s"
  "ad_is_trained (train_dbscan L s d m) = ad_is_trained s"
  "ad_last_training (train_dbscan L s d m) = ad_last_training s"
  by (simp_all add: train_dbscan_def split: sum.splits)

lemma train_isolation_forest_other:
  "k \<noteq> ''isolation_forest_'' @ m \<Longrightarrow>
     map_of (ad_models (train_isolation_forest L s d m)) k = map_of (ad_models s) k"
  by (simp add: train_isolation_forest_def update_conv' split: sum.splits)

lemma train_dbscan_other:
  "k \<noteq> ''dbscan_'' @ m \<Longrightarrow>
     map_of (ad_models (train_dbscan L s d m)) k = map_of (ad_models s) k"
  by (simp add: train_dbscan_def update_conv' split: sum.splits)

lemma train_isolation_forest_short:
  "len d < 10 \<Longrightarrow> train_isolation_forest L s d m = s"
  by (simp add: train_isolation_forest_def)

lemma train_dbscan_short:
  "len d < 10 \<Longrightarrow> train_dbscan L s d m = s"
  by (simp add: train_dbscan_def)

lemma thresholds_loop_frame:
  "ad_config (calculate_statistical_thresholds_loop L s d m js) = ad_config s"
  "ad_models (calculate_statistical_thresholds_loop L s d m js) = ad_models s"
  "ad_scalers (calculate_statistical_thresholds_loop L s d m js) = ad_scalers s"
  "ad_is_trained (calculate_statistical_thresholds_loop L s d m js) = ad_is_trained s"
  "ad_last_training (calculate_statistical_thresholds_loop L s d m js) = ad_last_training s"
  by (induction js arbitrary: s; simp add: Let_def split: sum.splits)+

lemma thresholds_frame:
  "ad_config (calculate_statistical_thresholds L s d m) = ad_config s"
  "ad_models (calculate_statistical_thresholds L s d m) = ad_models s"
  "ad_scalers (calculate_statistical_thresholds L s d m) = ad_scalers s"
  "ad_is_trained (calculate_statistical_thresholds L s d m) = ad_is_trained s"
  "ad_last_training (calculate_statistical_thresholds L s d m) = ad_last_training s"
  by (simp_all add: calculate_statistical_thresholds_def thresholds_loop_frame)

subsection \<open>The training loop\<close>

lemma train_models_loop_config [simp]:
  "ad_config (train_models_loop L s td) = ad_config s"
proof (induction td arbitrary: s)
  case Nil
  then show ?case by simp
next
  case (Cons a td)
  obtain m d where a: "a = (m, d)" by (cases a)
  show ?case
    by (simp add: a Cons.IH Let_def thresholds_frame train_dbscan_frame
         train_isolation_forest_frame split: prod.splits)
       (metis fst_conv preprocess_data_frame(1))
qed

lemma train_models_loop_frame:
  "ad_is_trained (train_models_loop L s td) = ad_is_trained s"
  "ad_last_training (train_models_loop L s td) = ad_last_training s"
proof (induction td arbitrary: s)
  case Nil
  { case 1 show ?case by simp }
  { case 2 show ?case by simp }
next
  case (Cons a td)
  obtain m d where a: "a = (m, d)" by (cases a)
  { case 1 show ?case
      by (simp add: a Cons.IH Let_def thresholds_frame train_dbscan_frame
         train_isolation_forest_frame split: prod.splits)
       (metis fst_conv preprocess_data_frame(4)) }
  { case 2 show ?case
      by (simp add: a Cons.IH Let_def thresholds_frame train_dbscan_frame
         train_isolation_forest_frame split: prod.splits)
       (metis fst_conv preprocess_data_frame(5)) }
qed

lemma train_step_config:
  assumes "preprocess_data L s d = (s1, p)"
  shows "ad_config (calculate_statistical_thresholds L
            (train_dbscan L (train_isolation_forest L s1 p m) p m) p m) = ad_config s"
  using preprocess_data_frame(1) [of L s d] assms
  by (simp add: thresholds_frame train_dbscan_frame train_isolation_forest_frame)

lemma train_step_keys:
  assumes pp: "preprocess_data L s d = (s1, p)"
    and short: "m' = m \<longrightarrow> len p < 10"
  shows "map_of (ad_models (calculate_statistical_thresholds L
            (train_dbscan L (train_isolation_forest L s1 p m') p m') p m'))
            (''isolation_forest_'' @ m) = map_of (ad_models s) (''isolation_forest_'' @ m)
       \<and> map_of (ad_models (calculate_statistical_thresholds L
            (train_dbscan L (train_isolation_forest L s1 p m') p m') p m'))
            (''dbscan_'' @ m) = map_of (ad_models s) (''dbscan_'' @ m)"
proof -
  have m1: "ad_models s1 = ad_models s"
    using preprocess_data_frame(2) [of L s d] pp by simp
  show ?thesis
  proof (cases "m' = m")
    case True
    then have "len p < 10" using short by simp
    then show ?thesis
      by (simp add: thresholds_frame train_dbscan_short train_isolation_forest_short m1)
  next
    case False
    then show ?thesis
      by (simp add: thresholds_frame train_dbscan_other train_isolation_forest_other m1)
  qed
qed

lemma train_models_loop_keys:
  assumes "\<forall>d. (m, d) \<in> set td \<longrightarrow> len d = 0 \<or> len (snd (preprocess_data L s d)) < 10"
  shows "map_of (ad_models (train_models_loop L s td)) (''isolation_forest_'' @ m)
           = map_of (ad_models s) (''isolation_forest_'' @ m)
       \<and> map_of (ad_models (train_models_loop L s td)) (''dbscan_'' @ m)
           = map_of (ad_models s) (''dbscan_'' @ m)"
  using assms
proof (induction td arbitrary: s)
  case Nil
  then show ?case by simp
next
  case (Cons a td)
  obtain m' d' where a: "a = (m', d')" by (cases a)
  show ?case
  proof (cases "len d' = 0")
    case True
    then show ?thesis using Cons.IH [of s] Cons.prems by (simp add: a)
  next
    case False
    obtain s1 p where pp: "preprocess_data L s d' = (s1, p)" by (cases "preprocess_data L s d'")
    let ?s4 = "calculate_statistical_thresholds L
            (train_dbscan L (train_isolation_forest L s1 p m') p m') p m'"
    have cfg: "ad_config ?s4 = ad_config s" by (rule train_step_config [OF pp])
    have short: "m' = m \<longrightarrow> len p < 10"
      using Cons.prems False pp by (auto simp: a)
    have pre: "\<forall>d. (m, d) \<in> set td \<longrightarrow> len d = 0 \<or> len (snd (preprocess_data L ?s4 d)) < 10"
      using Cons.prems preprocess_data_config_only [OF cfg] by (simp add: a)
    have step: "train_models_loop L s (a # td) = train_models_loop L ?s4 td"
      using False pp by (simp add: a)
    show ?thesis
      unfolding step using Cons.IH [OF pre] train_step_keys [OF pp short] by simp
  qed
qed

lemma train_models_loop_trained:
  assumes "distinct (map fst td)" and "(m, d) \<in> set td" and "0 < len d"
    and "10 \<le> len (snd (preprocess_data L s d))"
    and "iforest_fit L (ad_config s) (rows (snd (preprocess_data L s d))) = Inr f"
    and "dbscan_fit L (ad_config s) (rows (snd (preprocess_data L s d))) = Inr g"
  shows "map_of (ad_models (train_models_loop L s td)) (''isolation_forest_'' @ m) = Some f
       \<and> map_of (ad_models (train_models_loop L s td)) (''dbscan_'' @ m) = Some g"
  using assms
proof (induction td arbitrary: s)
  case Nil
  then show ?case by simp
next
  case (Cons a td)
  obtain m' d' where a: "a = (m', d')" by (cases a)
  show ?case
  proof (cases "a = (m, d)")
    case True
    obtain s1 p where pp: "preprocess_data L s d = (s1, p)" by (cases "preprocess_data L s d")
    let ?s4 = "calculate_statistical_thresholds L
            (train_dbscan L (train_isolation_forest L s1 p m) p m) p m"
    have step: "train_models_loop L s (a # td) = train_models_loop L ?s4 td"
      using True Cons.prems(3) pp by simp
    have notin: "\<forall>d. (m, d) \<in> set td \<longrightarrow> len d = 0 \<or> len (snd (preprocess_data L ?s4 d)) < 10"
      using Cons.prems(1) True by (auto simp: image_iff)
    have c1: "ad_config s1 = ad_config s"
      using preprocess_data_frame(1) [of L s d] pp by simp
    have now: "map_of (ad_models ?s4) (''isolation_forest_'' @ m) = Some f
        \<and> map_of (ad_models ?s4) (''dbscan_'' @ m) = Some g"
      using Cons.prems(4,5,6) pp c1
      by (simp add: thresholds_frame train_dbscan_def train_isolation_forest_def update_conv')
    show ?thesis
      unfolding step using train_models_loop_keys [OF notin] now by simp
  next
    case False
    then have mem: "(m, d) \<in> set td" using Cons.prems(2) by simp
    have dist: "distinct (map fst td)" using Cons.prems(1) by simp
    show ?thesis
    proof (cases "len d' = 0")
      case True
      then show ?thesis
        using Cons.IH [OF dist mem Cons.prems(3,4,5,6)] by (simp add: a)
    next
      case nz: False
      obtain s1 p where pp: "preprocess_data L s d' = (s1, p)" by (cases "preprocess_data L s d'")
      let ?s4 = "calculate_statistical_thresholds L
            (train_dbscan L (train_isolation_forest L s1 p m') p m') p m'"
      have cfg: "ad_config ?s4 = ad_config s" by (rule train_step_config [OF pp])
      have step: "train_models_loop L s (a # td) = train_models_loop L ?s4 td"
        using nz pp by (simp add: a)
      have same: "snd (preprocess_data L ?s4 d) = snd (preprocess_data L s d)"
        by (rule preprocess_data_config_only [OF cfg])
      show ?thesis
        unfolding step
        using Cons.IH [of ?s4, OF dist mem Cons.prems(3)] Cons.prems(4,5,6)
        by (simp add: same cfg)
    qed
  qed
qed

subsection \<open>Detection\<close>

lemma preprocess_data_eq:
  assumes "preprocess_data L s d = (s1, p)"
  shows "ad_config s1 = ad_config s" "ad_models s1 = ad_models s"
    "ad_thresholds s1 = ad_thresholds s" "ad_is_trained s1 = ad_is_trained s"
    "ad_last_training s1 = ad_last_training s"
  using preprocess_data_frame [of L s d] assms by simp_all

lemma detect_untrained:
  "\<not> ad_is_trained s \<Longrightarrow> detect_anomalies L s d m = (s, not_trained_result)"
  by (simp add: detect_anomalies_def)

lemma detect_frame:
  "ad_config (fst (detect_anomalies L s d m)) = ad_config s"
  "ad_thresholds (fst (detect_anomalies L s d m)) = ad_thresholds s"
  "ad_is_trained (fst (detect_anomalies L s d m)) = ad_is_trained s"
  "ad_last_training (fst (detect_anomalies L s d m)) = ad_last_training s"
  by (auto simp: detect_anomalies_def Let_def
        split: prod.splits sum.splits option.splits dest: preprocess_data_eq)

lemma detect_scalers:
  "ad_scalers (fst (detect_anomalies L s d m)) =
     (if ad_is_trained s then ad_scalers (fst (preprocess_data L s d)) else ad_scalers s)"
  by (auto simp: detect_anomalies_def Let_def
        split: prod.splits sum.splits option.splits)

lemma detect_models_other:
  "k \<noteq> ''dbscan_'' @ m \<Longrightarrow>
     map_of (ad_models (fst (detect_anomalies L s d m))) k = map_of (ad_models s) k"
  by (auto simp: detect_anomalies_def Let_def update_conv'
        split: prod.splits sum.splits option.splits dest: preprocess_data_eq)

lemma update_present_keys:
  "map_of al k = Some v \<Longrightarrow> map fst (AList.update k v' al) = map fst al"
  by (induction al) (auto split: if_splits)

lemma detect_models_keys:
  "map fst (ad_models (fst (detect_anomalies L s d m))) = map fst (ad_models s)"
  by (auto simp: detect_anomalies_def Let_def update_present_keys
        split: prod.splits sum.splits option.splits dest: preprocess_data_eq)

lemma detect_method:
  "ad_is_trained s \<Longrightarrow>
     d_method (snd (detect_anomalies L s d m)) = ''ensemble''
   \<or> d_method (snd (detect_anomalies L s d m)) = ''error''"
  by (auto simp: detect_anomalies_def Let_def error_result_def
        split: prod.splits sum.splits option.splits)

lemma stat_loop_state:
  assumes "ad_thresholds s = ad_thresholds s'" "ad_config s = ad_config s'"
  shows "detect_statistical_anomalies_loop L s d m acc js
       = detect_statistical_anomalies_loop L s' d m acc js"
  using assms
  by (induction js arbitrary: acc) (simp_all add: Let_def split: sum.splits)

lemma stat_state:
  assumes "ad_thresholds s = ad_thresholds s'" "ad_config s = ad_config s'"
  shows "detect_statistical_anomalies L s d m = detect_statistical_anomalies L s' d m"
  by (simp add: detect_statistical_anomalies_def stat_loop_state [OF assms])

lemma detect_statistical_only:
  assumes "ad_is_trained s"
    and "map_of (ad_models s) (''isolation_forest_'' @ m) = None"
    and "map_of (ad_models s) (''dbscan_'' @ m) = None"
  shows "detect_anomalies L s d m =
     (fst (preprocess_data L s d),
      let found = statistical_append ([], []) (detect_statistical_anomalies L s d m);
          filtered = filter (\<lambda>a. a_confidence a \<ge> confidence_threshold (ad_config s)) (fst found)
      in \<lparr> d_anomalies = filtered,
           d_confidence = (if snd found \<noteq> [] then np_mean (snd found) else 0),
           d_method = ''ensemble'', d_error = None,
           d_total_detected = Some (length (fst found)),
           d_filtered_count = Some (length filtered) \<rparr>)"
proof -
  obtain s1 p where pp: "preprocess_data L s d = (s1, p)" by (cases "preprocess_data L s d")
  have st: "detect_statistical_anomalies L s1 d m = detect_statistical_anomalies L s d m"
    by (rule stat_state) (simp_all add: preprocess_data_eq [OF pp])
  show ?thesis
    using assms preprocess_data_eq [OF pp]
    by (simp add: detect_anomalies_def pp st Let_def split: prod.splits)
qed


subsection \<open>The sample runs, evaluated\<close>

lemmas stat_defs = pd_quantile_def interpolate_def np_percentile_def pvariance_def
  scipy_zscore_def np_mean_def sort_key_def Let_def

lemmas lib_defs = example_lib_def stats_lib_def standard_fit_transform_def matrix_column_def
  scale_of_def estimator_fit_def

lemma pre_short:
  "ad_config s = ad_default_config \<Longrightarrow> preprocess_data example_lib s short_series =
     (s\<lparr>ad_scalers := AList.update ''standard'' ([1], [1]) (ad_scalers s)\<rparr>,
      \<lparr>columns = [''v''], rows = [[- 1], [1]]\<rparr>)"
  by (simp add: preprocess_data_def short_series_def column_values_def lib_defs stat_defs ad_default_config_def)

lemma pre_spike:
  "ad_config s = ad_default_config \<Longrightarrow> preprocess_data example_lib s spike_batch =
     (s\<lparr>ad_scalers := AList.update ''standard'' ([0], [0]) (ad_scalers s)\<rparr>,
      \<lparr>columns = [''v''], rows = [[0], [0], [0], [0]]\<rparr>)"
  by (simp add: preprocess_data_def spike_batch_def column_values_def lib_defs stat_defs ad_default_config_def)

lemma thr_short:
  "ad_config s = ad_default_config \<Longrightarrow>
   calculate_statistical_thresholds example_lib s \<lparr>columns = [''v''], rows = [[- 1], [1]]\<rparr> ''m'' =
   s\<lparr>ad_thresholds := AList.update ''m_v_iqr'' (Fin 2)
          (AList.update ''m_v_z_score'' (Fin 1) (ad_thresholds s))\<rparr>"
  by (simp add: calculate_statistical_thresholds_def column_values_def lib_defs stat_defs ad_default_config_def)

lemma short_trained_eval:
  "short_trained =
     \<lparr> ad_config = ad_default_config, ad_models = [], ad_scalers = [(''standard'', ([1], [1]))],
       ad_thresholds = [(''m_v_z_score'', Fin 1), (''m_v_iqr'', Fin 2)],
       ad_is_trained = True, ad_last_training = Some 7 \<rparr>"
proof -
  have k: "ad_config (ad_init :: (real list list, real list \<times> real list) detector) = ad_default_config"
    by (simp add: ad_init_def)
  show ?thesis
    unfolding short_trained_def ad_train_models_def
    by (simp add: pre_short [OF k] thr_short k len_def train_isolation_forest_def train_dbscan_def)
       (simp add: ad_init_def short_series_def)
qed

lemma stat_spike_default:
  "ad_config s = ad_default_config \<Longrightarrow> map_of (ad_thresholds s) ''cpu_v_z_score'' = None \<Longrightarrow>
   detect_statistical_anomalies example_lib s spike_batch ''cpu'' =
     [\<lparr>a_index = 4, a_method = ''iqr'', a_confidence = 0.75, a_column = Some ''v'',
       a_value = Some 5, a_z_score = None, a_threshold = Some (Fin 0)\<rparr>]"
  by (simp add: detect_statistical_anomalies_def spike_batch_def column_values_def lib_defs stat_defs ad_default_config_def
        np_where_def flagged_def eval_nat_numeral)

lemma stat_spike_stored:
  "ad_config s = ad_default_config \<Longrightarrow> map_of (ad_thresholds s) ''m_v_z_score'' = Some (Fin 1) \<Longrightarrow>
   detect_statistical_anomalies example_lib s spike_batch ''m'' =
     [\<lparr>a_index = 4, a_method = ''z_score'', a_confidence = 0.9, a_column = Some ''v'',
       a_value = Some 5, a_z_score = Some (Fin 2), a_threshold = Some (Fin 1)\<rparr>]"
  by (simp add: detect_statistical_anomalies_def spike_batch_def column_values_def lib_defs stat_defs ad_default_config_def
        np_where_def flagged_def eval_nat_numeral)

lemma stat_spike_cleared:
  "ad_config s = ad_default_config \<Longrightarrow> map_of (ad_thresholds s) ''m_v_z_score'' = None \<Longrightarrow>
   detect_statistical_anomalies example_lib s spike_batch ''m'' =
     [\<lparr>a_index = 4, a_method = ''iqr'', a_confidence = 0.75, a_column = Some ''v'',
       a_value = Some 5, a_z_score = None, a_threshold = Some (Fin 0)\<rparr>]"
  by (simp add: detect_statistical_anomalies_def spike_batch_def column_values_def lib_defs stat_defs ad_default_config_def
        np_where_def flagged_def eval_nat_numeral)

lemma rows_kept_example: "rows_kept example_lib"
  by (auto simp: rows_kept_def lib_defs Let_def split: if_splits)

lemma pre_steady:
  "ad_config s = ad_default_config \<Longrightarrow> preprocess_data example_lib s steady_series =
     (s\<lparr>ad_scalers := AList.update ''standard'' ([3], [0]) (ad_scalers s)\<rparr>,
      \<lparr>columns = [''v''], rows = replicate 10 [0]\<rparr>)"
  by (simp add: preprocess_data_def steady_series_def column_values_def lib_defs stat_defs
        ad_default_config_def eval_nat_numeral)

lemma pre_outlier:
  "ad_config s = ad_default_config \<Longrightarrow> preprocess_data example_lib s outlier_series =
     (s\<lparr>ad_scalers := AList.update ''standard'' ([0], [0]) (ad_scalers s)\<rparr>,
      \<lparr>columns = [''v''], rows = replicate 9 [0]\<rparr>)"
  by (simp add: preprocess_data_def outlier_series_def column_values_def lib_defs stat_defs
        ad_default_config_def eval_nat_numeral)


subsection \<open>The z-score test reads the stored thresholds\<close>

lemma np_where_iff: "idx \<in> set (np_where P xs) \<longleftrightarrow> idx < length xs \<and> P (xs ! idx)"
  by (auto simp: np_where_def)

lemma iqr_append_keeps:
  "x \<in> set acc \<Longrightarrow> x \<in> set (iqr_append c v t acc idxs)"
  by (induction idxs arbitrary: acc) simp_all

lemma iqr_append_new:
  "x \<in> set (iqr_append c v t acc idxs) \<Longrightarrow> x \<in> set acc \<or> a_method x = ''iqr''"
proof (induction idxs arbitrary: acc)
  case Nil
  then show ?case by simp
next
  case (Cons i idxs)
  from Cons.IH [OF Cons.prems [simplified]] show ?case
    by (auto split: if_splits)
qed

lemma stat_loop_keeps:
  "x \<in> set acc \<Longrightarrow> x \<in> set (detect_statistical_anomalies_loop L s d m acc js)"
proof (induction js arbitrary: acc)
  case Nil
  then show ?case by simp
next
  case (Cons j js)
  show ?case
    using Cons.prems
    by (auto simp: Let_def intro!: Cons.IH iqr_append_keeps split: sum.splits)
qed


lemma stat_loop_timestamp:
  "columns d ! j = ''timestamp'' \<Longrightarrow>
   detect_statistical_anomalies_loop L s d m acc (j # js)
     = detect_statistical_anomalies_loop L s d m acc js"
  by (simp add: Let_def)

lemma stat_loop_step:
  assumes "columns d ! j \<noteq> ''timestamp''"
  shows "detect_statistical_anomalies_loop L s d m acc (j # js) =
     (case percentile L (map Fin (column_values d j)) 25 of
        Inl e \<Rightarrow> acc @ map (z_score_entry L d j (z_threshold_for s m (columns d ! j)))
                   (np_where (fl_less (z_threshold_for s m (columns d ! j)))
                      (zscore L (column_values d j)))
      | Inr Q1 \<Rightarrow>
     (case percentile L (map Fin (column_values d j)) 75 of
        Inl e \<Rightarrow> acc @ map (z_score_entry L d j (z_threshold_for s m (columns d ! j)))
                   (np_where (fl_less (z_threshold_for s m (columns d ! j)))
                      (zscore L (column_values d j)))
      | Inr Q3 \<Rightarrow>
          detect_statistical_anomalies_loop L s d m
            (iqr_append (columns d ! j) (column_values d j)
               (fl_add Q3 (fl_mul (Fin (iqr_multiplier (ad_config s))) (fl_sub Q3 Q1)))
               (acc @ map (z_score_entry L d j (z_threshold_for s m (columns d ! j)))
                   (np_where (fl_less (z_threshold_for s m (columns d ! j)))
                      (zscore L (column_values d j))))
               (np_where (\<lambda>v. fl_less
                    (fl_add Q3 (fl_mul (Fin (iqr_multiplier (ad_config s))) (fl_sub Q3 Q1)))
                    (Fin v)) (column_values d j)))
            js))"
proof -
  have e: "(\<lambda>idx. \<lparr> a_index = idx, a_method = ''z_score'',
                 a_confidence = z_confidence (zscore L (column_values d j) ! idx) t,
                 a_column = Some (columns d ! j), a_value = Some (column_values d j ! idx),
                 a_z_score = Some (zscore L (column_values d j) ! idx),
                 a_threshold = Some t \<rparr>) = z_score_entry L d j t" for t
    by (rule ext) (simp add: z_score_entry_def)
  have f: "(\<lambda>z. fl_less t z) = fl_less t" for t by simp
  show ?thesis
    using assms
    by (simp add: Let_def e z_threshold_for_def split: sum.splits)
qed

lemma stat_loop_z_sound:
  assumes "a \<in> set (detect_statistical_anomalies_loop L s d m acc js)"
    and "a_method a = ''z_score''"
  shows "a \<in> set acc
       \<or> (\<exists>j \<in> set js. \<exists>idx. columns d ! j \<noteq> ''timestamp''
             \<and> idx < length (zscore L (column_values d j))
             \<and> fl_less (z_threshold_for s m (columns d ! j)) (zscore L (column_values d j) ! idx)
             \<and> a = z_score_entry L d j (z_threshold_for s m (columns d ! j)) idx)"
  using assms(1)
proof (induction js arbitrary: acc)
  case Nil
  then show ?case by simp
next
  case (Cons j js)
  let ?thr = "z_threshold_for s m (columns d ! j)"
  let ?z = "zscore L (column_values d j)"
  let ?acc1 = "acc @ map (z_score_entry L d j ?thr) (np_where (fl_less ?thr) ?z)"
  show ?case
  proof (cases "columns d ! j = ''timestamp''")
    case True
    then have "a \<in> set (detect_statistical_anomalies_loop L s d m acc js)"
      using Cons.prems by (simp only: stat_loop_timestamp)
    from Cons.IH [OF this] show ?thesis by auto
  next
    case False
    have in1: "x \<in> set ?acc1 \<Longrightarrow> x \<in> set acc
        \<or> (\<exists>idx. idx < length ?z \<and> fl_less ?thr (?z ! idx) \<and> x = z_score_entry L d j ?thr idx)"
      for x by (auto simp: np_where_iff)
    have "a \<in> set ?acc1
        \<or> (\<exists>acc2. (\<forall>x \<in> set acc2. x \<in> set ?acc1 \<or> a_method x = ''iqr'')
              \<and> a \<in> set (detect_statistical_anomalies_loop L s d m acc2 js))"
    proof (cases "percentile L (map Fin (column_values d j)) 25")
      case (Inl e)
      then show ?thesis using Cons.prems by (simp only: stat_loop_step [OF False] sum.case simp_thms)
    next
      case q1: (Inr Q1)
      show ?thesis
      proof (cases "percentile L (map Fin (column_values d j)) 75")
        case (Inl e)
        then show ?thesis using Cons.prems q1 by (simp only: stat_loop_step [OF False] sum.case simp_thms)
      next
        case q3: (Inr Q3)
        let ?acc2 = "iqr_append (columns d ! j) (column_values d j)
               (fl_add Q3 (fl_mul (Fin (iqr_multiplier (ad_config s))) (fl_sub Q3 Q1)))
               ?acc1
               (np_where (\<lambda>v. fl_less
                    (fl_add Q3 (fl_mul (Fin (iqr_multiplier (ad_config s))) (fl_sub Q3 Q1)))
                    (Fin v)) (column_values d j))"
        have "a \<in> set (detect_statistical_anomalies_loop L s d m ?acc2 js)"
          using Cons.prems q1 q3 by (simp only: stat_loop_step [OF False] sum.case)
        moreover have "\<forall>x \<in> set ?acc2. x \<in> set ?acc1 \<or> a_method x = ''iqr''"
          using iqr_append_new by blast
        ultimately show ?thesis by blast
      qed
    qed
    then show ?thesis
    proof
      assume "a \<in> set ?acc1"
      from in1 [OF this] False show ?thesis by auto
    next
      assume "\<exists>acc2. (\<forall>x \<in> set acc2. x \<in> set ?acc1 \<or> a_method x = ''iqr'')
              \<and> a \<in> set (detect_statistical_anomalies_loop L s d m acc2 js)"
      then obtain acc2 where sub: "\<forall>x \<in> set acc2. x \<in> set ?acc1 \<or> a_method x = ''iqr''"
        and mem: "a \<in> set (detect_statistical_anomalies_loop L s d m acc2 js)" by blast
      from Cons.IH [OF mem] show ?thesis
      proof
        assume "a \<in> set acc2"
        then have "a \<in> set ?acc1" using sub assms(2) by auto
        from in1 [OF this] False show ?thesis by auto
      next
        assume "\<exists>j \<in> set js. \<exists>idx. columns d ! j \<noteq> ''timestamp''
             \<and> idx < length (zscore L (column_values d j))
             \<and> fl_less (z_threshold_for s m (columns d ! j)) (zscore L (column_values d j) ! idx)
             \<and> a = z_score_entry L d j (z_threshold_for s m (columns d ! j)) idx"
        then show ?thesis by auto
      qed
    qed
  qed
qed

lemma stat_loop_z_complete:
  assumes "\<forall>i \<in> set pre. columns d ! i \<noteq> ''timestamp'' \<longrightarrow> fences_return L d i"
    and "columns d ! j \<noteq> ''timestamp''"
    and "idx < length (zscore L (column_values d j))"
    and "fl_less (z_threshold_for s m (columns d ! j)) (zscore L (column_values d j) ! idx)"
  shows "z_score_entry L d j (z_threshold_for s m (columns d ! j)) idx
           \<in> set (detect_statistical_anomalies_loop L s d m acc (pre @ j # post))"
  using assms(1)
proof (induction pre arbitrary: acc)
  case Nil
  let ?thr = "z_threshold_for s m (columns d ! j)"
  let ?z = "zscore L (column_values d j)"
  let ?acc1 = "acc @ map (z_score_entry L d j ?thr) (np_where (fl_less ?thr) ?z)"
  have "z_score_entry L d j ?thr idx \<in> set ?acc1"
    using assms(3,4) by (simp add: np_where_iff)
  then show ?case
    by (simp only: append_Nil stat_loop_step [OF assms(2)])
       (auto intro!: stat_loop_keeps iqr_append_keeps split: sum.splits)
next
  case (Cons i pre)
  have rest: "\<forall>i \<in> set pre. columns d ! i \<noteq> ''timestamp'' \<longrightarrow> fences_return L d i"
    using Cons.prems by simp
  show ?case
  proof (cases "columns d ! i = ''timestamp''")
    case True
    then show ?thesis using Cons.IH [OF rest] by (simp only: append_Cons stat_loop_timestamp)
  next
    case False
    then have "fences_return L d i" using Cons.prems by simp
    then obtain q1 q3 where "percentile L (map Fin (column_values d i)) 25 = Inr q1"
      and "percentile L (map Fin (column_values d i)) 75 = Inr q3"
      unfolding fences_return_def by (metis sum.collapse(2))
    then show ?thesis
      using Cons.IH [OF rest] by (simp only: append_Cons stat_loop_step [OF False] sum.case)
  qed
qed

lemma stat_z_sound:
  assumes "a \<in> set (detect_statistical_anomalies L s d m)" and "a_method a = ''z_score''"
  shows "\<exists>j idx. j < length (columns d) \<and> columns d ! j \<noteq> ''timestamp''
             \<and> idx < length (zscore L (column_values d j))
             \<and> fl_less (z_threshold_for s m (columns d ! j)) (zscore L (column_values d j) ! idx)
             \<and> a = z_score_entry L d j (z_threshold_for s m (columns d ! j)) idx"
  using stat_loop_z_sound [OF assms(1) [unfolded detect_statistical_anomalies_def] assms(2)]
  by auto

lemma stat_z_complete:
  assumes "j < length (columns d)"
    and "\<forall>i < j. columns d ! i \<noteq> ''timestamp'' \<longrightarrow> fences_return L d i"
    and "columns d ! j \<noteq> ''timestamp''"
    and "idx < length (zscore L (column_values d j))"
    and "fl_less (z_threshold_for s m (columns d ! j)) (zscore L (column_values d j) ! idx)"
  shows "z_score_entry L d j (z_threshold_for s m (columns d ! j)) idx
           \<in> set (detect_statistical_anomalies L s d m)"
proof -
  have u: "[0 ..< length (columns d)] = [0 ..< j] @ j # [Suc j ..< length (columns d)]"
    using assms(1) by (metis le0 upt_add_eq_append upt_conv_Cons le_add_diff_inverse less_imp_le)
  have p: "\<forall>i \<in> set [0 ..< j]. columns d ! i \<noteq> ''timestamp'' \<longrightarrow> fences_return L d i"
    using assms(2) by simp
  show ?thesis
    unfolding detect_statistical_anomalies_def u
    by (rule stat_loop_z_complete [OF p assms(3,4,5)])
qed


subsection \<open>Training stores a threshold for every column it can\<close>

lemma thresholds_loop_step:
  assumes "percentile L (zscore L (column_values d j)) 95 = Inr zt"
    and "percentile L (map Fin (column_values d j)) 25 = Inr q1"
    and "percentile L (map Fin (column_values d j)) 75 = Inr q3"
  shows "calculate_statistical_thresholds_loop L s d m (j # js) =
     calculate_statistical_thresholds_loop L
       (s\<lparr> ad_thresholds :=
            AList.update (m @ ''_'' @ columns d ! j @ ''_iqr'')
              (fl_add q3 (fl_mul (Fin (iqr_multiplier (ad_config s))) (fl_sub q3 q1)))
              (AList.update (m @ ''_'' @ columns d ! j @ ''_z_score'') zt (ad_thresholds s)) \<rparr>)
       d m js"
  using assms by (simp add: Let_def)

lemma thresholds_loop_stop:
  assumes "isl (percentile L (zscore L (column_values d j)) 95)
         \<or> isl (percentile L (map Fin (column_values d j)) 25)
         \<or> isl (percentile L (map Fin (column_values d j)) 75)"
  shows "calculate_statistical_thresholds_loop L s d m (j # js) = s"
  using assms by (auto simp: Let_def isl_def split: sum.splits)

lemma thresholds_loop_keeps:
  "map_of (ad_thresholds s) k \<noteq> None \<Longrightarrow>
   map_of (ad_thresholds (calculate_statistical_thresholds_loop L s d m js)) k \<noteq> None"
proof (induction js arbitrary: s)
  case Nil
  then show ?case by simp
next
  case (Cons j js)
  show ?case
  proof (cases "isl (percentile L (zscore L (column_values d j)) 95)
         \<or> isl (percentile L (map Fin (column_values d j)) 25)
         \<or> isl (percentile L (map Fin (column_values d j)) 75)")
    case True
    show ?thesis unfolding thresholds_loop_stop [OF True] by (rule Cons.prems)
  next
    case False
    then obtain zt q1 q3 where r: "percentile L (zscore L (column_values d j)) 95 = Inr zt"
      "percentile L (map Fin (column_values d j)) 25 = Inr q1"
      "percentile L (map Fin (column_values d j)) 75 = Inr q3"
      by (metis sum.collapse(2))
    show ?thesis
      unfolding thresholds_loop_step [OF r]
      by (rule Cons.IH) (use Cons.prems in \<open>simp add: update_conv'\<close>)
  qed
qed

lemma thresholds_loop_stores:
  assumes "\<forall>i \<in> set (pre @ [j]). thresholds_return L d i"
  shows "map_of (ad_thresholds (calculate_statistical_thresholds_loop L s d m (pre @ j # post)))
           (m @ ''_'' @ columns d ! j @ ''_z_score'') \<noteq> None"
  using assms
proof (induction pre arbitrary: s)
  case Nil
  then have "thresholds_return L d j" by simp
  then obtain zt q1 q3 where r: "percentile L (zscore L (column_values d j)) 95 = Inr zt"
    "percentile L (map Fin (column_values d j)) 25 = Inr q1"
    "percentile L (map Fin (column_values d j)) 75 = Inr q3"
    unfolding thresholds_return_def fences_return_def by (metis sum.collapse(2))
  have e: "[] @ j # post = j # post" by simp
  show ?case
    unfolding e thresholds_loop_step [OF r]
    by (rule thresholds_loop_keeps) (simp add: update_conv')
next
  case (Cons i pre)
  then have "thresholds_return L d i" by simp
  then obtain zt q1 q3 where r: "percentile L (zscore L (column_values d i)) 95 = Inr zt"
    "percentile L (map Fin (column_values d i)) 25 = Inr q1"
    "percentile L (map Fin (column_values d i)) 75 = Inr q3"
    unfolding thresholds_return_def fences_return_def by (metis sum.collapse(2))
  have rest: "\<forall>i \<in> set (pre @ [j]). thresholds_return L d i" using Cons.prems by simp
  have e: "(i # pre) @ j # post = i # (pre @ j # post)" by simp
  show ?case
    unfolding e thresholds_loop_step [OF r]
    by (rule Cons.IH [OF rest])
qed

lemma thresholds_stores:
  assumes "j < length (columns d)" and "\<forall>i \<le> j. thresholds_return L d i"
  shows "map_of (ad_thresholds (calculate_statistical_thresholds L s d m))
           (m @ ''_'' @ columns d ! j @ ''_z_score'') \<noteq> None"
proof -
  have u: "[0 ..< length (columns d)] = [0 ..< j] @ j # [Suc j ..< length (columns d)]"
    using assms(1) by (metis le0 upt_add_eq_append upt_conv_Cons le_add_diff_inverse less_imp_le)
  have p: "\<forall>i \<in> set ([0 ..< j] @ [j]). thresholds_return L d i"
    using assms(2) by auto
  show ?thesis
    unfolding calculate_statistical_thresholds_def u
    by (rule thresholds_loop_stores [OF p])
qed

lemma thresholds_keeps:
  "map_of (ad_thresholds s) k \<noteq> None \<Longrightarrow>
   map_of (ad_thresholds (calculate_statistical_thresholds L s d m)) k \<noteq> None"
  unfolding calculate_statistical_thresholds_def by (rule thresholds_loop_keeps)

lemma train_step_thresholds:
  "ad_thresholds (train_dbscan L (train_isolation_forest L (fst (preprocess_data L s d)) p m) p m)
     = ad_thresholds s"
  by (simp add: train_dbscan_frame train_isolation_forest_frame preprocess_data_frame)

lemma train_models_loop_step:
  assumes "preprocess_data L s d = (s1, p)"
  shows "train_models_loop L s ((m, d) # td)
      = (if len d > 0
         then train_models_loop L
                (calculate_statistical_thresholds L
                   (train_dbscan L (train_isolation_forest L s1 p m) p m) p m) td
         else train_models_loop L s td)"
  using assms by simp

lemma train_models_loop_keeps:
  "map_of (ad_thresholds s) k \<noteq> None \<Longrightarrow>
   map_of (ad_thresholds (train_models_loop L s td)) k \<noteq> None"
proof (induction td arbitrary: s)
  case Nil
  then show ?case by simp
next
  case (Cons a td)
  obtain m d where a: "a = (m, d)" by (cases a)
  obtain s1 p where pp: "preprocess_data L s d = (s1, p)" by (cases "preprocess_data L s d")
  have s1: "s1 = fst (preprocess_data L s d)" by (simp add: pp)
  have "map_of (ad_thresholds (train_dbscan L (train_isolation_forest L s1 p m) p m)) k \<noteq> None"
    using Cons.prems unfolding s1 train_step_thresholds .
  then have "map_of (ad_thresholds (calculate_statistical_thresholds L
                   (train_dbscan L (train_isolation_forest L s1 p m) p m) p m)) k \<noteq> None"
    by (rule thresholds_keeps)
  then have 1: "map_of (ad_thresholds (train_models_loop L
                (calculate_statistical_thresholds L
                   (train_dbscan L (train_isolation_forest L s1 p m) p m) p m) td)) k \<noteq> None"
    by (rule Cons.IH)
  have 2: "map_of (ad_thresholds (train_models_loop L s td)) k \<noteq> None"
    by (rule Cons.IH [OF Cons.prems])
  show ?case
    unfolding a train_models_loop_step [OF pp] using 1 2 by (cases "0 < len d") simp_all
qed

lemma train_models_loop_stores:
  assumes "(m, d) \<in> set td" and "0 < len d"
    and "j < length (columns (snd (preprocess_data L s d)))"
    and "\<forall>i \<le> j. thresholds_return L (snd (preprocess_data L s d)) i"
  shows "map_of (ad_thresholds (train_models_loop L s td))
           (m @ ''_'' @ columns (snd (preprocess_data L s d)) ! j @ ''_z_score'') \<noteq> None"
  using assms
proof (induction td arbitrary: s)
  case Nil
  then show ?case by simp
next
  case (Cons a td)
  obtain m' d' where a: "a = (m', d')" by (cases a)
  obtain s1 p where pp: "preprocess_data L s d' = (s1, p)" by (cases "preprocess_data L s d'")
  let ?s4 = "calculate_statistical_thresholds L
               (train_dbscan L (train_isolation_forest L s1 p m') p m') p m'"
  have step: "train_models_loop L s (a # td)
      = (if len d' > 0 then train_models_loop L ?s4 td else train_models_loop L s td)"
    unfolding a by (rule train_models_loop_step [OF pp])
  have cfg: "ad_config ?s4 = ad_config s"
    using preprocess_data_eq(1) [OF pp]
    by (simp add: thresholds_frame train_dbscan_frame train_isolation_forest_frame)
  have same: "snd (preprocess_data L ?s4 d) = snd (preprocess_data L s d)"
    by (rule preprocess_data_config_only [OF cfg])
  show ?case
  proof (cases "a = (m, d)")
    case True
    then have md: "m' = m" "d' = d" using a by simp_all
    have p: "p = snd (preprocess_data L s d)" using pp md by simp
    have "map_of (ad_thresholds ?s4) (m @ ''_'' @ columns p ! j @ ''_z_score'') \<noteq> None"
      unfolding md using Cons.prems(3,4) unfolding p [symmetric]
      by (intro thresholds_stores) simp_all
    then have "map_of (ad_thresholds (train_models_loop L ?s4 td))
                 (m @ ''_'' @ columns p ! j @ ''_z_score'') \<noteq> None"
      by (rule train_models_loop_keeps)
    then show ?thesis
      using Cons.prems(2) unfolding step md p by simp
  next
    case False
    then have mem: "(m, d) \<in> set td" using Cons.prems(1) by simp
    have ih1: "map_of (ad_thresholds (train_models_loop L s td))
           (m @ ''_'' @ columns (snd (preprocess_data L s d)) ! j @ ''_z_score'') \<noteq> None"
      by (rule Cons.IH [OF mem Cons.prems(2,3,4)])
    have 3: "j < length (columns (snd (preprocess_data L ?s4 d)))"
      using Cons.prems(3) unfolding same .
    have 4: "\<forall>i \<le> j. thresholds_return L (snd (preprocess_data L ?s4 d)) i"
      using Cons.prems(4) unfolding same .
    have ih2: "map_of (ad_thresholds (train_models_loop L ?s4 td))
           (m @ ''_'' @ columns (snd (preprocess_data L s d)) ! j @ ''_z_score'') \<noteq> None"
      using Cons.IH [of ?s4, OF mem Cons.prems(2) 3 4] unfolding same .
    show ?thesis unfolding step using ih1 ih2 by (cases "0 < len d'") simp_all
  qed
qed

lemma zscore_spike:
  "zscore example_lib (column_values spike_batch 0)
     = [Fin (1 / 2), Fin (1 / 2), Fin (1 / 2), Fin (1 / 2), Fin 2]"
  by (simp add: spike_batch_def column_values_def lib_defs stat_defs)

lemma short_thresholds_return:
  "thresholds_return example_lib \<lparr>columns = [''v''], rows = [[- 1], [1]]\<rparr> 0"
  by (simp add: thresholds_return_def fences_return_def column_values_def lib_defs stat_defs)


subsection \<open>The claims on the anomaly detector\<close>

lemma train_models_loop_all_short:
  assumes "rows_kept L" and "\<forall>(m', d) \<in> set td. len d < 10"
  shows "ad_models (train_models_loop L s td) = ad_models s"
  using assms(2)
proof (induction td arbitrary: s)
  case Nil
  then show ?case by simp
next
  case (Cons a td)
  obtain m' d' where a: "a = (m', d')" by (cases a)
  obtain s1 p where pp: "preprocess_data L s d' = (s1, p)" by (cases "preprocess_data L s d'")
  have "len d' < 10" using Cons.prems by (simp add: a)
  then have short: "len p < 10"
    using preprocess_data_len [OF assms(1), of s d'] pp by simp
  have rest: "\<forall>(m', d) \<in> set td. len d < 10" using Cons.prems by simp
  show ?case
    using Cons.IH [OF rest] short preprocess_data_eq(2) [OF pp]
    by (simp add: a pp thresholds_frame train_dbscan_short train_isolation_forest_short)
qed

text \<open>
  C1, as amended: \<open>detect_anomalies\<close> returns the empty "Models not trained" result exactly
  when the detector's global \<open>is_trained\<close> flag is unset, whatever the metric name; once the
  flag is set it never returns it, and for a metric with no stored model it returns an
  \<open>ensemble\<close> result that holds the statistical findings on the batch.
\<close>

theorem detect_not_trained_flag:
  "(\<not> ad_is_trained self \<longrightarrow> detect_anomalies L self data m = (self, not_trained_result))
   \<and> (ad_is_trained self \<longrightarrow> d_method (snd (detect_anomalies L self data m)) \<noteq> ''none'')
   \<and> (ad_is_trained self
        \<and> map_of (ad_models self) (''isolation_forest_'' @ m) = None
        \<and> map_of (ad_models self) (''dbscan_'' @ m) = None \<longrightarrow>
        d_method (snd (detect_anomalies L self data m)) = ''ensemble''
        \<and> d_error (snd (detect_anomalies L self data m)) = None
        \<and> d_anomalies (snd (detect_anomalies L self data m)) =
            filter (\<lambda>a. a_confidence a \<ge> confidence_threshold (ad_config self))
              (fst (statistical_append ([], []) (detect_statistical_anomalies L self data m))))"
proof (intro conjI impI)
  assume "\<not> ad_is_trained self"
  then show "detect_anomalies L self data m = (self, not_trained_result)"
    by (rule detect_untrained)
next
  assume "ad_is_trained self"
  then show "d_method (snd (detect_anomalies L self data m)) \<noteq> ''none''"
    using detect_method [of self L data m] by auto
next
  assume a: "ad_is_trained self
        \<and> map_of (ad_models self) (''isolation_forest_'' @ m) = None
        \<and> map_of (ad_models self) (''dbscan_'' @ m) = None"
  have eq: "detect_anomalies L self data m = (fst (preprocess_data L self data),
      let found = statistical_append ([], []) (detect_statistical_anomalies L self data m);
          filtered = filter (\<lambda>a. a_confidence a \<ge> confidence_threshold (ad_config self)) (fst found)
      in \<lparr> d_anomalies = filtered,
           d_confidence = (if snd found \<noteq> [] then np_mean (snd found) else 0),
           d_method = ''ensemble'', d_error = None,
           d_total_detected = Some (length (fst found)),
           d_filtered_count = Some (length filtered) \<rparr>)"
    using a by (intro detect_statistical_only) simp_all
  show "d_method (snd (detect_anomalies L self data m)) = ''ensemble''"
    by (simp add: eq Let_def)
  show "d_error (snd (detect_anomalies L self data m)) = None"
    by (simp add: eq Let_def)
  show "d_anomalies (snd (detect_anomalies L self data m)) =
            filter (\<lambda>a. a_confidence a \<ge> confidence_threshold (ad_config self))
              (fst (statistical_append ([], []) (detect_statistical_anomalies L self data m)))"
    by (simp add: eq Let_def)
qed

theorem detect_not_trained_flag_witness:
  "\<not> ad_is_trained (ad_init :: (real list list, real list \<times> real list) detector)
   \<and> detect_anomalies example_lib ad_init spike_batch ''cpu'' = (ad_init, not_trained_result)
   \<and> ad_is_trained short_trained
   \<and> map_of (ad_models short_trained) (''isolation_forest_'' @ ''cpu'') = None
   \<and> map_of (ad_models short_trained) (''dbscan_'' @ ''cpu'') = None
   \<and> d_method (snd (detect_anomalies example_lib short_trained spike_batch ''cpu'')) = ''ensemble''"
  using detect_not_trained_flag [of ad_init example_lib spike_batch "''cpu''"]
    detect_not_trained_flag [of short_trained example_lib spike_batch "''cpu''"]
  by (simp add: ad_init_def short_trained_eval)

text \<open>
  C1 as stated fails: a detector trained on the metric \<open>m\<close> only, asked about \<open>cpu\<close>,
  reports an anomaly under the method \<open>ensemble\<close> and no "not trained" annotation.
\<close>

theorem detect_unseen_metric_counterexample:
  "ad_is_trained short_trained
   \<and> map_of (ad_models short_trained) ''isolation_forest_cpu'' = None
   \<and> map_of (ad_models short_trained) ''dbscan_cpu'' = None
   \<and> snd (detect_anomalies example_lib short_trained spike_batch ''cpu'') =
       \<lparr> d_anomalies = [\<lparr>a_index = 4, a_method = ''iqr'', a_confidence = 0.75,
            a_column = Some ''v'', a_value = Some 5, a_z_score = None, a_threshold = Some (Fin 0)\<rparr>],
         d_confidence = 0.75, d_method = ''ensemble'', d_error = None,
         d_total_detected = Some 1, d_filtered_count = Some 1 \<rparr>
   \<and> snd (detect_anomalies example_lib short_trained spike_batch ''cpu'') \<noteq> not_trained_result"
proof -
  have t: "ad_is_trained short_trained"
    and i: "map_of (ad_models short_trained) (''isolation_forest_'' @ ''cpu'') = None"
    and d: "map_of (ad_models short_trained) (''dbscan_'' @ ''cpu'') = None"
    and c: "ad_config short_trained = ad_default_config"
    and z: "map_of (ad_thresholds short_trained) ''cpu_v_z_score'' = None"
    by (simp_all add: short_trained_eval)
  show ?thesis
    using t i d
    by (simp add: detect_statistical_only [OF t i d] stat_spike_default [OF c z] c
          ad_default_config_def flagged_def np_mean_def not_trained_result_def)
qed

text \<open>
  C3, as amended: \<open>detect_anomalies\<close> leaves the thresholds, the config, the trained flag
  and the training time as they were, keeps the keys of \<open>models\<close> and every model other
  than the metric's DBSCAN estimator (which \<open>fit_predict\<close> refits), and keeps every scaler
  other than \<open>scalers['standard']\<close> (which preprocessing overwrites).
\<close>

theorem detect_frame_effect:
  "ad_thresholds (fst (detect_anomalies L self data m)) = ad_thresholds self
   \<and> ad_config (fst (detect_anomalies L self data m)) = ad_config self
   \<and> ad_is_trained (fst (detect_anomalies L self data m)) = ad_is_trained self
   \<and> ad_last_training (fst (detect_anomalies L self data m)) = ad_last_training self
   \<and> map fst (ad_models (fst (detect_anomalies L self data m))) = map fst (ad_models self)
   \<and> (\<forall>k. k \<noteq> ''dbscan_'' @ m \<longrightarrow>
         map_of (ad_models (fst (detect_anomalies L self data m))) k = map_of (ad_models self) k)
   \<and> (\<forall>k. k \<noteq> ''standard'' \<longrightarrow>
         map_of (ad_scalers (fst (detect_anomalies L self data m))) k = map_of (ad_scalers self) k)"
  by (simp add: detect_frame detect_models_keys detect_models_other detect_scalers
        preprocess_data_scalers)

theorem detect_frame_effect_witness:
  "''m_v_iqr'' \<noteq> ''standard'' \<and> ''isolation_forest_m'' \<noteq> ''dbscan_'' @ ''m''
   \<and> ad_thresholds (fst (detect_anomalies example_lib short_trained spike_batch ''m''))
       = [(''m_v_z_score'', Fin 1), (''m_v_iqr'', Fin 2)]
   \<and> map_of (ad_models (fst (detect_anomalies example_lib short_trained spike_batch ''m'')))
        ''isolation_forest_m'' = None
   \<and> map_of (ad_scalers (fst (detect_anomalies example_lib short_trained spike_batch ''m'')))
        ''m_v_iqr'' = None"
  using detect_frame_effect [of example_lib short_trained spike_batch "''m''"]
  by (simp add: short_trained_eval)

text \<open>
  C3 as stated fails: detection on the spike batch replaces the scaler that training
  stored (mean 1, variance 1) by one fitted on the batch (mean 0, variance 0).
\<close>

theorem detect_read_only_counterexample:
  "ad_is_trained short_trained
   \<and> ad_scalers short_trained = [(''standard'', ([1], [1]))]
   \<and> ad_scalers (fst (detect_anomalies example_lib short_trained spike_batch ''m''))
       = [(''standard'', ([0], [0]))]
   \<and> ad_scalers (fst (detect_anomalies example_lib short_trained spike_batch ''m''))
       \<noteq> ad_scalers short_trained"
proof -
  have c: "ad_config short_trained = ad_default_config"
    by (simp add: short_trained_eval)
  show ?thesis
    by (simp add: detect_scalers pre_spike [OF c]) (simp add: short_trained_eval)
qed

text \<open>
  C5, as amended: a metric whose series has fewer than 10 rows is skipped without an
  error: the call leaves the entries of \<open>models\<close> under that metric's two keys as they were
  (none on a fresh detector).  The status has no per-metric field: it reports the component
  trained, and its \<open>models_count\<close> counts the stored models only.  A metric whose series
  still has at least 10 rows after preprocessing, and whose two fits succeed, gets both
  models stored in the same call.
\<close>

theorem short_series_skipped:
  assumes "rows_kept L" and "distinct (map fst training_data)"
  shows "((\<forall>data. (m, data) \<in> set training_data \<longrightarrow> len data < 10) \<longrightarrow>
            map_of (ad_models (ad_train_models L now self training_data)) (''isolation_forest_'' @ m)
              = map_of (ad_models self) (''isolation_forest_'' @ m)
          \<and> map_of (ad_models (ad_train_models L now self training_data)) (''dbscan_'' @ m)
              = map_of (ad_models self) (''dbscan_'' @ m))
       \<and> s_is_trained (ad_get_model_status (ad_train_models L now self training_data))
       \<and> s_models_count (ad_get_model_status (ad_train_models L now self training_data))
            = length (ad_models (ad_train_models L now self training_data))
       \<and> ((m2, d2) \<in> set training_data \<and> 0 < len d2
            \<and> 10 \<le> len (snd (preprocess_data L self d2))
            \<and> iforest_fit L (ad_config self) (rows (snd (preprocess_data L self d2))) = Inr f
            \<and> dbscan_fit L (ad_config self) (rows (snd (preprocess_data L self d2))) = Inr g \<longrightarrow>
            map_of (ad_models (ad_train_models L now self training_data)) (''isolation_forest_'' @ m2)
              = Some f
          \<and> map_of (ad_models (ad_train_models L now self training_data)) (''dbscan_'' @ m2)
              = Some g)"
proof -
  have A: "map_of (ad_models (train_models_loop L self training_data)) (''isolation_forest_'' @ m)
              = map_of (ad_models self) (''isolation_forest_'' @ m)
          \<and> map_of (ad_models (train_models_loop L self training_data)) (''dbscan_'' @ m)
              = map_of (ad_models self) (''dbscan_'' @ m)"
    if short: "\<forall>data. (m, data) \<in> set training_data \<longrightarrow> len data < 10"
  proof (rule train_models_loop_keys, intro allI impI)
    fix d assume "(m, d) \<in> set training_data"
    then have "len d < 10" using short by blast
    then have "len (snd (preprocess_data L self d)) < 10"
      using preprocess_data_len [OF assms(1), of self d] by simp
    then show "len d = 0 \<or> len (snd (preprocess_data L self d)) < 10" ..
  qed
  have B: "map_of (ad_models (train_models_loop L self training_data)) (''isolation_forest_'' @ m2)
              = Some f
          \<and> map_of (ad_models (train_models_loop L self training_data)) (''dbscan_'' @ m2)
              = Some g"
    if "(m2, d2) \<in> set training_data \<and> 0 < len d2
            \<and> 10 \<le> len (snd (preprocess_data L self d2))
            \<and> iforest_fit L (ad_config self) (rows (snd (preprocess_data L self d2))) = Inr f
            \<and> dbscan_fit L (ad_config self) (rows (snd (preprocess_data L self d2))) = Inr g"
    using that train_models_loop_trained [OF assms(2), of m2 d2 L self f g] by blast
  show ?thesis
    using A B by (simp add: ad_train_models_def ad_get_model_status_def)
qed

theorem short_series_skipped_witness:
  "rows_kept example_lib
   \<and> distinct (map fst [(''m'', short_series), (''b'', steady_series)])
   \<and> len short_series < 10 \<and> len steady_series = 10
   \<and> map_of (ad_models (ad_train_models example_lib 7 ad_init
                [(''m'', short_series), (''b'', steady_series)])) ''isolation_forest_m'' = None
   \<and> map_of (ad_models (ad_train_models example_lib 7 ad_init
                [(''m'', short_series), (''b'', steady_series)])) ''dbscan_m'' = None
   \<and> map_of (ad_models (ad_train_models example_lib 7 ad_init
                [(''m'', short_series), (''b'', steady_series)])) ''isolation_forest_b''
        = Some (replicate 10 [0])
   \<and> map_of (ad_models (ad_train_models example_lib 7 ad_init
                [(''m'', short_series), (''b'', steady_series)])) ''dbscan_b''
        = Some (replicate 10 [0])"
proof -
  let ?init = "ad_init :: (real list list, real list \<times> real list) detector"
  have c: "ad_config ?init = ad_default_config" by (simp add: ad_init_def)
  have d: "distinct (map fst [(''m'', short_series), (''b'', steady_series)])" by simp
  have s: "\<forall>data. (''m'', data) \<in> set [(''m'', short_series), (''b'', steady_series)]
              \<longrightarrow> len data < 10"
    by (simp add: len_def short_series_def)
  have t: "(''b'', steady_series) \<in> set [(''m'', short_series), (''b'', steady_series)]
        \<and> 0 < len steady_series
        \<and> 10 \<le> len (snd (preprocess_data example_lib ?init steady_series))
        \<and> iforest_fit example_lib (ad_config ?init)
             (rows (snd (preprocess_data example_lib ?init steady_series))) = Inr (replicate 10 [0])
        \<and> dbscan_fit example_lib (ad_config ?init)
             (rows (snd (preprocess_data example_lib ?init steady_series))) = Inr (replicate 10 [0])"
    by (simp add: pre_steady [OF c] c)
       (simp add: len_def steady_series_def lib_defs eval_nat_numeral)
  show ?thesis
    using short_series_skipped [OF rows_kept_example d, of "''m''" 7 ?init "''b''" steady_series
            "replicate 10 [0]" "replicate 10 [0]"] s t
    by (simp add: rows_kept_example ad_init_def len_def short_series_def steady_series_def)
qed

text \<open>
  C5 as stated fails twice.  After training on the two-row series alone the status
  reports \<open>is_trained\<close>, not "untrained"; and a ten-row series from which the IQR fence
  drops one row gets no model either.
\<close>

theorem short_series_status_counterexample:
  "len short_series < 10
   \<and> s_is_trained (ad_get_model_status short_trained)
   \<and> s_models_count (ad_get_model_status short_trained) = 0
   \<and> len outlier_series = 10
   \<and> ad_models (ad_train_models example_lib 7 ad_init [(''m'', outlier_series)]) = []"
proof -
  let ?init = "ad_init :: (real list list, real list \<times> real list) detector"
  have c: "ad_config ?init = ad_default_config" by (simp add: ad_init_def)
  have "ad_models (ad_train_models example_lib 7 ?init [(''m'', outlier_series)]) = []"
    by (simp add: ad_train_models_def pre_outlier [OF c] thresholds_frame
          train_dbscan_short train_isolation_forest_short len_def)
       (simp add: ad_init_def outlier_series_def)
  then show ?thesis
    by (simp add: short_trained_eval ad_get_model_status_def len_def short_series_def
          outlier_series_def)
qed

text \<open>
  C10, as amended: every \<open>train_models\<close> call of the anomaly detector sets \<open>is_trained\<close>
  and the training time, and a later \<open>detect_anomalies\<close> never returns the "Models not
  trained" result.  When every supplied series has fewer than 10 rows and the detector
  held no model, it holds none afterwards, and detection is the statistical path alone,
  run against the trained detector.  The z-score test of that path reads the thresholds
  of the trained detector, \<open>3.0\<close> only where none is stored: every z-score finding is a row
  whose z-score exceeds the threshold stored for its column, and, for a column reached
  by the loop, every such row is found.  Training stores that threshold for every column
  of every non-empty series, however short, up to the first column whose percentiles
  raise.
\<close>

theorem train_sets_trained:
  "ad_is_trained (ad_train_models L now self training_data)
   \<and> ad_last_training (ad_train_models L now self training_data) = Some now
   \<and> d_method (snd (detect_anomalies L (ad_train_models L now self training_data) data m)) \<noteq> ''none''
   \<and> snd (detect_anomalies L (ad_train_models L now self training_data) data m) \<noteq> not_trained_result
   \<and> (rows_kept L \<and> ad_models self = [] \<and> (\<forall>(m', d) \<in> set training_data. len d < 10) \<longrightarrow>
         ad_models (ad_train_models L now self training_data) = []
       \<and> d_method (snd (detect_anomalies L (ad_train_models L now self training_data) data m))
            = ''ensemble''
       \<and> d_anomalies (snd (detect_anomalies L (ad_train_models L now self training_data) data m))
            = filter (\<lambda>a. a_confidence a \<ge> confidence_threshold (ad_config self))
                (fst (statistical_append ([], [])
                   (detect_statistical_anomalies L (ad_train_models L now self training_data) data m))))
   \<and> (a \<in> set (detect_statistical_anomalies L (ad_train_models L now self training_data) data m)
        \<and> a_method a = ''z_score'' \<longrightarrow>
        (\<exists>j idx. j < length (columns data) \<and> columns data ! j \<noteq> ''timestamp''
           \<and> idx < length (zscore L (column_values data j))
           \<and> fl_less (z_threshold_for (ad_train_models L now self training_data) m (columns data ! j))
                (zscore L (column_values data j) ! idx)
           \<and> a = z_score_entry L data j
                 (z_threshold_for (ad_train_models L now self training_data) m (columns data ! j))
                 idx))
   \<and> (c < length (columns data)
        \<and> (\<forall>i < c. columns data ! i \<noteq> ''timestamp'' \<longrightarrow> fences_return L data i)
        \<and> columns data ! c \<noteq> ''timestamp''
        \<and> row < length (zscore L (column_values data c))
        \<and> fl_less (z_threshold_for (ad_train_models L now self training_data) m (columns data ! c))
             (zscore L (column_values data c) ! row) \<longrightarrow>
        z_score_entry L data c
          (z_threshold_for (ad_train_models L now self training_data) m (columns data ! c)) row
          \<in> set (detect_statistical_anomalies L (ad_train_models L now self training_data) data m))
   \<and> ((metric, series) \<in> set training_data \<and> 0 < len series
        \<and> k < length (columns (snd (preprocess_data L self series)))
        \<and> (\<forall>i \<le> k. thresholds_return L (snd (preprocess_data L self series)) i) \<longrightarrow>
        map_of (ad_thresholds (ad_train_models L now self training_data))
          (metric @ ''_'' @ columns (snd (preprocess_data L self series)) ! k @ ''_z_score'')
          \<noteq> None)"
proof -
  let ?t = "ad_train_models L now self training_data"
  have tr: "ad_is_trained ?t" by (simp add: ad_train_models_def)
  have lt: "ad_last_training ?t = Some now" by (simp add: ad_train_models_def)
  have cf: "ad_config ?t = ad_config self" by (simp add: ad_train_models_def)
  have me: "d_method (snd (detect_anomalies L ?t data m)) \<noteq> ''none''"
    using detect_method [OF tr, of L data m] by auto
  then have ne: "snd (detect_anomalies L ?t data m) \<noteq> not_trained_result"
    by (auto simp: not_trained_result_def)
  have short: "ad_models ?t = []
       \<and> d_method (snd (detect_anomalies L ?t data m)) = ''ensemble''
       \<and> d_anomalies (snd (detect_anomalies L ?t data m))
            = filter (\<lambda>a. a_confidence a \<ge> confidence_threshold (ad_config self))
                (fst (statistical_append ([], []) (detect_statistical_anomalies L ?t data m)))"
    if h: "rows_kept L \<and> ad_models self = [] \<and> (\<forall>(m', d) \<in> set training_data. len d < 10)"
  proof -
    have mo: "ad_models ?t = []"
      using h train_models_loop_all_short [of L training_data self]
      by (simp add: ad_train_models_def)
    have i: "map_of (ad_models ?t) (''isolation_forest_'' @ m) = None"
      and d: "map_of (ad_models ?t) (''dbscan_'' @ m) = None"
      by (simp_all add: mo)
    show ?thesis
      by (simp add: mo detect_statistical_only [OF tr i d] Let_def cf)
  qed
  have sound: "\<exists>j idx. j < length (columns data) \<and> columns data ! j \<noteq> ''timestamp''
           \<and> idx < length (zscore L (column_values data j))
           \<and> fl_less (z_threshold_for ?t m (columns data ! j)) (zscore L (column_values data j) ! idx)
           \<and> a = z_score_entry L data j (z_threshold_for ?t m (columns data ! j)) idx"
    if "a \<in> set (detect_statistical_anomalies L ?t data m) \<and> a_method a = ''z_score''"
    using that by (intro stat_z_sound) simp_all
  have complete: "z_score_entry L data c (z_threshold_for ?t m (columns data ! c)) row
          \<in> set (detect_statistical_anomalies L ?t data m)"
    if "c < length (columns data)
        \<and> (\<forall>i < c. columns data ! i \<noteq> ''timestamp'' \<longrightarrow> fences_return L data i)
        \<and> columns data ! c \<noteq> ''timestamp''
        \<and> row < length (zscore L (column_values data c))
        \<and> fl_less (z_threshold_for ?t m (columns data ! c)) (zscore L (column_values data c) ! row)"
    using that by (intro stat_z_complete) simp_all
  have stores: "map_of (ad_thresholds ?t)
          (metric @ ''_'' @ columns (snd (preprocess_data L self series)) ! k @ ''_z_score'')
          \<noteq> None"
    if "(metric, series) \<in> set training_data \<and> 0 < len series
        \<and> k < length (columns (snd (preprocess_data L self series)))
        \<and> (\<forall>i \<le> k. thresholds_return L (snd (preprocess_data L self series)) i)"
  proof -
    have "ad_thresholds ?t = ad_thresholds (train_models_loop L self training_data)"
      by (simp add: ad_train_models_def)
    then show ?thesis
      using that train_models_loop_stores [of metric series training_data k L self]
      by (simp only:) blast
  qed
  show ?thesis using tr lt me ne short sound complete stores by blast
qed

theorem train_sets_trained_witness:
  "rows_kept example_lib
   \<and> ad_models (ad_init :: (real list list, real list \<times> real list) detector) = []
   \<and> len short_series < 10 \<and> 0 < len short_series
   \<and> ad_is_trained (ad_train_models example_lib 7 ad_init [(''m'', short_series)])
   \<and> ad_models (ad_train_models example_lib 7 ad_init [(''m'', short_series)]) = []
   \<and> d_method (snd (detect_anomalies example_lib
         (ad_train_models example_lib 7 ad_init [(''m'', short_series)]) spike_batch ''m''))
       = ''ensemble''
   \<and> thresholds_return example_lib (snd (preprocess_data example_lib ad_init short_series)) 0
   \<and> map_of (ad_thresholds (ad_train_models example_lib 7 ad_init [(''m'', short_series)]))
        ''m_v_z_score'' = Some (Fin 1)
   \<and> z_threshold_for (ad_train_models example_lib 7 ad_init [(''m'', short_series)]) ''m'' ''v''
       = Fin 1
   \<and> zscore example_lib (column_values spike_batch 0) ! 4 = Fin 2
   \<and> z_score_entry example_lib spike_batch 0 (Fin 1) 4
       \<in> set (detect_statistical_anomalies example_lib
                (ad_train_models example_lib 7 ad_init [(''m'', short_series)]) spike_batch ''m'')
   \<and> a_method (z_score_entry example_lib spike_batch 0 (Fin 1) 4) = ''z_score''"
proof -
  let ?init = "ad_init :: (real list list, real list \<times> real list) detector"
  let ?t = "ad_train_models example_lib 7 ?init [(''m'', short_series)]"
  have c: "ad_config ?init = ad_default_config" by (simp add: ad_init_def)
  have t: "?t = short_trained" by (simp add: short_trained_def)
  have pre: "snd (preprocess_data example_lib ?init short_series)
               = \<lparr>columns = [''v''], rows = [[- 1], [1]]\<rparr>"
    by (simp add: pre_short [OF c])
  have thr: "z_threshold_for ?t ''m'' ''v'' = Fin 1"
    by (simp add: t short_trained_eval z_threshold_for_def)
  have sto: "map_of (ad_thresholds ?t) ''m_v_z_score'' = Some (Fin 1)"
    by (simp add: t short_trained_eval)
  have col: "columns spike_batch = [''v'']" by (simp add: spike_batch_def)
  have h1: "rows_kept example_lib \<and> ad_models ?init = []
        \<and> (\<forall>(m', d) \<in> set [(''m'', short_series)]. len d < 10)"
    by (simp add: rows_kept_example ad_init_def len_def short_series_def)
  have h2: "0 < length (columns spike_batch)
        \<and> (\<forall>i < 0. columns spike_batch ! i \<noteq> ''timestamp'' \<longrightarrow> fences_return example_lib spike_batch i)
        \<and> columns spike_batch ! 0 \<noteq> ''timestamp''
        \<and> 4 < length (zscore example_lib (column_values spike_batch 0))
        \<and> fl_less (z_threshold_for ?t ''m'' (columns spike_batch ! 0))
             (zscore example_lib (column_values spike_batch 0) ! 4)"
    by (simp add: col thr zscore_spike)
  have l: "0 < len short_series" "len short_series < 10"
    by (simp_all add: len_def short_series_def)
  have h3: "(''m'', short_series) \<in> set [(''m'', short_series)] \<and> 0 < len short_series
        \<and> 0 < length (columns (snd (preprocess_data example_lib ?init short_series)))
        \<and> (\<forall>i \<le> 0. thresholds_return example_lib
                        (snd (preprocess_data example_lib ?init short_series)) i)"
    using l by (simp add: pre short_thresholds_return)
  note w = train_sets_trained [of example_lib 7 ?init "[(''m'', short_series)]" spike_batch "''m''"
      "z_score_entry example_lib spike_batch 0 (Fin 1) 4" 0 4 "''m''" short_series 0]
  have r1: "ad_is_trained ?t" and r2: "ad_models ?t = []"
    and r3: "d_method (snd (detect_anomalies example_lib ?t spike_batch ''m'')) = ''ensemble''"
    using w h1 by blast+
  have r4: "z_score_entry example_lib spike_batch 0 (Fin 1) 4
       \<in> set (detect_statistical_anomalies example_lib ?t spike_batch ''m'')"
    using w h2 by (simp only: col thr nth_Cons_0) blast
  have r5: "map_of (ad_thresholds ?t)
              (''m'' @ ''_'' @ columns (snd (preprocess_data example_lib ?init short_series)) ! 0
                 @ ''_z_score'') \<noteq> None"
    using w h3 by blast
  have m4: "a_method (z_score_entry example_lib spike_batch 0 (Fin 1) 4) = ''z_score''"
    by (simp add: z_score_entry_def)
  have r6: "\<exists>j idx. j < length (columns spike_batch) \<and> columns spike_batch ! j \<noteq> ''timestamp''
           \<and> idx < length (zscore example_lib (column_values spike_batch j))
           \<and> fl_less (z_threshold_for ?t ''m'' (columns spike_batch ! j))
                (zscore example_lib (column_values spike_batch j) ! idx)
           \<and> z_score_entry example_lib spike_batch 0 (Fin 1) 4
               = z_score_entry example_lib spike_batch j
                   (z_threshold_for ?t ''m'' (columns spike_batch ! j)) idx"
    using w r4 m4 by blast
  show ?thesis
    using r1 r2 r3 r4 r5 r6 h1 l sto thr m4
    by (simp add: pre zscore_spike short_thresholds_return)
qed

text \<open>
  C10 as stated fails in its last clause.  Training on the two-row series stores no model
  but stores the z-score threshold 1 for the column; detection on the spike batch then
  flags row 4 by z-score, where the default threshold 3 would leave it to the IQR test.
\<close>

theorem default_thresholds_counterexample:
  "len short_series < 10
   \<and> ad_models short_trained = []
   \<and> map_of (ad_thresholds short_trained) ''m_v_z_score'' = Some (Fin 1)
   \<and> map a_method (d_anomalies (snd (detect_anomalies example_lib short_trained spike_batch ''m'')))
       = [''z_score'']
   \<and> map a_method (d_anomalies (snd (detect_anomalies example_lib
         (short_trained\<lparr>ad_thresholds := []\<rparr>) spike_batch ''m'')))
       = [''iqr'']"
proof -
  have t: "ad_is_trained short_trained"
    and i: "map_of (ad_models short_trained) (''isolation_forest_'' @ ''m'') = None"
    and d: "map_of (ad_models short_trained) (''dbscan_'' @ ''m'') = None"
    and c: "ad_config short_trained = ad_default_config"
    and z: "map_of (ad_thresholds short_trained) ''m_v_z_score'' = Some (Fin 1)"
    by (simp_all add: short_trained_eval)
  let ?u = "short_trained\<lparr>ad_thresholds := []\<rparr>"
  have t': "ad_is_trained ?u"
    and i': "map_of (ad_models ?u) (''isolation_forest_'' @ ''m'') = None"
    and d': "map_of (ad_models ?u) (''dbscan_'' @ ''m'') = None"
    and c': "ad_config ?u = ad_default_config"
    and z': "map_of (ad_thresholds ?u) ''m_v_z_score'' = None"
    by (simp_all add: short_trained_eval)
  have a: "map a_method (d_anomalies (snd (detect_anomalies example_lib short_trained spike_batch ''m'')))
       = [''z_score'']"
    by (simp add: detect_statistical_only [OF t i d] stat_spike_stored [OF c z] c
          ad_default_config_def flagged_def)
  have b: "map a_method (d_anomalies (snd (detect_anomalies example_lib ?u spike_batch ''m'')))
       = [''iqr'']"
    unfolding detect_statistical_only [OF t' i' d'] stat_spike_cleared [OF c' z']
    by (simp add: short_trained_eval ad_default_config_def flagged_def)
  show ?thesis
    using a b by (simp add: short_trained_eval len_def short_series_def)
qed


section \<open>Properties of persistence\<close>

text \<open>
  C9: saving a component to a path where the dump succeeds, and loading that path into
  any other instance of the component, gives back the saved component; so
  \<open>get_model_status\<close> reports the same trained flag, models count and training time as
  before the save.  This holds for the three components.
\<close>

theorem save_load_roundtrip:
  assumes "writable fa pa" and "writable fp pp" and "writable fr pr"
  shows "s_is_trained (ad_get_model_status (ad_load_models (ad_save_models fa a pa) fresh_a pa))
           = s_is_trained (ad_get_model_status a)
       \<and> s_models_count (ad_get_model_status (ad_load_models (ad_save_models fa a pa) fresh_a pa))
           = s_models_count (ad_get_model_status a)
       \<and> s_last_training (ad_get_model_status (ad_load_models (ad_save_models fa a pa) fresh_a pa))
           = s_last_training (ad_get_model_status a)
       \<and> pss_is_trained (ps_get_model_status (ps_load_models (ps_save_models fp p pp) fresh_p pp))
           = pss_is_trained (ps_get_model_status p)
       \<and> pss_models_count (ps_get_model_status (ps_load_models (ps_save_models fp p pp) fresh_p pp))
           = pss_models_count (ps_get_model_status p)
       \<and> pss_last_training (ps_get_model_status (ps_load_models (ps_save_models fp p pp) fresh_p pp))
           = pss_last_training (ps_get_model_status p)
       \<and> rs_is_trained (rca_get_model_status nodes (rca_load_models (rca_save_models fr r pr) fresh_r pr))
           = rs_is_trained (rca_get_model_status nodes r)
       \<and> rs_models_count (rca_get_model_status nodes (rca_load_models (rca_save_models fr r pr) fresh_r pr))
           = rs_models_count (rca_get_model_status nodes r)
       \<and> rs_last_training (rca_get_model_status nodes (rca_load_models (rca_save_models fr r pr) fresh_r pr))
           = rs_last_training (rca_get_model_status nodes r)"
proof -
  have a: "ad_load_models (ad_save_models fa a pa) fresh_a pa = a"
    using assms(1) by (simp add: ad_load_models_def ad_save_models_def Let_def)
  have p: "ps_load_models (ps_save_models fp p pp) fresh_p pp = p"
    using assms(2) by (simp add: ps_load_models_def ps_save_models_def Let_def)
  have r: "rca_load_models (rca_save_models fr r pr) fresh_r pr = r"
    using assms(3) by (simp add: rca_load_models_def rca_save_models_def Let_def)
  show ?thesis by (simp add: a p r)
qed

theorem save_load_roundtrip_witness:
  "writable (empty_disk :: (real list list, real list \<times> real list) ad_bundle disk) ''ad.pkl''
   \<and> writable (empty_disk :: (nat, nat) ps_bundle disk) ''ps.pkl''
   \<and> writable (empty_disk :: (nat, nat, nat, nat) rca_bundle disk) ''rca.pkl''
   \<and> s_is_trained (ad_get_model_status
        (ad_load_models (ad_save_models empty_disk short_trained ''ad.pkl'') ad_init ''ad.pkl''))
   \<and> s_models_count (ad_get_model_status
        (ad_load_models (ad_save_models empty_disk short_trained ''ad.pkl'') ad_init ''ad.pkl'')) = 0
   \<and> s_last_training (ad_get_model_status
        (ad_load_models (ad_save_models empty_disk short_trained ''ad.pkl'') ad_init ''ad.pkl''))
        = Some 7
   \<and> pss_is_trained (ps_get_model_status
        (ps_load_models (ps_save_models empty_disk
           (ps_init\<lparr>ps_models := [(''linear_regression_throughput'', 4 :: nat)], ps_is_trained := True,
                    ps_last_training := Some 9\<rparr>) ''ps.pkl'') (ps_init :: (nat, nat) scaling_model) ''ps.pkl''))
   \<and> rs_last_training (rca_get_model_status (\<lambda>G :: nat. G)
        (rca_load_models (rca_save_models empty_disk
           (rca_init\<lparr>rca_is_trained := True, rca_last_training := Some 11\<rparr>) ''rca.pkl'')
           (rca_init :: (nat, nat, nat, nat) analyzer) ''rca.pkl'')) = Some 11"
proof -
  have w1: "writable (empty_disk :: (real list list, real list \<times> real list) ad_bundle disk) ''ad.pkl''"
    and w2: "writable (empty_disk :: (nat, nat) ps_bundle disk) ''ps.pkl''"
    and w3: "writable (empty_disk :: (nat, nat, nat, nat) rca_bundle disk) ''rca.pkl''"
    by (simp_all add: empty_disk_def)
  note rt = save_load_roundtrip [OF w1 w2 w3, where a = short_trained and fresh_a = ad_init
      and p = "ps_init\<lparr>ps_models := [(''linear_regression_throughput'', 4)], ps_is_trained := True,
                    ps_last_training := Some 9\<rparr>" and fresh_p = ps_init
      and nodes = "\<lambda>G. G"
      and r = "rca_init\<lparr>rca_is_trained := True, rca_last_training := Some 11\<rparr>"
      and fresh_r = rca_init]
  show ?thesis
    using rt w1 w2 w3
    by (simp add: short_trained_eval ad_get_model_status_def ps_get_model_status_def
          rca_get_model_status_def)
qed

subsection \<open>What a load assigns\<close>

lemma ad_loaded_models:
  "files fs filepath = Some b \<Longrightarrow>
   ad_models (ad_load_models fs self filepath) =
     (if b_models b = None
      then ad_models self else the (b_models b))"
  by (simp add: ad_load_models_def Let_def split: option.splits)

lemma ad_loaded_scalers:
  "files fs filepath = Some b \<Longrightarrow>
   ad_scalers (ad_load_models fs self filepath) =
     (if b_models b = None \<or> b_scalers b = None
      then ad_scalers self else the (b_scalers b))"
  by (simp add: ad_load_models_def Let_def split: option.splits)

lemma ad_loaded_thresholds:
  "files fs filepath = Some b \<Longrightarrow>
   ad_thresholds (ad_load_models fs self filepath) =
     (if b_models b = None \<or> b_scalers b = None \<or> b_thresholds b = None
      then ad_thresholds self else the (b_thresholds b))"
  by (simp add: ad_load_models_def Let_def split: option.splits)

lemma ad_loaded_config:
  "files fs filepath = Some b \<Longrightarrow>
   ad_config (ad_load_models fs self filepath) =
     (if b_models b = None \<or> b_scalers b = None \<or> b_thresholds b = None \<or> b_config b = None
      then ad_config self else the (b_config b))"
  by (simp add: ad_load_models_def Let_def split: option.splits)

lemma ps_loaded_models:
  "files fs filepath = Some b \<Longrightarrow>
   ps_models (ps_load_models fs self filepath) =
     (if pb_models b = None
      then ps_models self else the (pb_models b))"
  by (simp add: ps_load_models_def Let_def split: option.splits)

lemma ps_loaded_scalers:
  "files fs filepath = Some b \<Longrightarrow>
   ps_scalers (ps_load_models fs self filepath) =
     (if pb_models b = None \<or> pb_scalers b = None
      then ps_scalers self else the (pb_scalers b))"
  by (simp add: ps_load_models_def Let_def split: option.splits)

lemma ps_loaded_feature_importance:
  "files fs filepath = Some b \<Longrightarrow>
   ps_feature_importance (ps_load_models fs self filepath) =
     (if pb_models b = None \<or> pb_scalers b = None \<or> pb_feature_importance b = None
      then ps_feature_importance self else the (pb_feature_importance b))"
  by (simp add: ps_load_models_def Let_def split: option.splits)

lemma ps_loaded_performance_metrics:
  "files fs filepath = Some b \<Longrightarrow>
   ps_performance_metrics (ps_load_models fs self filepath) =
     (if pb_models b = None \<or> pb_scalers b = None \<or> pb_feature_importance b = None \<or> pb_performance_metrics b = None
      then ps_performance_metrics self else the (pb_performance_metrics b))"
  by (simp add: ps_load_models_def Let_def split: option.splits)

lemma ps_loaded_config:
  "files fs filepath = Some b \<Longrightarrow>
   ps_config (ps_load_models fs self filepath) =
     (if pb_models b = None \<or> pb_scalers b = None \<or> pb_feature_importance b = None \<or> pb_performance_metrics b = None \<or> pb_config b = None
      then ps_config self else the (pb_config b))"
  by (simp add: ps_load_models_def Let_def split: option.splits)

lemma rca_loaded_models:
  "files fs filepath = Some b \<Longrightarrow>
   rca_models (rca_load_models fs self filepath) =
     (if rb_models b = None
      then rca_models self else the (rb_models b))"
  by (simp add: rca_load_models_def Let_def split: option.splits)

lemma rca_loaded_scalers:
  "files fs filepath = Some b \<Longrightarrow>
   rca_scalers (rca_load_models fs self filepath) =
     (if rb_models b = None \<or> rb_scalers b = None
      then rca_scalers self else the (rb_scalers b))"
  by (simp add: rca_load_models_def Let_def split: option.splits)

lemma rca_loaded_encoders:
  "files fs filepath = Some b \<Longrightarrow>
   rca_encoders (rca_load_models fs self filepath) =
     (if rb_models b = None \<or> rb_scalers b = None \<or> rb_encoders b = None
      then rca_encoders self else the (rb_encoders b))"
  by (simp add: rca_load_models_def Let_def split: option.splits)

lemma rca_loaded_correlation_graph:
  "files fs filepath = Some b \<Longrightarrow>
   rca_correlation_graph (rca_load_models fs self filepath) =
     (if rb_models b = None \<or> rb_scalers b = None \<or> rb_encoders b = None \<or> rb_correlation_graph b = None
      then rca_correlation_graph self else the (rb_correlation_graph b))"
  by (simp add: rca_load_models_def Let_def split: option.splits)

lemma rca_loaded_config:
  "files fs filepath = Some b \<Longrightarrow>
   rca_config (rca_load_models fs self filepath) =
     (if rb_models b = None \<or> rb_scalers b = None \<or> rb_encoders b = None \<or> rb_correlation_graph b = None \<or> rb_config b = None
      then rca_config self else the (rb_config b))"
  by (simp add: rca_load_models_def Let_def split: option.splits)

lemma ad_load_fails_frame:
  "ad_load_fails fs filepath \<Longrightarrow>
     \<not> ad_is_trained (ad_load_models fs self filepath)
   \<and> ad_last_training (ad_load_models fs self filepath) = ad_last_training self"
  by (auto simp: ad_load_fails_def ad_load_models_def Let_def split: option.splits)

lemma ps_load_fails_frame:
  "ps_load_fails fs filepath \<Longrightarrow>
     \<not> ps_is_trained (ps_load_models fs self filepath)
   \<and> ps_last_training (ps_load_models fs self filepath) = ps_last_training self"
  by (auto simp: ps_load_fails_def ps_load_models_def Let_def split: option.splits)

lemma rca_load_fails_frame:
  "rca_load_fails fs filepath \<Longrightarrow>
     \<not> rca_is_trained (rca_load_models fs self filepath)
   \<and> rca_last_training (rca_load_models fs self filepath) = rca_last_training self
   \<and> rca_analysis_history (rca_load_models fs self filepath) = rca_analysis_history self"
  by (auto simp: rca_load_fails_def rca_load_models_def Let_def split: option.splits)

lemma load_unreadable:
  "files fa pa = None \<Longrightarrow> ad_load_models fa a pa = a\<lparr>ad_is_trained := False\<rparr>"
  "files fp pp = None \<Longrightarrow> ps_load_models fp p pp = p\<lparr>ps_is_trained := False\<rparr>"
  "files fr pr = None \<Longrightarrow> rca_load_models fr r pr = r\<lparr>rca_is_trained := False\<rparr>"
  by (simp_all add: ad_load_models_def ps_load_models_def rca_load_models_def)


text \<open>
  C8, as amended: a failing \<open>load_models\<close> returns normally (the model has no exceptional
  outcome for it) and leaves the component untrained, with its \<open>last_training\<close> untouched.
  When the file cannot be read, everything but the trained flag is as before.  When the
  loaded dictionary lacks a key, the attributes are assigned in the order of the method
  up to the first missing key: an attribute holds the loaded value when its key and all
  the keys before it are present, and its prior value otherwise.
\<close>

theorem load_failure_untrained:
  "(ad_load_fails fa pa \<longrightarrow>
      \<not> ad_is_trained (ad_load_models fa a pa)
      \<and> ad_last_training (ad_load_models fa a pa) = ad_last_training a
      \<and> (files fa pa = None \<longrightarrow> ad_load_models fa a pa = a\<lparr>ad_is_trained := False\<rparr>)
      \<and> (\<forall>b. files fa pa = Some b \<longrightarrow>
            ad_models (ad_load_models fa a pa) =
              (if b_models b = None
               then ad_models a else the (b_models b))
          \<and> ad_scalers (ad_load_models fa a pa) =
              (if b_models b = None \<or> b_scalers b = None
               then ad_scalers a else the (b_scalers b))
          \<and> ad_thresholds (ad_load_models fa a pa) =
              (if b_models b = None \<or> b_scalers b = None \<or> b_thresholds b = None
               then ad_thresholds a else the (b_thresholds b))
          \<and> ad_config (ad_load_models fa a pa) =
              (if b_models b = None \<or> b_scalers b = None \<or> b_thresholds b = None \<or> b_config b = None
               then ad_config a else the (b_config b))))
   \<and> (ps_load_fails fp pp \<longrightarrow>
      \<not> ps_is_trained (ps_load_models fp p pp)
      \<and> ps_last_training (ps_load_models fp p pp) = ps_last_training p
      \<and> (files fp pp = None \<longrightarrow> ps_load_models fp p pp = p\<lparr>ps_is_trained := False\<rparr>)
      \<and> (\<forall>b. files fp pp = Some b \<longrightarrow>
            ps_models (ps_load_models fp p pp) =
              (if pb_models b = None
               then ps_models p else the (pb_models b))
          \<and> ps_scalers (ps_load_models fp p pp) =
              (if pb_models b = None \<or> pb_scalers b = None
               then ps_scalers p else the (pb_scalers b))
          \<and> ps_feature_importance (ps_load_models fp p pp) =
              (if pb_models b = None \<or> pb_scalers b = None \<or> pb_feature_importance b = None
               then ps_feature_importance p else the (pb_feature_importance b))
          \<and> ps_performance_metrics (ps_load_models fp p pp) =
              (if pb_models b = None \<or> pb_scalers b = None \<or> pb_feature_importance b = None \<or> pb_performance_metrics b = None
               then ps_performance_metrics p else the (pb_performance_metrics b))
          \<and> ps_config (ps_load_models fp p pp) =
              (if pb_models b = None \<or> pb_scalers b = None \<or> pb_feature_importance b = None \<or> pb_performance_metrics b = None \<or> pb_config b = None
               then ps_config p else the (pb_config b))))
   \<and> (rca_load_fails fr pr \<longrightarrow>
      \<not> rca_is_trained (rca_load_models fr r pr)
      \<and> rca_last_training (rca_load_models fr r pr) = rca_last_training r
      \<and> rca_analysis_history (rca_load_models fr r pr) = rca_analysis_history r
      \<and> (files fr pr = None \<longrightarrow> rca_load_models fr r pr = r\<lparr>rca_is_trained := False\<rparr>)
      \<and> (\<forall>b. files fr pr = Some b \<longrightarrow>
            rca_models (rca_load_models fr r pr) =
              (if rb_models b = None
               then rca_models r else the (rb_models b))
          \<and> rca_scalers (rca_load_models fr r pr) =
              (if rb_models b = None \<or> rb_scalers b = None
               then rca_scalers r else the (rb_scalers b))
          \<and> rca_encoders (rca_load_models fr r pr) =
              (if rb_models b = None \<or> rb_scalers b = None \<or> rb_encoders b = None
               then rca_encoders r else the (rb_encoders b))
          \<and> rca_correlation_graph (rca_load_models fr r pr) =
              (if rb_models b = None \<or> rb_scalers b = None \<or> rb_encoders b = None \<or> rb_correlation_graph b = None
               then rca_correlation_graph r else the (rb_correlation_graph b))
          \<and> rca_config (rca_load_models fr r pr) =
              (if rb_models b = None \<or> rb_scalers b = None \<or> rb_encoders b = None \<or> rb_correlation_graph b = None \<or> rb_config b = None
               then rca_config r else the (rb_config b))))"
proof (intro conjI)
  show "(ad_load_fails fa pa \<longrightarrow>
      \<not> ad_is_trained (ad_load_models fa a pa)
      \<and> ad_last_training (ad_load_models fa a pa) = ad_last_training a
      \<and> (files fa pa = None \<longrightarrow> ad_load_models fa a pa = a\<lparr>ad_is_trained := False\<rparr>)
      \<and> (\<forall>b. files fa pa = Some b \<longrightarrow>
            ad_models (ad_load_models fa a pa) =
              (if b_models b = None
               then ad_models a else the (b_models b))
          \<and> ad_scalers (ad_load_models fa a pa) =
              (if b_models b = None \<or> b_scalers b = None
               then ad_scalers a else the (b_scalers b))
          \<and> ad_thresholds (ad_load_models fa a pa) =
              (if b_models b = None \<or> b_scalers b = None \<or> b_thresholds b = None
               then ad_thresholds a else the (b_thresholds b))
          \<and> ad_config (ad_load_models fa a pa) =
              (if b_models b = None \<or> b_scalers b = None \<or> b_thresholds b = None \<or> b_config b = None
               then ad_config a else the (b_config b))))"
    by (simp add: ad_load_fails_frame load_unreadable ad_loaded_models ad_loaded_scalers
          ad_loaded_thresholds ad_loaded_config)
  show "(ps_load_fails fp pp \<longrightarrow>
      \<not> ps_is_trained (ps_load_models fp p pp)
      \<and> ps_last_training (ps_load_models fp p pp) = ps_last_training p
      \<and> (files fp pp = None \<longrightarrow> ps_load_models fp p pp = p\<lparr>ps_is_trained := False\<rparr>)
      \<and> (\<forall>b. files fp pp = Some b \<longrightarrow>
            ps_models (ps_load_models fp p pp) =
              (if pb_models b = None
               then ps_models p else the (pb_models b))
          \<and> ps_scalers (ps_load_models fp p pp) =
              (if pb_models b = None \<or> pb_scalers b = None
               then ps_scalers p else the (pb_scalers b))
          \<and> ps_feature_importance (ps_load_models fp p pp) =
              (if pb_models b = None \<or> pb_scalers b = None \<or> pb_feature_importance b = None
               then ps_feature_importance p else the (pb_feature_importance b))
          \<and> ps_performance_metrics (ps_load_models fp p pp) =
              (if pb_models b = None \<or> pb_scalers b = None \<or> pb_feature_importance b = None \<or> pb_performance_metrics b = None
               then ps_performance_metrics p else the (pb_performance_metrics b))
          \<and> ps_config (ps_load_models fp p pp) =
              (if pb_models b = None \<or> pb_scalers b = None \<or> pb_feature_importance b = None \<or> pb_performance_metrics b = None \<or> pb_config b = None
               then ps_config p else the (pb_config b))))"
    by (simp add: ps_load_fails_frame load_unreadable ps_loaded_models ps_loaded_scalers
          ps_loaded_feature_importance ps_loaded_performance_metrics ps_loaded_config)
  show "(rca_load_fails fr pr \<longrightarrow>
      \<not> rca_is_trained (rca_load_models fr r pr)
      \<and> rca_last_training (rca_load_models fr r pr) = rca_last_training r
      \<and> rca_analysis_history (rca_load_models fr r pr) = rca_analysis_history r
      \<and> (files fr pr = None \<longrightarrow> rca_load_models fr r pr = r\<lparr>rca_is_trained := False\<rparr>)
      \<and> (\<forall>b. files fr pr = Some b \<longrightarrow>
            rca_models (rca_load_models fr r pr) =
              (if rb_models b = None
               then rca_models r else the (rb_models b))
          \<and> rca_scalers (rca_load_models fr r pr) =
              (if rb_models b = None \<or> rb_scalers b = None
               then rca_scalers r else the (rb_scalers b))
          \<and> rca_encoders (rca_load_models fr r pr) =
              (if rb_models b = None \<or> rb_scalers b = None \<or> rb_encoders b = None
               then rca_encoders r else the (rb_encoders b))
          \<and> rca_correlation_graph (rca_load_models fr r pr) =
              (if rb_models b = None \<or> rb_scalers b = None \<or> rb_encoders b = None \<or> rb_correlation_graph b = None
               then rca_correlation_graph r else the (rb_correlation_graph b))
          \<and> rca_config (rca_load_models fr r pr) =
              (if rb_models b = None \<or> rb_scalers b = None \<or> rb_encoders b = None \<or> rb_correlation_graph b = None \<or> rb_config b = None
               then rca_config r else the (rb_config b))))"
    by (simp add: rca_load_fails_frame load_unreadable rca_loaded_models rca_loaded_scalers
          rca_loaded_encoders rca_loaded_correlation_graph rca_loaded_config)
qed

theorem load_failure_untrained_witness:
  "ad_load_fails (empty_disk :: (nat, nat) ad_bundle disk) ''missing.pkl''
   \<and> ad_load_models empty_disk (ad_init\<lparr>ad_models := [(''dbscan_cpu'', 5 :: nat)], ad_is_trained := True\<rparr>
          :: (nat, nat) detector) ''missing.pkl''
       = ad_init\<lparr>ad_models := [(''dbscan_cpu'', 5)], ad_is_trained := False\<rparr>
   \<and> ps_load_fails (empty_disk :: (nat, nat) ps_bundle disk) ''missing.pkl''
   \<and> \<not> ps_is_trained (ps_load_models empty_disk
          (ps_init\<lparr>ps_is_trained := True\<rparr> :: (nat, nat) scaling_model) ''missing.pkl'')
   \<and> rca_load_fails (empty_disk :: (nat, nat, nat, nat) rca_bundle disk) ''missing.pkl''
   \<and> \<not> rca_is_trained (rca_load_models empty_disk
          (rca_init\<lparr>rca_is_trained := True\<rparr> :: (nat, nat, nat, nat) analyzer) ''missing.pkl'')
   \<and> ad_load_fails foreign_disk ''scaling.pkl''
   \<and> files foreign_disk ''scaling.pkl'' = Some foreign_bundle
   \<and> \<not> ad_is_trained (ad_load_models foreign_disk
          (ad_init\<lparr>ad_thresholds := [(''cpu_v_z_score'', Fin 2)], ad_is_trained := True\<rparr>)
          ''scaling.pkl'')
   \<and> ad_models (ad_load_models foreign_disk
          (ad_init\<lparr>ad_thresholds := [(''cpu_v_z_score'', Fin 2)], ad_is_trained := True\<rparr>)
          ''scaling.pkl'') = [(''random_forest_cpu_usage'', 1)]
   \<and> ad_scalers (ad_load_models foreign_disk
          (ad_init\<lparr>ad_thresholds := [(''cpu_v_z_score'', Fin 2)], ad_is_trained := True\<rparr>)
          ''scaling.pkl'') = [(''feature_scaler'', 2)]
   \<and> ad_thresholds (ad_load_models foreign_disk
          (ad_init\<lparr>ad_thresholds := [(''cpu_v_z_score'', Fin 2)], ad_is_trained := True\<rparr>)
          ''scaling.pkl'') = [(''cpu_v_z_score'', Fin 2)]
   \<and> ad_config (ad_load_models foreign_disk
          (ad_init\<lparr>ad_thresholds := [(''cpu_v_z_score'', Fin 2)], ad_is_trained := True\<rparr>)
          ''scaling.pkl'') = ad_default_config"
proof -
  note t1 = load_failure_untrained [where fa = "empty_disk :: (nat, nat) ad_bundle disk"
      and pa = "''missing.pkl''"
      and a = "ad_init\<lparr>ad_models := [(''dbscan_cpu'', 5 :: nat)], ad_is_trained := True\<rparr>"
      and fp = "empty_disk :: (nat, nat) ps_bundle disk" and pp = "''missing.pkl''"
      and p = "ps_init\<lparr>ps_is_trained := True\<rparr>"
      and fr = "empty_disk :: (nat, nat, nat, nat) rca_bundle disk" and pr = "''missing.pkl''"
      and r = "rca_init\<lparr>rca_is_trained := True\<rparr>"]
  note t2 = load_failure_untrained [where fa = foreign_disk and pa = "''scaling.pkl''"
      and a = "ad_init\<lparr>ad_thresholds := [(''cpu_v_z_score'', Fin 2)], ad_is_trained := True\<rparr>"
      and fp = "empty_disk :: (nat, nat) ps_bundle disk" and pp = "''missing.pkl''"
      and p = "ps_init\<lparr>ps_is_trained := True\<rparr>"
      and fr = "empty_disk :: (nat, nat, nat, nat) rca_bundle disk" and pr = "''missing.pkl''"
      and r = "rca_init\<lparr>rca_is_trained := True\<rparr>"]
  have f: "ad_load_fails (empty_disk :: (nat, nat) ad_bundle disk) ''missing.pkl''"
    "ps_load_fails (empty_disk :: (nat, nat) ps_bundle disk) ''missing.pkl''"
    "rca_load_fails (empty_disk :: (nat, nat, nat, nat) rca_bundle disk) ''missing.pkl''"
    "ad_load_fails foreign_disk ''scaling.pkl''"
    "files (empty_disk :: (nat, nat) ad_bundle disk) ''missing.pkl'' = None"
    "files foreign_disk ''scaling.pkl'' = Some foreign_bundle"
    by (simp_all add: ad_load_fails_def ps_load_fails_def rca_load_fails_def empty_disk_def
          foreign_disk_def foreign_bundle_def)
  have b: "b_models foreign_bundle = Some [(''random_forest_cpu_usage'', 1)]"
    "b_scalers foreign_bundle = Some [(''feature_scaler'', 2)]"
    "b_thresholds foreign_bundle = None" "b_config foreign_bundle = None"
    by (simp_all add: foreign_bundle_def)
  show ?thesis
    using t1 t2 f by (simp add: ad_init_def b)
qed

text \<open>
  C8 as stated fails: loading a bundle written by the predictive scaler into the anomaly
  detector fails at the missing \<open>thresholds\<close> key, after \<open>models\<close> and \<open>scalers\<close> have been
  replaced by the scaler's.
\<close>

theorem load_failure_counterexample:
  "ad_load_fails foreign_disk ''scaling.pkl''
   \<and> ad_models (ad_load_models foreign_disk ad_init ''scaling.pkl'')
        = [(''random_forest_cpu_usage'', 1)]
   \<and> ad_scalers (ad_load_models foreign_disk ad_init ''scaling.pkl'')
        = [(''feature_scaler'', 2)]
   \<and> ad_models (ad_load_models foreign_disk ad_init ''scaling.pkl'') \<noteq> ad_models ad_init
   \<and> ad_scalers (ad_load_models foreign_disk ad_init ''scaling.pkl'') \<noteq> ad_scalers ad_init"
  by (simp add: ad_load_fails_def ad_load_models_def foreign_disk_def foreign_bundle_def
        ad_init_def Let_def)


section \<open>Properties of the root-cause hypotheses\<close>

lemma level_1_types:
  "h \<in> set (level_1_hypotheses F item) \<Longrightarrow> h_type h \<noteq> ''dependency_bottleneck''"
  by (auto simp: level_1_hypotheses_def Let_def split: option.splits if_splits)

lemma level_2_types:
  "h \<in> set (level_2_hypotheses F A) \<Longrightarrow> h_type h \<noteq> ''dependency_bottleneck''"
  by (auto simp: level_2_hypotheses_def split: option.splits if_splits)

lemma level_3_types:
  "h \<in> set (level_3_hypotheses F A) \<Longrightarrow> h_type h = ''dependency_bottleneck''"
  by (auto simp: level_3_hypotheses_def split: option.splits if_splits)

lemma filter_none: "(\<And>x. x \<in> set xs \<Longrightarrow> \<not> P x) \<Longrightarrow> filter P xs = []"
  by (induction xs) auto

lemma filter_all: "(\<And>x. x \<in> set xs \<Longrightarrow> P x) \<Longrightarrow> filter P xs = xs"
  by (induction xs) auto

lemma bottleneck_filter:
  "filter (\<lambda>h. h_type h = ''dependency_bottleneck'') (generate_root_cause_hypotheses F A)
     = level_3_hypotheses F A"
proof -
  have 1: "filter (\<lambda>h. h_type h = ''dependency_bottleneck'')
             (concat (map (level_1_hypotheses F) (level_1 A))) = []"
    by (rule filter_none) (auto dest: level_1_types)
  have 2: "filter (\<lambda>h. h_type h = ''dependency_bottleneck'') (level_2_hypotheses F A) = []"
    by (rule filter_none) (auto dest: level_2_types)
  have 3: "filter (\<lambda>h. h_type h = ''dependency_bottleneck'') (level_3_hypotheses F A)
             = level_3_hypotheses F A"
    by (rule filter_all) (auto dest: level_3_types)
  show ?thesis by (simp add: generate_root_cause_hypotheses_def 1 2 3)
qed

lemma level_3_shape:
  "map (\<lambda>h. (h_metric h, h_confidence h, h_severity h))
     (concat (map (\<lambda>(metric, centrality).
                    if centrality > 0.8 then
                      [\<lparr> h_type = ''dependency_bottleneck'', h_metric = metric,
                         h_confidence = min 0.8 centrality,
                         h_evidence = ev metric centrality,
                         h_severity = ''high'', h_weighted_score = None \<rparr>]
                    else []) ds))
   = map (\<lambda>(metric, centrality). (metric, 0.8, ''high'')) (filter (\<lambda>(metric, centrality). centrality > 0.8) ds)"
  by (induction ds) (auto simp: min_def)

text \<open>
  C7, as amended: the \<open>dependency_bottleneck\<close> hypotheses are exactly those of the metrics
  among the first three entries of the degree ranking whose centrality exceeds \<open>0.8\<close>, in
  that order; each has severity \<open>high\<close> and the confidence \<open>min(0.8, centrality)\<close>, which is
  \<open>0.8\<close>.
\<close>

theorem dependency_bottleneck_top3:
  "(by_degree A = None \<longrightarrow>
      filter (\<lambda>h. h_type h = ''dependency_bottleneck'') (generate_root_cause_hypotheses F A) = [])
   \<and> (by_degree A = Some degrees \<longrightarrow>
      map (\<lambda>h. (h_metric h, h_confidence h, h_severity h))
        (filter (\<lambda>h. h_type h = ''dependency_bottleneck'') (generate_root_cause_hypotheses F A))
      = map (\<lambda>(metric, centrality). (metric, 0.8, ''high''))
          (filter (\<lambda>(metric, centrality). centrality > 0.8) (take 3 degrees)))"
proof (intro conjI impI)
  assume "by_degree A = None"
  then show "filter (\<lambda>h. h_type h = ''dependency_bottleneck'')
               (generate_root_cause_hypotheses F A) = []"
    by (simp only: bottleneck_filter level_3_hypotheses_def option.case)
next
  assume "by_degree A = Some degrees"
  then show "map (\<lambda>h. (h_metric h, h_confidence h, h_severity h))
        (filter (\<lambda>h. h_type h = ''dependency_bottleneck'') (generate_root_cause_hypotheses F A))
      = map (\<lambda>(metric, centrality). (metric, 0.8, ''high''))
          (filter (\<lambda>(metric, centrality). centrality > 0.8) (take 3 degrees))"
    by (simp only: bottleneck_filter level_3_hypotheses_def option.case level_3_shape)
qed

theorem dependency_bottleneck_top3_witness:
  "by_degree complete_graph_analysis = Some [(''a'', 1), (''b'', 1), (''c'', 1), (''d'', 1)]
   \<and> map (\<lambda>h. (h_metric h, h_confidence h, h_severity h))
        (filter (\<lambda>h. h_type h = ''dependency_bottleneck'')
           (generate_root_cause_hypotheses plain_formats complete_graph_analysis))
      = [(''a'', 0.8, ''high''), (''b'', 0.8, ''high''), (''c'', 0.8, ''high'')]"
  using dependency_bottleneck_top3 [of complete_graph_analysis plain_formats
          "[(''a'', 1), (''b'', 1), (''c'', 1), (''d'', 1)]"]
  by (simp add: complete_graph_analysis_def)

text \<open>
  C7 as stated fails: with four metrics of centrality 1, no hypothesis is generated for
  the fourth, and the confidence of the other three is \<open>0.8\<close>, not the centrality.
\<close>

theorem dependency_bottleneck_counterexample:
  "by_degree complete_graph_analysis = Some [(''a'', 1), (''b'', 1), (''c'', 1), (''d'', 1)]
   \<and> (0.8 :: real) < 1
   \<and> map (\<lambda>h. (h_type h, h_metric h, h_confidence h))
        (generate_root_cause_hypotheses plain_formats complete_graph_analysis)
      = [(''dependency_bottleneck'', ''a'', 0.8), (''dependency_bottleneck'', ''b'', 0.8),
         (''dependency_bottleneck'', ''c'', 0.8)]
   \<and> \<not> (\<exists>h \<in> set (generate_root_cause_hypotheses plain_formats complete_graph_analysis).
            h_metric h = ''d'')
   \<and> \<not> (\<exists>h \<in> set (generate_root_cause_hypotheses plain_formats complete_graph_analysis).
            h_confidence h = 1)"
  by (simp add: generate_root_cause_hypotheses_def level_2_hypotheses_def level_3_hypotheses_def
        complete_graph_analysis_def)


subsection \<open>Ranking\<close>

lemma rank_alt: "rank_root_causes hs = sort_key (\<lambda>x. - score x) (map with_score hs)"
  by (simp add: rank_root_causes_def)

lemma rank_set: "set (rank_root_causes hs) = with_score ` set hs"
  by (simp add: rank_alt)

lemma rank_length: "length (rank_root_causes hs) = length hs"
  by (simp add: rank_alt)

lemma rank_scores:
  "h \<in> set (rank_root_causes hs) \<Longrightarrow>
     h_weighted_score h = Some (h_confidence h * severity_weight (h_severity h))
     \<and> score h = h_confidence h * severity_weight (h_severity h)"
  by (auto simp: rank_set with_score_def score_def)

lemma rank_sorted: "sorted_wrt (\<lambda>a b. score a \<ge> score b) (rank_root_causes hs)"
proof -
  have "sorted (map (\<lambda>x. - score x) (rank_root_causes hs))"
    unfolding rank_alt by (rule sorted_sort_key)
  then show ?thesis by (simp add: sorted_map)
qed

lemma rank_before:
  assumes "i < length (rank_root_causes hs)" "j < length (rank_root_causes hs)"
    and "score (rank_root_causes hs ! i) > score (rank_root_causes hs ! j)"
  shows "i < j"
proof (rule ccontr)
  assume "\<not> i < j"
  then consider "i = j" | "j < i" by linarith
  then show False
  proof cases
    case 1
    then show ?thesis using assms(3) by simp
  next
    case 2
    then have "score (rank_root_causes hs ! j) \<ge> score (rank_root_causes hs ! i)"
      using rank_sorted [of hs] assms(1) by (simp add: sorted_wrt_iff_nth_less)
    then show ?thesis using assms(3) by simp
  qed
qed

lemma generated_confidence:
  assumes "h \<in> set (generate_root_cause_hypotheses F A)"
  shows "0 < h_confidence h \<or> (h_confidence h = 0 \<and> h_severity h = ''low'')"
proof -
  have "h \<in> set (concat (map (level_1_hypotheses F) (level_1 A)))
      \<or> h \<in> set (level_2_hypotheses F A) \<or> h \<in> set (level_3_hypotheses F A)"
    using assms by (auto simp: generate_root_cause_hypotheses_def)
  then show ?thesis
  proof (elim disjE)
    assume "h \<in> set (concat (map (level_1_hypotheses F) (level_1 A)))"
    then obtain item where "h \<in> set (level_1_hypotheses F item)" by auto
    then show ?thesis
      by (auto simp: level_1_hypotheses_def Let_def min_def split: option.splits if_splits)
  next
    assume "h \<in> set (level_2_hypotheses F A)"
    then show ?thesis
      by (auto simp: level_2_hypotheses_def min_def split: option.splits if_splits)
  next
    assume "h \<in> set (level_3_hypotheses F A)"
    then show ?thesis
      by (auto simp: level_3_hypotheses_def min_def split: option.splits if_splits)
  qed
qed

lemma severity_weight_low_least: "severity_weight ''low'' \<le> severity_weight s"
  by (simp add: severity_weight_def)


lemma rank_nth_generated:
  assumes "i < length (rank_root_causes (generate_root_cause_hypotheses F A))"
  shows "0 < h_confidence (rank_root_causes (generate_root_cause_hypotheses F A) ! i)
       \<or> (h_confidence (rank_root_causes (generate_root_cause_hypotheses F A) ! i) = 0
          \<and> h_severity (rank_root_causes (generate_root_cause_hypotheses F A) ! i) = ''low'')"
proof -
  have "rank_root_causes (generate_root_cause_hypotheses F A) ! i
          \<in> with_score ` set (generate_root_cause_hypotheses F A)"
    using assms rank_set nth_mem by blast
  then obtain g where g: "g \<in> set (generate_root_cause_hypotheses F A)"
    and e: "rank_root_causes (generate_root_cause_hypotheses F A) ! i = with_score g" by auto
  show ?thesis
    using generated_confidence [OF g] by (simp add: e with_score_def)
qed

text \<open>
  C6: after the ranking of the generated hypotheses, every hypothesis carries
  \<open>weighted_score = confidence * weight\<close> with the weights 3, 2, 1 for high, medium, low;
  the ranked list is in descending order of that score and has the generated hypotheses'
  length; of two ranked hypotheses with equal confidence the one with the larger severity
  weight comes first; \<open>analyze_root_cause\<close> returns the first \<open>max_root_causes\<close> of the
  ranked list (5 by default) and, as overall confidence, the mean confidence of the whole
  ranked list.
\<close>

theorem ranking_by_weighted_score:
  assumes "ranked = rank_root_causes (generate_root_cause_hypotheses F A)"
  shows "(\<forall>h \<in> set ranked.
            h_weighted_score h = Some (h_confidence h * severity_weight (h_severity h)))
       \<and> severity_weight ''high'' = 3 \<and> severity_weight ''medium'' = 2
       \<and> severity_weight ''low'' = 1
       \<and> sorted_wrt (\<lambda>a b. score a \<ge> score b) ranked
       \<and> length ranked = length (generate_root_cause_hypotheses F A)
       \<and> (\<forall>i j. i < length ranked \<and> j < length ranked
              \<and> h_confidence (ranked ! i) = h_confidence (ranked ! j)
              \<and> severity_weight (h_severity (ranked ! i)) > severity_weight (h_severity (ranked ! j))
              \<longrightarrow> i < j)
       \<and> max_root_causes rca_default_config = 5
       \<and> (rca_is_trained self \<and> perform self incident_data incident_metrics = Inr (self1, A) \<longrightarrow>
            r_root_causes (snd (analyze_root_cause F perform now self incident_data incident_metrics))
              = slice_to ranked (max_root_causes (rca_config self1))
          \<and> (max_root_causes (rca_config self1) = 5 \<longrightarrow>
               r_root_causes (snd (analyze_root_cause F perform now self incident_data incident_metrics))
                 = take 5 ranked)
          \<and> r_confidence (snd (analyze_root_cause F perform now self incident_data incident_metrics))
              = np_mean_or_nan (map h_confidence ranked)
          \<and> (ranked \<noteq> [] \<longrightarrow>
               r_confidence (snd (analyze_root_cause F perform now self incident_data incident_metrics))
                 = Fin (sum_list (map h_confidence ranked) / real (length ranked))))"
proof -
  have s1: "\<forall>h \<in> set ranked.
            h_weighted_score h = Some (h_confidence h * severity_weight (h_severity h))"
    unfolding assms using rank_scores by blast
  have s2: "severity_weight ''high'' = 3 \<and> severity_weight ''medium'' = 2
       \<and> severity_weight ''low'' = 1"
    by (simp add: severity_weight_def)
  have s3: "sorted_wrt (\<lambda>a b. score a \<ge> score b) ranked"
    unfolding assms by (rule rank_sorted)
  have s4: "length ranked = length (generate_root_cause_hypotheses F A)"
    unfolding assms by (rule rank_length)
  have s5: "i < j"
    if h: "i < length ranked \<and> j < length ranked
              \<and> h_confidence (ranked ! i) = h_confidence (ranked ! j)
              \<and> severity_weight (h_severity (ranked ! i)) > severity_weight (h_severity (ranked ! j))"
    for i j
  proof -
    have li: "i < length ranked" and lj: "j < length ranked"
      and ce: "h_confidence (ranked ! i) = h_confidence (ranked ! j)"
      and sw: "severity_weight (h_severity (ranked ! i)) > severity_weight (h_severity (ranked ! j))"
      using h by simp_all
    have si: "score (ranked ! i) = h_confidence (ranked ! i) * severity_weight (h_severity (ranked ! i))"
      using rank_scores [of "ranked ! i" "generate_root_cause_hypotheses F A"] nth_mem [OF li]
      by (simp add: assms)
    have sj: "score (ranked ! j) = h_confidence (ranked ! j) * severity_weight (h_severity (ranked ! j))"
      using rank_scores [of "ranked ! j" "generate_root_cause_hypotheses F A"] nth_mem [OF lj]
      by (simp add: assms)
    have gi: "0 < h_confidence (ranked ! i)
       \<or> (h_confidence (ranked ! i) = 0 \<and> h_severity (ranked ! i) = ''low'')"
      using rank_nth_generated [of i F A] li by (simp add: assms)
    have pos: "0 < h_confidence (ranked ! i)"
    proof (rule ccontr)
      assume "\<not> 0 < h_confidence (ranked ! i)"
      then have "h_severity (ranked ! i) = ''low''" using gi by blast
      then show False
        using sw severity_weight_low_least [of "h_severity (ranked ! j)"] by simp
    qed
    have "score (ranked ! i) > score (ranked ! j)"
      unfolding si sj using pos ce sw by simp
    then show ?thesis
      using rank_before [of i "generate_root_cause_hypotheses F A" j] li lj by (simp add: assms)
  qed
  have s6: "max_root_causes rca_default_config = 5"
    by (simp add: rca_default_config_def)
  have s7: "r_root_causes (snd (analyze_root_cause F perform now self incident_data incident_metrics))
              = slice_to ranked (max_root_causes (rca_config self1))
          \<and> (max_root_causes (rca_config self1) = 5 \<longrightarrow>
               r_root_causes (snd (analyze_root_cause F perform now self incident_data incident_metrics))
                 = take 5 ranked)
          \<and> r_confidence (snd (analyze_root_cause F perform now self incident_data incident_metrics))
              = np_mean_or_nan (map h_confidence ranked)
          \<and> (ranked \<noteq> [] \<longrightarrow>
               r_confidence (snd (analyze_root_cause F perform now self incident_data incident_metrics))
                 = Fin (sum_list (map h_confidence ranked) / real (length ranked)))"
    if "rca_is_trained self \<and> perform self incident_data incident_metrics = Inr (self1, A)"
    using that
    by (simp add: analyze_root_cause_def Let_def assms slice_to_def np_mean_or_nan_def np_mean_def)
  show ?thesis
    using s1 s2 s3 s4 s5 s6 s7 by blast
qed


lemma busy_ranked_names:
  "map (\<lambda>h. (h_type h, h_metric h))
     (rank_root_causes (generate_root_cause_hypotheses plain_formats busy_analysis))
   = [(''statistical_outlier'', ''mem''), (''ai_anomaly'', ''multiple''), (''trend_anomaly'', ''cpu''),
      (''statistical_outlier'', ''cpu''), (''trend_anomaly'', ''mem''),
      (''statistical_outlier'', ''io''), (''trend_anomaly'', ''io'')]"
  by (simp add: rank_root_causes_def generate_root_cause_hypotheses_def level_1_hypotheses_def
        level_2_hypotheses_def level_3_hypotheses_def busy_analysis_def with_score_def score_def
        severity_weight_def sort_key_def Let_def)

lemma busy_ranked_confidences:
  "map h_confidence
     (rank_root_causes (generate_root_cause_hypotheses plain_formats busy_analysis))
   = [2 / 5, 1 / 5, 1 / 2, 1 / 5, 3 / 10, 1 / 10, 1 / 5]"
  by (simp add: rank_root_causes_def generate_root_cause_hypotheses_def level_1_hypotheses_def
        level_2_hypotheses_def level_3_hypotheses_def busy_analysis_def with_score_def score_def
        severity_weight_def sort_key_def Let_def)

theorem ranking_by_weighted_score_witness:
  "rca_is_trained trained_analyzer
   \<and> length (rank_root_causes (generate_root_cause_hypotheses plain_formats busy_analysis)) = 7
   \<and> map (\<lambda>h. (h_type h, h_metric h))
        (r_root_causes (snd (analyze_root_cause plain_formats (\<lambda>s d m. Inr (s, busy_analysis))
           12 trained_analyzer () [])))
      = [(''statistical_outlier'', ''mem''), (''ai_anomaly'', ''multiple''), (''trend_anomaly'', ''cpu''),
         (''statistical_outlier'', ''cpu''), (''trend_anomaly'', ''mem'')]
   \<and> r_confidence (snd (analyze_root_cause plain_formats (\<lambda>s d m. Inr (s, busy_analysis))
           12 trained_analyzer () []))
      = Fin (19 / 70)"
proof -
  let ?ranked = "rank_root_causes (generate_root_cause_hypotheses plain_formats busy_analysis)"
  note t = ranking_by_weighted_score [OF refl, where F = plain_formats and A = busy_analysis
      and self = trained_analyzer and ?self1.0 = trained_analyzer
      and perform = "\<lambda>s d m. Inr (s, busy_analysis)" and incident_data = "()"
      and incident_metrics = "[]" and now = 12]
  have p: "rca_is_trained trained_analyzer"
    and k: "max_root_causes (rca_config trained_analyzer) = 5"
    by (simp_all add: trained_analyzer_def rca_init_def rca_default_config_def)
  have l: "length ?ranked = 7"
    using arg_cong [OF busy_ranked_confidences, of length] by simp
  have r: "r_root_causes (snd (analyze_root_cause plain_formats (\<lambda>s d m. Inr (s, busy_analysis))
           12 trained_analyzer () [])) = take 5 ?ranked"
    and c: "r_confidence (snd (analyze_root_cause plain_formats (\<lambda>s d m. Inr (s, busy_analysis))
           12 trained_analyzer () [])) = np_mean_or_nan (map h_confidence ?ranked)"
    using t p k by (simp_all add: slice_to_def)
  have n: "map (\<lambda>h. (h_type h, h_metric h)) (take 5 ?ranked)
      = take 5 (map (\<lambda>h. (h_type h, h_metric h)) ?ranked)"
    by (simp add: take_map)
  show ?thesis
    unfolding r c n busy_ranked_names busy_ranked_confidences
    using p l by (simp add: np_mean_or_nan_def np_mean_def)
qed


section \<open>Properties of the predictive scaler's training\<close>

lemma train_targets_scalers:
  "ps_scalers (fst (train_targets P s train test Xtr Xte ks)) = ps_scalers s"
  by (induction ks arbitrary: s) (auto simp: Let_def split: sum.splits prod.splits)

lemma shuffles_length: "shuffles perm \<Longrightarrow> length (perm seed n) = n"
proof -
  assume s: "shuffles perm"
  have d: "distinct (perm seed n)" and e: "set (perm seed n) = {..<n}"
    using s by (simp_all add: shuffles_def)
  have "length (perm seed n) = card (set (perm seed n))"
    using distinct_card [OF d] by simp
  also have "\<dots> = n" by (simp add: e)
  finally show ?thesis .
qed

lemma split_parts:
  assumes sh: "shuffles perm"
    and sp: "train_test_split perm ceil_mul prepared ts seed = Inr (train, test)"
  shows "length test = ceil_mul ts (length prepared)"
    and "length train + length test = length prepared"
    and "set train \<union> set test = set prepared"
    and "test = map (\<lambda>i. prepared ! i) (take (length test) (perm seed (length prepared)))"
    and "train = map (\<lambda>i. prepared ! i) (drop (length test) (perm seed (length prepared)))"
    and "0 < length train"
proof -
  let ?n = "length prepared"
  let ?k = "ceil_mul ts ?n"
  let ?p = "perm seed ?n"
  have lt: "?k < ?n" and tr: "train = map (\<lambda>i. prepared ! i) (drop ?k ?p)"
    and te: "test = map (\<lambda>i. prepared ! i) (take ?k ?p)"
    using sp by (auto simp: train_test_split_def Let_def split: if_splits)
  have lp: "length ?p = ?n" by (rule shuffles_length [OF sh])
  show 1: "length test = ?k" using lt lp by (simp add: te)
  show "length train + length test = ?n" using lt lp by (simp add: te tr)
  show "0 < length train" using lt lp by (simp add: tr)
  have "set train \<union> set test = (\<lambda>i. prepared ! i) ` (set (drop ?k ?p) \<union> set (take ?k ?p))"
    by (auto simp: tr te)
  also have "set (drop ?k ?p) \<union> set (take ?k ?p) = set ?p"
    by (metis Un_commute append_take_drop_id set_append)
  also have "set ?p = {..<?n}" using sh by (simp add: shuffles_def)
  also have "(\<lambda>i. prepared ! i) ` {..<?n} = set prepared"
    by (auto simp: set_conv_nth)
  finally show "set train \<union> set test = set prepared" .
  show "test = map (\<lambda>i. prepared ! i) (take (length test) ?p)" unfolding 1 by (rule te)
  show "train = map (\<lambda>i. prepared ! i) (drop (length test) ?p)" unfolding 1 by (rule tr)
qed

lemma train_stores_scaler:
  assumes "min_training_samples (ps_config self) \<le> frame_len P training_data"
    and "prepare_features P training_data = Inr prepared"
    and "train_test_split (permutation P) (ceil_product P) prepared (test_size (ps_config self))
           (split_random_state (ps_config self)) = Inr (train, test)"
    and "scaler_fit_transform P (map s_x train) = Inr (scaler, X_train_scaled)"
    and "scaler_transform P scaler (map s_x test) = Inr X_test_scaled"
  shows "map_of (ps_scalers (fst (ps_train_models P now self training_data))) ''feature_scaler''
           = Some scaler"
proof -
  let ?s1 = "self\<lparr> ps_scalers := AList.update ''feature_scaler'' scaler (ps_scalers self) \<rparr>"
  have "ps_scalers (fst (ps_train_models P now self training_data))
      = ps_scalers (fst (train_targets P ?s1 train test X_train_scaled X_test_scaled
                           [0 ..< length lag_features]))"
    using assms
    by (simp add: ps_train_models_def Let_def split: prod.splits option.splits)
  then show ?thesis
    by (simp add: train_targets_scalers update_conv')
qed

subsection \<open>The mask selection\<close>

text \<open>
  The mask has one entry for every label of the two parts together, and it is applied
  to the scaled matrix of each part alone.  When the labels of the prepared rows are
  distinct and the scaler keeps the number of rows, the mask is longer than one of the
  two matrices, the first target raises, and \<open>train_models\<close> ends untrained with that
  exception, whatever the data.
\<close>

lemma valid_mask_length:
  "length (valid_mask (map (\<lambda>s. (s_index s, f s)) train) (map (\<lambda>s. (s_index s, g s)) test))
     = card (s_index ` (set train \<union> set test))"
proof -
  have "length (valid_mask (map (\<lambda>s. (s_index s, f s)) train) (map (\<lambda>s. (s_index s, g s)) test))
      = length (remdups (map s_index train @ map s_index test))"
    by (simp add: valid_mask_def comp_def)
  also have "\<dots> = card (set (map s_index train @ map s_index test))"
    by (rule length_remdups_card_conv)
  also have "set (map s_index train @ map s_index test) = s_index ` (set train \<union> set test)"
    by auto
  finally show ?thesis .
qed

lemma train_targets_mask:
  assumes "card (s_index ` (set train \<union> set test)) \<noteq> length Xtr
         \<or> card (s_index ` (set train \<union> set test)) \<noteq> length Xte"
  shows "train_targets P s train test Xtr Xte (k # ks)
       = (s, Some (IndexError ''boolean index did not match indexed array along axis 0''))"
  using assms
  by (auto simp: Let_def bool_index_def valid_mask_length simp del: set_map)

lemma train_models_raises:
  assumes sh: "shuffles (permutation P)"
    and dl: "\<And>prepared. prepare_features P training_data = Inr prepared
               \<Longrightarrow> distinct (map s_index prepared)"
    and kf: "\<And>X s X'. scaler_fit_transform P X = Inr (s, X') \<Longrightarrow> length X' = length X"
    and kt: "\<And>s X X'. scaler_transform P s X = Inr X' \<Longrightarrow> length X' = length X"
  shows "snd (ps_train_models P now self training_data) \<noteq> None
       \<and> \<not> ps_is_trained (fst (ps_train_models P now self training_data))"
proof (cases "frame_len P training_data < min_training_samples (ps_config self)")
  case True
  then show ?thesis by (simp add: ps_train_models_def)
next
  case big: False
  show ?thesis
  proof (cases "prepare_features P training_data")
    case (Inl e)
    then show ?thesis using big by (simp add: ps_train_models_def)
  next
    case pr: (Inr prepared)
    show ?thesis
    proof (cases "train_test_split (permutation P) (ceil_product P) prepared
                    (test_size (ps_config self)) (split_random_state (ps_config self))")
      case (Inl e)
      then show ?thesis using big pr by (simp add: ps_train_models_def)
    next
      case (Inr parts)
      obtain train test where parts: "parts = (train, test)" by (cases parts)
      note sp = Inr [unfolded parts]
      show ?thesis
      proof (cases "scaler_fit_transform P (map s_x train)")
        case (Inl e)
        then show ?thesis using big pr sp by (simp add: ps_train_models_def)
      next
        case (Inr fitted)
        obtain scaler Xtr where fitted: "fitted = (scaler, Xtr)" by (cases fitted)
        note ft = Inr [unfolded fitted]
        show ?thesis
        proof (cases "scaler_transform P scaler (map s_x test)")
          case (Inl e)
          then show ?thesis using big pr sp ft by (simp add: ps_train_models_def)
        next
          case tt: (Inr Xte)
          have l1: "length Xtr = length train" using kf [OF ft] by simp
          have l2: "length Xte = length test" using kt [OF tt] by simp
          have "card (s_index ` (set train \<union> set test)) = card (set (map s_index prepared))"
            by (simp add: split_parts(3) [OF sh sp])
          also have "\<dots> = length prepared"
            using distinct_card [OF dl [OF pr]] by simp
          finally have c: "card (s_index ` (set train \<union> set test)) = length train + length test"
            by (simp add: split_parts(2) [OF sh sp])
          have "card (s_index ` (set train \<union> set test)) \<noteq> length Xtr
              \<or> card (s_index ` (set train \<union> set test)) \<noteq> length Xte"
            using c l1 l2 split_parts(6) [OF sh sp] by arith
          note m = train_targets_mask [OF this]
          have u: "[0 ..< length lag_features] = 0 # [1 ..< length lag_features]"
            by (simp add: lag_features_def upt_conv_Cons)
          show ?thesis
            using big by (simp add: ps_train_models_def pr sp ft tt Let_def u m del: train_targets.simps)
        qed
      qed
    qed
  qed
qed

subsection \<open>Prediction\<close>

lemma predict_frame: "fst (predict_scaling_needs P fmt now self current_data h) = self"
  by (simp add: predict_scaling_needs_def Let_def split: sum.splits prod.splits option.splits)

lemma predict_uses_scaler:
  assumes "ps_is_trained self" and "prepare_features P current_data = Inr prepared"
    and "map_of (ps_scalers self) ''feature_scaler'' = Some scaler"
  shows "snd (predict_scaling_needs P fmt now self current_data h) =
     (case scaler_transform P scaler (map s_x prepared) of
        Inl e \<Rightarrow> ps_error_result (str e)
      | Inr X_pred_scaled \<Rightarrow>
          (case predict_targets P fmt self current_data X_pred_scaled
                  (case h of None \<Rightarrow> prediction_horizon (ps_config self) | Some v \<Rightarrow> v)
                  lag_features ([], []) of
             Inl e \<Rightarrow> ps_error_result (str e)
           | Inr (predictions, scaling_recommendations) \<Rightarrow>
               \<lparr> p_predictions = predictions,
                 p_scaling_recommendations = scaling_recommendations,
                 p_confidence = calculate_prediction_confidence self predictions,
                 p_error = None,
                 p_prediction_horizon =
                   Some (case h of None \<Rightarrow> prediction_horizon (ps_config self) | Some v \<Rightarrow> v),
                 p_timestamp = Some now \<rparr>))"
  using assms
  by (simp add: predict_scaling_needs_def Let_def split: sum.splits prod.splits option.splits)


subsection \<open>The sample run, evaluated\<close>

lemma sample_prepared: "drop 96 sample_rows = map sample_row [96, 97, 98, 99, 100]"
  by (simp add: sample_rows_def drop_map)

lemma sample_fields:
  "frame_len sample_ps_lib = length"
  "prepare_features sample_ps_lib d = Inr (drop 96 d)"
  "scaler_fit_transform sample_ps_lib = standard_fit_transform"
  "scaler_transform sample_ps_lib = standard_transform"
  "permutation sample_ps_lib 42 5 = [1, 4, 2, 0, 3]"
  "ceil_product sample_ps_lib (1 / 5) 5 = 1"
  by (simp_all add: sample_ps_lib_def)

lemma sample_config:
  "ps_config (ps_init :: (nat, real list \<times> real list) scaling_model) = ps_default_config"
  "test_size ps_default_config = 1 / 5"
  "split_random_state ps_default_config = 42"
  "min_training_samples ps_default_config = 100"
  by (simp_all add: ps_init_def ps_default_config_def)

lemma sample_split:
  "train_test_split (permutation sample_ps_lib) (ceil_product sample_ps_lib)
     (map sample_row [96, 97, 98, 99, 100])
     (test_size ps_default_config) (split_random_state ps_default_config)
   = Inr (map sample_row [100, 98, 96, 99], map sample_row [97])"
  by (simp add: train_test_split_def sample_ps_lib_def sample_config Let_def)

lemma sample_scaler:
  "standard_fit_transform (map s_x (map sample_row [100, 98, 96, 99]))
     = Inr (([393 / 4], [35 / 16]),
            [[(7 / 4) / sqrt (35 / 16)], [(- 1 / 4) / sqrt (35 / 16)],
             [(- 9 / 4) / sqrt (35 / 16)], [(3 / 4) / sqrt (35 / 16)]])"
  by (simp add: sample_row_def standard_fit_transform_def matrix_column_def np_mean_def
        pvariance_def scale_of_def Let_def power2_eq_square)

lemma sample_test_scaled:
  "standard_transform ([393 / 4], [35 / 16]) (map s_x (map sample_row [97]))
     = Inr [[(- 5 / 4) / sqrt (35 / 16)]]"
  by (simp add: sample_row_def standard_transform_def scale_of_def)

lemma sample_shuffles: "shuffles (permutation sample_ps_lib)"
  by (auto simp: shuffles_def sample_ps_lib_def)

lemma sample_raises:
  "ps_train_models sample_ps_lib 7 ps_init sample_rows
     = (ps_init\<lparr> ps_scalers := [(''feature_scaler'', ([393 / 4], [35 / 16]))],
                 ps_is_trained := False \<rparr>,
        Some (IndexError ''boolean index did not match indexed array along axis 0''))"
proof -
  let ?init = "ps_init :: (nat, real list \<times> real list) scaling_model"
  have l: "\<not> length sample_rows < 100" by (simp add: sample_rows_def)
  have c: "card (s_index ` (set (map sample_row [100, 98, 96, 99]) \<union> set (map sample_row [97])))
             = 5"
    by (simp add: sample_row_def)
  have m: "train_targets sample_ps_lib s (map sample_row [100, 98, 96, 99])
           (map sample_row [97]) Xtr Xte (k # ks)
        = (s, Some (IndexError ''boolean index did not match indexed array along axis 0''))"
    if "length Xtr = 4" for s Xtr Xte k ks
    by (intro train_targets_mask) (simp only: c that, simp)
  have u: "[0 ..< length lag_features] = 0 # [1 ..< length lag_features]"
    by (simp add: lag_features_def upt_conv_Cons)
  have s: "ps_scalers ?init = []" by (simp add: ps_init_def)
  show ?thesis
    using l
    by (simp add: ps_train_models_def sample_fields sample_config(1,4) sample_prepared sample_split
          sample_scaler sample_test_scaled Let_def u m s del: train_targets.simps list.map map_map)
qed

lemma shipped_model_eval:
  "shipped_model = ps_init\<lparr> ps_models := [(''linear_regression_throughput'', 3)],
                           ps_scalers := [(''feature_scaler'', ([393 / 4], [35 / 16]))],
                           ps_is_trained := True, ps_last_training := Some 5 \<rparr>"
  by (simp add: shipped_model_def ps_load_models_def shipped_disk_def shipped_bundle_def
        ps_init_def Let_def)

lemma sample_window_scaled:
  "standard_transform ([393 / 4], [35 / 16]) (map s_x (map sample_row [96, 97, 98, 99, 100]))
     = Inr [[(- 9 / 4) / sqrt (35 / 16)], [(- 5 / 4) / sqrt (35 / 16)],
            [(- 1 / 4) / sqrt (35 / 16)], [(3 / 4) / sqrt (35 / 16)],
            [(7 / 4) / sqrt (35 / 16)]]"
  by (simp add: sample_row_def standard_transform_def scale_of_def)

lemma sample_forecast:
  "map_option fst (case predict_targets sample_ps_lib fmt shipped_model sample_rows
       [[(- 9 / 4) / sqrt (35 / 16)], [(- 5 / 4) / sqrt (35 / 16)],
        [(- 1 / 4) / sqrt (35 / 16)], [(3 / 4) / sqrt (35 / 16)],
        [(7 / 4) / sqrt (35 / 16)]] 24 lag_features ([], []) of
          Inl e \<Rightarrow> None | Inr found \<Rightarrow> Some found)
     = Some [(''throughput'', [50, 50, 50, 50, 50])]"
  by (simp add: lag_features_def shipped_model_eval sample_ps_lib_def first_segment_def
        ensemble_mean_def np_mean_def upt_conv_Cons Let_def)


text \<open>
  C2, as amended: \<open>train_models\<close> splits the prepared rows with the library's seeded
  shuffle: the test part is the rows at the first \<open>ceil(test_size * n)\<close> positions of the
  permutation and the training part the rows at the others, so the two parts cover the
  rows, but in the order of the permutation, not of time.  One feature scaler is fitted,
  on the features of the training part, and stored under \<open>feature_scaler\<close> before the
  targets are fitted; it stays there whatever the fitting of the targets does.
  \<open>predict_scaling_needs\<close> leaves the model as it was, and on a trained model that holds
  a feature scaler its result is computed from the window's features transformed by that
  scaler: the error result of the transformation's exception, or else the forecasts of
  the stored estimators on the transformed features.
\<close>

theorem shuffled_split_single_scaler:
  assumes "shuffles (permutation P)"
  shows "(prepare_features P training_data = Inr prepared
          \<and> train_test_split (permutation P) (ceil_product P) prepared
                (test_size (ps_config self)) (split_random_state (ps_config self))
              = Inr (train, test) \<longrightarrow>
            length test = ceil_product P (test_size (ps_config self)) (length prepared)
          \<and> length train + length test = length prepared
          \<and> set train \<union> set test = set prepared
          \<and> test = map (\<lambda>i. prepared ! i)
               (take (length test)
                  (permutation P (split_random_state (ps_config self)) (length prepared)))
          \<and> train = map (\<lambda>i. prepared ! i)
               (drop (length test)
                  (permutation P (split_random_state (ps_config self)) (length prepared)))
          \<and> (min_training_samples (ps_config self) \<le> frame_len P training_data
               \<and> scaler_fit_transform P (map s_x train) = Inr (scaler, X_train_scaled)
               \<and> scaler_transform P scaler (map s_x test) = Inr X_test_scaled \<longrightarrow>
               map_of (ps_scalers (fst (ps_train_models P now self training_data)))
                 ''feature_scaler'' = Some scaler))
       \<and> fst (predict_scaling_needs P fmt clock model current_data h) = model
       \<and> (ps_is_trained model \<and> prepare_features P current_data = Inr window
            \<and> map_of (ps_scalers model) ''feature_scaler'' = Some stored \<longrightarrow>
            snd (predict_scaling_needs P fmt clock model current_data h) =
              (case scaler_transform P stored (map s_x window) of
                 Inl e \<Rightarrow> ps_error_result (str e)
               | Inr X_pred_scaled \<Rightarrow>
                   (case predict_targets P fmt model current_data X_pred_scaled
                           (case h of None \<Rightarrow> prediction_horizon (ps_config model)
                                    | Some v \<Rightarrow> v)
                           lag_features ([], []) of
                      Inl e \<Rightarrow> ps_error_result (str e)
                    | Inr (predictions, scaling_recommendations) \<Rightarrow>
                        \<lparr> p_predictions = predictions,
                          p_scaling_recommendations = scaling_recommendations,
                          p_confidence = calculate_prediction_confidence model predictions,
                          p_error = None,
                          p_prediction_horizon =
                            Some (case h of None \<Rightarrow> prediction_horizon (ps_config model)
                                          | Some v \<Rightarrow> v),
                          p_timestamp = Some clock \<rparr>)))"
proof (intro conjI impI)
  assume a: "prepare_features P training_data = Inr prepared
          \<and> train_test_split (permutation P) (ceil_product P) prepared
                (test_size (ps_config self)) (split_random_state (ps_config self))
              = Inr (train, test)"
  then have sp: "train_test_split (permutation P) (ceil_product P) prepared
                (test_size (ps_config self)) (split_random_state (ps_config self))
              = Inr (train, test)"
    and pr: "prepare_features P training_data = Inr prepared" by simp_all
  show "length test = ceil_product P (test_size (ps_config self)) (length prepared)"
    by (rule split_parts(1) [OF assms sp])
  show "length train + length test = length prepared"
    by (rule split_parts(2) [OF assms sp])
  show "set train \<union> set test = set prepared"
    by (rule split_parts(3) [OF assms sp])
  show "test = map (\<lambda>i. prepared ! i)
               (take (length test)
                  (permutation P (split_random_state (ps_config self)) (length prepared)))"
    by (rule split_parts(4) [OF assms sp])
  show "train = map (\<lambda>i. prepared ! i)
               (drop (length test)
                  (permutation P (split_random_state (ps_config self)) (length prepared)))"
    by (rule split_parts(5) [OF assms sp])
  assume b: "min_training_samples (ps_config self) \<le> frame_len P training_data
               \<and> scaler_fit_transform P (map s_x train) = Inr (scaler, X_train_scaled)
               \<and> scaler_transform P scaler (map s_x test) = Inr X_test_scaled"
  show "map_of (ps_scalers (fst (ps_train_models P now self training_data)))
                 ''feature_scaler'' = Some scaler"
    using b by (intro train_stores_scaler [OF _ pr sp]) simp_all
next
  show "fst (predict_scaling_needs P fmt clock model current_data h) = model"
    by (rule predict_frame)
next
  assume c: "ps_is_trained model \<and> prepare_features P current_data = Inr window
            \<and> map_of (ps_scalers model) ''feature_scaler'' = Some stored"
  show "snd (predict_scaling_needs P fmt clock model current_data h) =
              (case scaler_transform P stored (map s_x window) of
                 Inl e \<Rightarrow> ps_error_result (str e)
               | Inr X_pred_scaled \<Rightarrow>
                   (case predict_targets P fmt model current_data X_pred_scaled
                           (case h of None \<Rightarrow> prediction_horizon (ps_config model)
                                    | Some v \<Rightarrow> v)
                           lag_features ([], []) of
                      Inl e \<Rightarrow> ps_error_result (str e)
                    | Inr (predictions, scaling_recommendations) \<Rightarrow>
                        \<lparr> p_predictions = predictions,
                          p_scaling_recommendations = scaling_recommendations,
                          p_confidence = calculate_prediction_confidence model predictions,
                          p_error = None,
                          p_prediction_horizon =
                            Some (case h of None \<Rightarrow> prediction_horizon (ps_config model)
                                          | Some v \<Rightarrow> v),
                          p_timestamp = Some clock \<rparr>))"
    using c by (intro predict_uses_scaler) simp_all
qed

theorem shuffled_split_single_scaler_witness:
  "shuffles (permutation sample_ps_lib)
   \<and> prepare_features sample_ps_lib sample_rows = Inr (map sample_row [96, 97, 98, 99, 100])
   \<and> train_test_split (permutation sample_ps_lib) (ceil_product sample_ps_lib)
        (map sample_row [96, 97, 98, 99, 100])
        (test_size ps_default_config) (split_random_state ps_default_config)
       = Inr (map sample_row [100, 98, 96, 99], map sample_row [97])
   \<and> min_training_samples ps_default_config \<le> frame_len sample_ps_lib sample_rows
   \<and> map_of (ps_scalers (fst (ps_train_models sample_ps_lib 7 ps_init sample_rows)))
        ''feature_scaler'' = Some ([393 / 4], [35 / 16])
   \<and> ps_is_trained shipped_model
   \<and> map_of (ps_scalers shipped_model) ''feature_scaler'' = Some ([393 / 4], [35 / 16])
   \<and> fst (predict_scaling_needs sample_ps_lib (\<lambda>x. ''x'') 8 shipped_model sample_rows None)
       = shipped_model
   \<and> p_predictions
        (snd (predict_scaling_needs sample_ps_lib (\<lambda>x. ''x'') 8 shipped_model sample_rows None))
       = [(''throughput'', [50, 50, 50, 50, 50])]"
proof -
  let ?init = "ps_init :: (nat, real list \<times> real list) scaling_model"
  have pr: "prepare_features sample_ps_lib sample_rows = Inr (map sample_row [96, 97, 98, 99, 100])"
    by (simp add: sample_fields sample_prepared)
  have sp: "train_test_split (permutation sample_ps_lib) (ceil_product sample_ps_lib)
        (map sample_row [96, 97, 98, 99, 100])
        (test_size (ps_config ?init)) (split_random_state (ps_config ?init))
       = Inr (map sample_row [100, 98, 96, 99], map sample_row [97])"
    by (simp only: sample_config(1) sample_split)
  have ms: "min_training_samples (ps_config ?init) \<le> frame_len sample_ps_lib sample_rows"
    by (simp add: sample_config sample_fields sample_rows_def)
  have ft: "scaler_fit_transform sample_ps_lib (map s_x (map sample_row [100, 98, 96, 99]))
      = Inr (([393 / 4], [35 / 16]),
            [[(7 / 4) / sqrt (35 / 16)], [(- 1 / 4) / sqrt (35 / 16)],
             [(- 9 / 4) / sqrt (35 / 16)], [(3 / 4) / sqrt (35 / 16)]])"
    by (simp only: sample_fields sample_scaler)
  have tt: "scaler_transform sample_ps_lib ([393 / 4], [35 / 16]) (map s_x (map sample_row [97]))
      = Inr [[(- 5 / 4) / sqrt (35 / 16)]]"
    by (simp only: sample_fields sample_test_scaled)
  have tr: "ps_is_trained shipped_model"
    and sc: "map_of (ps_scalers shipped_model) ''feature_scaler'' = Some ([393 / 4], [35 / 16])"
    and hz: "prediction_horizon (ps_config shipped_model) = 24"
    by (simp_all add: shipped_model_eval ps_init_def ps_default_config_def)
  have ws: "scaler_transform sample_ps_lib ([393 / 4], [35 / 16])
              (map s_x (map sample_row [96, 97, 98, 99, 100]))
      = Inr [[(- 9 / 4) / sqrt (35 / 16)], [(- 5 / 4) / sqrt (35 / 16)],
            [(- 1 / 4) / sqrt (35 / 16)], [(3 / 4) / sqrt (35 / 16)],
            [(7 / 4) / sqrt (35 / 16)]]"
    by (simp only: sample_fields sample_window_scaled)
  note t = shuffled_split_single_scaler [OF sample_shuffles,
      where training_data = sample_rows and prepared = "map sample_row [96, 97, 98, 99, 100]"
        and self = ?init and train = "map sample_row [100, 98, 96, 99]"
        and test = "map sample_row [97]" and scaler = "([393 / 4], [35 / 16])"
        and X_train_scaled = "[[(7 / 4) / sqrt (35 / 16)], [(- 1 / 4) / sqrt (35 / 16)],
             [(- 9 / 4) / sqrt (35 / 16)], [(3 / 4) / sqrt (35 / 16)]]"
        and X_test_scaled = "[[(- 5 / 4) / sqrt (35 / 16)]]" and now = 7
        and model = shipped_model and fmt = "\<lambda>x. ''x''" and clock = 8
        and current_data = sample_rows and h = None
        and window = "map sample_row [96, 97, 98, 99, 100]"
        and stored = "([393 / 4], [35 / 16])"]
  have st: "map_of (ps_scalers (fst (ps_train_models sample_ps_lib 7 ?init sample_rows)))
        ''feature_scaler'' = Some ([393 / 4], [35 / 16])"
    using t pr sp ms ft tt by blast
  have fr: "fst (predict_scaling_needs sample_ps_lib (\<lambda>x. ''x'') 8 shipped_model sample_rows None)
       = shipped_model"
    using t by blast
  have "snd (predict_scaling_needs sample_ps_lib (\<lambda>x. ''x'') 8 shipped_model sample_rows None) =
              (case scaler_transform sample_ps_lib ([393 / 4], [35 / 16])
                      (map s_x (map sample_row [96, 97, 98, 99, 100])) of
                 Inl e \<Rightarrow> ps_error_result (str e)
               | Inr X_pred_scaled \<Rightarrow>
                   (case predict_targets sample_ps_lib (\<lambda>x. ''x'') shipped_model sample_rows
                           X_pred_scaled
                           (case None of None \<Rightarrow> prediction_horizon (ps_config shipped_model)
                                    | Some v \<Rightarrow> v)
                           lag_features ([], []) of
                      Inl e \<Rightarrow> ps_error_result (str e)
                    | Inr (predictions, scaling_recommendations) \<Rightarrow>
                        \<lparr> p_predictions = predictions,
                          p_scaling_recommendations = scaling_recommendations,
                          p_confidence = calculate_prediction_confidence shipped_model predictions,
                          p_error = None,
                          p_prediction_horizon =
                            Some (case None of None \<Rightarrow> prediction_horizon (ps_config shipped_model)
                                          | Some v \<Rightarrow> v),
                          p_timestamp = Some 8 \<rparr>))"
    using t tr pr sc by blast
  then have pp: "p_predictions
        (snd (predict_scaling_needs sample_ps_lib (\<lambda>x. ''x'') 8 shipped_model sample_rows None))
       = [(''throughput'', [50, 50, 50, 50, 50])]"
    using sample_forecast [of "\<lambda>x. ''x''"]
    by (simp only: ws hz sum.case option.case split: sum.splits prod.splits)
       (auto split: sum.splits)
  show ?thesis
    using sample_shuffles pr sample_split ms st tr sc fr pp
    by (simp only: sample_config(1) simp_thms)
qed

text \<open>
  C2 as stated fails.  On 101 rows at the times 0 to 100, which pass the size check of
  \<open>train_models\<close>, feature preparation keeps the rows of the times 96 to 100; the split
  puts the row of time 97 in the test part and the rows of the times 100, 98, 96, 99 in
  the training part, so three training rows are later than the test row.  The run stores
  the scaler fitted on those four rows (mean 98.25) and then ends in the exception of the
  mask selection.
\<close>

theorem time_ordered_split_counterexample:
  "min_training_samples ps_default_config \<le> frame_len sample_ps_lib sample_rows
   \<and> prepare_features sample_ps_lib sample_rows = Inr (map sample_row [96, 97, 98, 99, 100])
   \<and> train_test_split (permutation sample_ps_lib) (ceil_product sample_ps_lib)
        (map sample_row [96, 97, 98, 99, 100])
        (test_size ps_default_config) (split_random_state ps_default_config)
       = Inr (map sample_row [100, 98, 96, 99], map sample_row [97])
   \<and> \<not> time_ordered (map sample_row [100, 98, 96, 99]) (map sample_row [97])
   \<and> s_time (sample_row 100) = 100 \<and> s_time (sample_row 97) = 97
   \<and> ps_train_models sample_ps_lib 7 ps_init sample_rows
       = (ps_init\<lparr> ps_scalers := [(''feature_scaler'', ([393 / 4], [35 / 16]))],
                   ps_is_trained := False \<rparr>,
          Some (IndexError ''boolean index did not match indexed array along axis 0''))"
proof -
  have "min_training_samples ps_default_config \<le> frame_len sample_ps_lib sample_rows"
    by (simp add: sample_config sample_fields sample_rows_def)
  moreover have "prepare_features sample_ps_lib sample_rows
                   = Inr (map sample_row [96, 97, 98, 99, 100])"
    by (simp add: sample_fields sample_prepared)
  moreover have "\<not> time_ordered (map sample_row [100, 98, 96, 99]) (map sample_row [97])"
    by (simp add: time_ordered_def sample_row_def)
  moreover have "s_time (sample_row 100) = 100 \<and> s_time (sample_row 97) = 97"
    by (simp add: sample_row_def)
  ultimately show ?thesis
    using sample_split sample_raises by (simp only: simp_thms)
qed


end
